theory Spec2Isabelle
  imports Main "HOL-Library.AList" "HOL-Library.Char_ord" "HOL-Library.List_Lexorder"
    "HOL-Library.Word"
begin

section \<open>Python values shared by the harness modules\<close>

text \<open>
  Exceptions are values. Only the exceptions the modelled functions can raise are listed;
  \<open>Exception\<close> carries a tag for the message the source formats.
\<close>

datatype py_error =
    KeyError string
  | UnboundLocalError string
  | ValueError string
  | TypeError string
  | TimeoutError string
  | DockerError string
  | Exception string

text \<open>
  A Python \<open>dict\<close> is an association list in insertion order: \<open>AList.update\<close> overwrites
  the value of a present key in place and appends an absent key. A dict comprehension
  inserts its items one after the other.
\<close>

definition dict_of_items :: "('k \<times> 'v) list \<Rightarrow> ('k \<times> 'v) list" where
  "dict_of_items items = foldl (\<lambda>d kv. AList.update (fst kv) (snd kv) d) [] items"

text \<open>
  A Python \<open>set\<close> of strings is a duplicate-free list. Python leaves the iteration order
  of a set open; the model fixes one, and every statement below speaks of the \<open>set\<close> of
  such a list only.
\<close>

definition py_set :: "string list \<Rightarrow> string list" where
  "py_set xs = remdups xs"

definition set_inter :: "string list \<Rightarrow> string list \<Rightarrow> string list" where
  "set_inter a b = filter (\<lambda>x. x \<in> set b) a"

text \<open>\<open>os.path.join(a, b)\<close> on POSIX, for two arguments.\<close>

definition os_path_join :: "string \<Rightarrow> string \<Rightarrow> string" where
  "os_path_join a b =
     (case b of
        c # _ \<Rightarrow>
          if c = CHR ''/'' then b
          else if a = [] \<or> last a = CHR ''/'' then a @ b
          else a @ ''/'' @ b
      | [] \<Rightarrow> if a = [] \<or> last a = CHR ''/'' then a @ b else a @ ''/'' @ b)"

section \<open>The structured test report\<close>

text \<open>
  One phase record (\<open>setup\<close>, \<open>call\<close>, \<open>teardown\<close>) of a test entry; both keys are
  optional in the JSON object. The crash entry is only ever copied by the harness, so it
  is kept as text.
\<close>

record phase =
  ph_longrepr :: "string option"
  ph_crash :: "string option"

record test_entry =
  nodeid :: string
  outcome :: string
  crash :: "string option"
  setup_phase :: "phase option"
  call_phase :: "phase option"
  teardown_phase :: "phase option"

record collector =
  c_nodeid :: string
  c_outcome :: string
  c_longrepr :: string

record report =
  tests :: "test_entry list option"
  collectors :: "collector list option"
  root :: "string option"

text \<open>\<open>report.get('tests', [])\<close>\<close>

definition get_tests :: "report \<Rightarrow> test_entry list" where
  "get_tests r = (case tests r of None \<Rightarrow> [] | Some ts \<Rightarrow> ts)"

section \<open>utils.extract_crash_details_from_report\<close>

text \<open>\<open>'crash' in test[phase]\<close> guarded by \<open>phase in test\<close>, and the crash found there.\<close>

definition phase_crash :: "phase option \<Rightarrow> string option" where
  "phase_crash p = (case p of None \<Rightarrow> None | Some ph \<Rightarrow> ph_crash ph)"

text \<open>\<open>test[phase].get('longrepr', "")\<close>\<close>

definition get_longrepr :: "phase \<Rightarrow> string" where
  "get_longrepr ph = (case ph_longrepr ph of None \<Rightarrow> [] | Some s \<Rightarrow> s)"

text \<open>The branch for outcome \<open>error\<close>: the three long representations, concatenated.\<close>

definition error_detail :: "test_entry \<Rightarrow> string" where
  "error_detail t =
     (case setup_phase t of None \<Rightarrow> [] | Some ph \<Rightarrow> get_longrepr ph @ [CHR 0x0A])
     @ (case call_phase t of None \<Rightarrow> [] | Some ph \<Rightarrow> get_longrepr ph @ [CHR 0x0A])
     @ (case teardown_phase t of None \<Rightarrow> [] | Some ph \<Rightarrow> get_longrepr ph)"

text \<open>
  The branch for outcome \<open>failed\<close>, an \<open>if/elif\<close> chain in this order: the test's own
  \<open>crash\<close>, then \<open>setup\<close>, then \<open>call\<close>, then \<open>teardown\<close>. The \<open>setup\<close> branch reads
  \<open>test['crash']\<close>, a key known to be absent at that point, and so raises \<open>KeyError\<close>.
\<close>

definition failed_detail :: "test_entry \<Rightarrow> py_error + string" where
  "failed_detail t =
     (case crash t of
        Some c \<Rightarrow> Inr c
      | None \<Rightarrow>
          if phase_crash (setup_phase t) \<noteq> None then Inl (KeyError ''crash'')
          else (case phase_crash (call_phase t) of
                  Some c \<Rightarrow> Inr c
                | None \<Rightarrow>
                    (case phase_crash (teardown_phase t) of
                       Some c \<Rightarrow> Inr c
                     | None \<Rightarrow> Inr [])))"

text \<open>The loop over the tests; \<open>output\<close> is the dict being filled.\<close>

fun crash_details_loop ::
  "test_entry list \<Rightarrow> (string \<times> string) list \<Rightarrow> py_error + (string \<times> string) list" where
  "crash_details_loop [] output = Inr output"
| "crash_details_loop (t # ts) output =
     (if outcome t = ''error'' then
        crash_details_loop ts (AList.update (nodeid t) (error_detail t) output)
      else if outcome t = ''failed'' then
        (case failed_detail t of
           Inl e \<Rightarrow> Inl e
         | Inr d \<Rightarrow> crash_details_loop ts (AList.update (nodeid t) d output))
      else crash_details_loop ts output)"

definition extract_crash_details_from_report ::
  "report \<Rightarrow> py_error + (string \<times> string) list" where
  "extract_crash_details_from_report r = crash_details_loop (get_tests r) []"

text \<open>
  The preference the specification words for a failed test: the call phase's crash, then
  the setup phase's, then the teardown phase's. It is compared with \<open>failed_detail\<close> below.
\<close>

definition spec_failed_detail :: "test_entry \<Rightarrow> string option" where
  "spec_failed_detail t =
     (case phase_crash (call_phase t) of
        Some c \<Rightarrow> Some c
      | None \<Rightarrow>
          (case phase_crash (setup_phase t) of
             Some c \<Rightarrow> Some c
           | None \<Rightarrow> phase_crash (teardown_phase t)))"

section \<open>produce.gather_results: the differential classifier\<close>

definition PASS_OUTCOMES :: "string list" where
  "PASS_OUTCOMES = [''passed'', ''skipped'']"

definition FAIL_OUTCOMES :: "string list" where
  "FAIL_OUTCOMES = [''failed'', ''error'']"

text \<open>
  What one round of \<open>evaluate\<close> records for an instance: the worker's
  \<open>{"error": ..., "traceback": ...}\<close>, or (with \<open>short=False\<close>) the report itself.
  \<open>'error' in result\<close> is the test for the first shape.
\<close>

datatype round_result =
    RoundError string string
  | RoundReport report

record result_entry =
  p2p :: "string list"
  f2p :: "string list"
  f2f :: "string list"
  p2f :: "string list"
  f2f_test_details :: "(string \<times> string) list"
  p2f_test_details :: "(string \<times> string) list"

datatype classification =
    ClassError string
  | ClassEntry result_entry

text \<open>\<open>{test['nodeid'] for test in result.get('tests', []) if test['outcome'] in OUTCOMES}\<close>\<close>

definition nodeids_with :: "string list \<Rightarrow> report \<Rightarrow> string list" where
  "nodeids_with outcomes r =
     py_set (map nodeid (filter (\<lambda>test. outcome test \<in> set outcomes) (get_tests r)))"

text \<open>\<open>{test: crash_details[test] for test in keys}\<close>; the subscript raises on a missing key.\<close>

fun details_for ::
  "(string \<times> string) list \<Rightarrow> string list \<Rightarrow> py_error + (string \<times> string) list" where
  "details_for crash_details [] = Inr []"
| "details_for crash_details (test # rest) =
     (case map_of crash_details test of
        None \<Rightarrow> Inl (KeyError test)
      | Some v \<Rightarrow>
          (case details_for crash_details rest of
             Inl e \<Rightarrow> Inl e
           | Inr items \<Rightarrow> Inr ((test, v) # items)))"

text \<open>
  The body of the loop from \<open>result_entry = {...}\<close> to the \<open>update\<close>, given the value the
  variable \<open>crash_details\<close> holds after the \<open>try\<close>.
\<close>

definition classify_entry ::
  "round_result \<Rightarrow> report \<Rightarrow> (string \<times> string) list \<Rightarrow> py_error + result_entry" where
  "classify_entry pre_golden_round_result golden_round_result crash_details =
     (let golden_tests_passed = nodeids_with PASS_OUTCOMES golden_round_result;
          golden_pass = golden_tests_passed;
          golden_fail = py_set (map fst crash_details)
      in case pre_golden_round_result of
           RoundError _ _ \<Rightarrow>
             Inr \<lparr>p2p = [], f2p = golden_tests_passed, f2f = map fst crash_details, p2f = [],
                 f2f_test_details = crash_details, p2f_test_details = []\<rparr>
         | RoundReport pre \<Rightarrow>
             (let pre_golden_pass = nodeids_with PASS_OUTCOMES pre;
                  pre_golden_fail = nodeids_with FAIL_OUTCOMES pre
              in case details_for crash_details (set_inter pre_golden_fail golden_fail) of
                   Inl e \<Rightarrow> Inl e
                 | Inr f2f_details \<Rightarrow>
                     (case details_for crash_details (set_inter pre_golden_pass golden_fail) of
                        Inl e \<Rightarrow> Inl e
                      | Inr p2f_details \<Rightarrow>
                          Inr \<lparr>p2p = set_inter pre_golden_pass golden_pass,
                              f2p = set_inter pre_golden_fail golden_pass,
                              f2f = set_inter pre_golden_fail golden_fail,
                              p2f = set_inter pre_golden_pass golden_fail,
                              f2f_test_details = dict_of_items f2f_details,
                              p2f_test_details = dict_of_items p2f_details\<rparr>)))"

text \<open>
  The rewrite under \<open>if root_dir and root_dir != '/workspace'\<close>: every node id of the
  entry is joined onto the root.
\<close>

definition rewrite_root :: "report \<Rightarrow> result_entry \<Rightarrow> result_entry" where
  "rewrite_root golden_round_result e =
     (case root golden_round_result of
        None \<Rightarrow> e
      | Some root_dir \<Rightarrow>
          if root_dir \<noteq> [] \<and> root_dir \<noteq> ''/workspace'' then
            \<lparr>p2p = map (os_path_join root_dir) (p2p e),
             f2p = map (os_path_join root_dir) (f2p e),
             f2f = map (os_path_join root_dir) (f2f e),
             p2f = map (os_path_join root_dir) (p2f e),
             f2f_test_details =
               dict_of_items (map (\<lambda>kv. (os_path_join root_dir (fst kv), snd kv)) (f2f_test_details e)),
             p2f_test_details =
               dict_of_items (map (\<lambda>kv. (os_path_join root_dir (fst kv), snd kv)) (p2f_test_details e))\<rparr>
          else e)"

text \<open>
  The loop over \<open>golden_round_results.items()\<close>. Its state is the dict being built and the
  local variable \<open>crash_details\<close>, unbound (\<open>None\<close>) before the first assignment: the
  \<open>try\<close> around the extraction only prints the exception, so after a failed extraction
  the variable keeps what an earlier iteration left in it, and reading it while unbound
  raises.
\<close>

fun gather_loop ::
  "(string \<times> round_result) list \<Rightarrow> (string \<times> round_result) list \<Rightarrow>
   (string \<times> classification) list \<Rightarrow> (string \<times> string) list option \<Rightarrow>
   py_error + (string \<times> classification) list" where
  "gather_loop pre [] instance_id2results crash_var = Inr instance_id2results"
| "gather_loop pre ((instance_id, golden_round_result) # rest) instance_id2results crash_var =
     (case map_of pre instance_id of
        None \<Rightarrow> gather_loop pre rest instance_id2results crash_var
      | Some pre_golden_round_result \<Rightarrow>
          (case golden_round_result of
             RoundError err tb \<Rightarrow>
               gather_loop pre rest
                 (AList.update instance_id (ClassError err) instance_id2results) crash_var
           | RoundReport g \<Rightarrow>
               (let crash_var' =
                      (case extract_crash_details_from_report g of
                         Inl _ \<Rightarrow> crash_var
                       | Inr d \<Rightarrow> Some d)
                in case crash_var' of
                     None \<Rightarrow> Inl (UnboundLocalError ''crash_details'')
                   | Some crash_details \<Rightarrow>
                       (case classify_entry pre_golden_round_result g crash_details of
                          Inl e \<Rightarrow> Inl e
                        | Inr result_entry \<Rightarrow>
                            gather_loop pre rest
                              (AList.update instance_id (ClassEntry (rewrite_root g result_entry))
                                 instance_id2results)
                              crash_var'))))"

definition gather_results ::
  "(string \<times> round_result) list \<Rightarrow> (string \<times> round_result) list \<Rightarrow>
   py_error + (string \<times> classification) list" where
  "gather_results pre_golden_round_results golden_round_results =
     gather_loop pre_golden_round_results golden_round_results [] None"



section \<open>run\_instance: gathering the results of one container run\<close>

text \<open>\<open>needle in s\<close> for Python strings.\<close>

fun str_contains :: "string \<Rightarrow> string \<Rightarrow> bool" where
  "str_contains needle [] = (needle = [])"
| "str_contains needle (c # cs) =
     (take (length needle) (c # cs) = needle \<or> str_contains needle cs)"

text \<open>
  \<open>compose_a_report_for_missing_test\<close>. The keys \<open>lineno\<close>, \<open>keywords\<close> and the phases'
  \<open>duration\<close> and \<open>outcome\<close>, which no function of the harness reads, are left out of the
  record. \<open>not longrepr\<close> holds for \<open>None\<close> and for the empty string.
\<close>

definition compose_a_report_for_missing_test :: "string \<Rightarrow> string option \<Rightarrow> test_entry" where
  "compose_a_report_for_missing_test test longrepr =
     (if longrepr = None \<or> longrepr = Some [] then
        \<lparr>nodeid = test, outcome = ''error'', crash = None,
         setup_phase =
           Some \<lparr>ph_longrepr = Some (test @ '' not found in the working directory.''),
                 ph_crash = None\<rparr>,
         call_phase = None,
         teardown_phase =
           Some \<lparr>ph_longrepr = Some (test @ '' not found in the working directory.''),
                 ph_crash = None\<rparr>\<rparr>
      else
        \<lparr>nodeid = test, outcome = ''error'', crash = None,
         setup_phase = Some \<lparr>ph_longrepr = longrepr, ph_crash = None\<rparr>,
         call_phase = None, teardown_phase = None\<rparr>)"

text \<open>
  What \<open>gather_results\<close> returns: the short map from node id to a boolean, or the report.
\<close>

datatype gathered =
    ShortResults "(string \<times> bool) list"
  | FullReport report

text \<open>
  The loop over \<open>results['collectors']\<close>. A failed collector whose long representation
  names \<open>ModuleNotFoundError\<close> or \<open>ImportError\<close> raises at once; any other failed collector
  is entered in \<open>problematic_collectors\<close>.
\<close>

fun collectors_loop ::
  "collector list \<Rightarrow> (string \<times> string) list \<Rightarrow> py_error + (string \<times> string) list" where
  "collectors_loop [] problematic_collectors = Inr problematic_collectors"
| "collectors_loop (c # cs) problematic_collectors =
     (if c_outcome c = ''failed'' then
        (if str_contains ''ModuleNotFoundError'' (c_longrepr c)
            \<or> str_contains ''ImportError'' (c_longrepr c)
         then Inl (Exception (''Failed to collect tests due to an ImportError: ''
                     @ c_nodeid c @ [CHR 0x0A] @ c_longrepr c))
         else collectors_loop cs
                (AList.update (c_nodeid c) (c_longrepr c) problematic_collectors))
      else collectors_loop cs problematic_collectors)"

text \<open>
  The block under \<open># Validate tests\<close>. The message of the second exception ends with the
  \<open>repr\<close> of the dict in the source; the model keeps its fixed part.
\<close>

definition validate_tests ::
  "string list \<Rightarrow> report \<Rightarrow> bool \<Rightarrow> py_error + (string \<times> string) list" where
  "validate_tests test_ids results ignore_collector_errors =
     (case collectors results of
        None \<Rightarrow> Inr []
      | Some cs \<Rightarrow>
          if test_ids \<noteq> [] then
            (case collectors_loop cs [] of
               Inl e \<Rightarrow> Inl e
             | Inr problematic_collectors \<Rightarrow>
                 if problematic_collectors \<noteq> [] \<and> \<not> ignore_collector_errors
                 then Inl (Exception ''Failed to collect tests: '')
                 else Inr problematic_collectors)
          else Inr [])"

text \<open>
  The inner loop that looks for a problematic collector whose node id is contained in the
  missing test's id; the first one in the order of the dict is taken.
\<close>

fun find_longrepr :: "(string \<times> string) list \<Rightarrow> string \<Rightarrow> string option" where
  "find_longrepr [] test = None"
| "find_longrepr ((pcollectors, lr) # rest) test =
     (if str_contains pcollectors test then Some lr else find_longrepr rest test)"

text \<open>
  The loop over \<open>tests_missing\<close>; its state is \<open>short_results\<close> and \<open>results['tests']\<close>.
\<close>

fun missing_loop ::
  "bool \<Rightarrow> (string \<times> string) list \<Rightarrow> string list \<Rightarrow>
   (string \<times> bool) list \<times> test_entry list \<Rightarrow> (string \<times> bool) list \<times> test_entry list" where
  "missing_loop short problematic_collectors [] st = st"
| "missing_loop short problematic_collectors (test # rest) (short_results, result_tests) =
     missing_loop short problematic_collectors rest
       (AList.update test False short_results,
        if \<not> short then
          result_tests
            @ [compose_a_report_for_missing_test test (find_longrepr problematic_collectors test)]
        else result_tests)"

text \<open>
  \<open>EvaluationPipelineInterface.gather_results\<close>. The report file is \<open>None\<close> when it is
  empty and the parsed report otherwise; \<open>test_err\<close> is the text of \<open>test_err.txt\<close>.
\<close>

definition pipeline_gather_results ::
  "report option \<Rightarrow> string \<Rightarrow> string list \<Rightarrow> bool \<Rightarrow> bool \<Rightarrow> bool \<Rightarrow> py_error + gathered" where
  "pipeline_gather_results report_file test_err test_ids skipped_ok short ignore_collector_errors =
     (case report_file of
        None \<Rightarrow>
          if test_err = [] then
            Inl (Exception ''Error while generating the test reports. Are you running pytest using --json-report?'')
          else Inl (Exception (''Error while generating the test reports. '' @ [CHR 0x0A] @ test_err))
      | Some results \<Rightarrow>
          (case tests results of
             None \<Rightarrow> Inl (KeyError ''tests'')
           | Some result_tests \<Rightarrow>
               (let short_results =
                      dict_of_items
                        (map (\<lambda>x. (nodeid x,
                                   if \<not> skipped_ok then outcome x = ''passed''
                                   else outcome x \<in> set [''passed'', ''skipped'']))
                           result_tests)
                in case validate_tests test_ids results ignore_collector_errors of
                     Inl e \<Rightarrow> Inl e
                   | Inr problematic_collectors \<Rightarrow>
                       (let (short_results', result_tests') =
                              (if test_ids \<noteq> [] \<and> length result_tests < length test_ids then
                                 missing_loop short problematic_collectors
                                   (filter (\<lambda>t. t \<notin> fst ` set short_results) test_ids)
                                   (short_results, result_tests)
                               else (short_results, result_tests))
                        in Inr (if short then ShortResults short_results'
                                else FullReport (results\<lparr>tests := Some result_tests'\<rparr>))))))"

section \<open>utils.consistent\_hash: the identity of an environment specification\<close>

text \<open>
  A spec dictionary is what \<open>json.loads\<close> yields: strings, integers, booleans, \<open>null\<close>,
  lists and dicts with string keys (floats are not modelled). A dict is the list of its
  items in insertion order; its keys are pairwise distinct.
\<close>

datatype json =
    JNull
  | JBool bool
  | JInt int
  | JStr string
  | JList "json list"
  | JDict "(string \<times> json) list"

text \<open>What \<open>make_hashable\<close> returns: atoms and tuples.\<close>

datatype hashable =
    HNull
  | HBool bool
  | HInt int
  | HStr string
  | HTuple "hashable list"

text \<open>
  \<open>make_hashable\<close>. A dict becomes the tuple of its \<open>(key, value)\<close> pairs sorted by key
  (the keys of a dict are distinct, so \<open>sorted\<close> never compares two values), a list the
  tuple of its elements. The branch for \<open>set\<close> is not reached on values read from JSON.
\<close>

fun make_hashable :: "json \<Rightarrow> hashable" where
  "make_hashable (JDict obj) =
     HTuple (map (\<lambda>kv. HTuple [HStr (fst kv), make_hashable (snd kv)]) (sort_key fst obj))"
| "make_hashable (JList obj) = HTuple (map make_hashable obj)"
| "make_hashable JNull = HNull"
| "make_hashable (JBool b) = HBool b"
| "make_hashable (JInt i) = HInt i"
| "make_hashable (JStr s) = HStr s"

subsection \<open>orjson.dumps on the hashable form\<close>

definition hex_digit :: "nat \<Rightarrow> char" where
  "hex_digit n = (''0123456789abcdef'') ! (n mod 16)"

fun nat_to_dec :: "nat \<Rightarrow> nat \<Rightarrow> string" where
  "nat_to_dec 0 n = []"
| "nat_to_dec (Suc fuel) n =
     (if n < 10 then [hex_digit n] else nat_to_dec fuel (n div 10) @ [hex_digit (n mod 10)])"

text \<open>Decimal digits of an integer; \<open>n + 1\<close> steps are enough for a number \<open>n\<close>.\<close>

definition int_to_dec :: "int \<Rightarrow> string" where
  "int_to_dec i =
     (if i < 0 then ''-'' @ nat_to_dec (nat (- i) + 1) (nat (- i))
      else nat_to_dec (nat i + 1) (nat i))"

text \<open>
  The escapes of a JSON string: the quote, the backslash, and the control characters
  (short escapes for backspace, tab, newline, form feed and carriage return, \<open>\u00XX\<close> for
  the others). Every other byte is written as it is.
\<close>

definition escape_char :: "char \<Rightarrow> string" where
  "escape_char c =
     (if c = CHR 0x22 then [CHR 0x5C, CHR 0x22]
      else if c = CHR 0x5C then [CHR 0x5C, CHR 0x5C]
      else if c = CHR 0x08 then [CHR 0x5C, CHR ''b'']
      else if c = CHR 0x09 then [CHR 0x5C, CHR ''t'']
      else if c = CHR 0x0A then [CHR 0x5C, CHR ''n'']
      else if c = CHR 0x0C then [CHR 0x5C, CHR ''f'']
      else if c = CHR 0x0D then [CHR 0x5C, CHR ''r'']
      else if (of_char c :: nat) < 32 then
        [CHR 0x5C, CHR ''u'', CHR ''0'', CHR ''0'',
         hex_digit ((of_char c :: nat) div 16), hex_digit (of_char c :: nat)]
      else [c])"

definition dumps_str :: "string \<Rightarrow> string" where
  "dumps_str s = [CHR 0x22] @ concat (map escape_char s) @ [CHR 0x22]"

fun join_comma :: "string list \<Rightarrow> string" where
  "join_comma [] = []"
| "join_comma [x] = x"
| "join_comma (x # y # ys) = x @ '','' @ join_comma (y # ys)"

fun dumps_text :: "hashable \<Rightarrow> string" where
  "dumps_text HNull = ''null''"
| "dumps_text (HBool b) = (if b then ''true'' else ''false'')"
| "dumps_text (HInt i) = int_to_dec i"
| "dumps_text (HStr s) = dumps_str s"
| "dumps_text (HTuple xs) = ''['' @ join_comma (map dumps_text xs) @ '']''"

text \<open>\<open>orjson\<close> raises for an integer outside the 64-bit range.\<close>

fun fits_64bit :: "hashable \<Rightarrow> bool" where
  "fits_64bit (HInt i) = (- (2 ^ 63) \<le> i \<and> i < 2 ^ 64)"
| "fits_64bit (HTuple xs) = list_all fits_64bit xs"
| "fits_64bit HNull = True"
| "fits_64bit (HBool b) = True"
| "fits_64bit (HStr s) = True"

definition orjson_dumps :: "hashable \<Rightarrow> py_error + string" where
  "orjson_dumps h =
     (if fits_64bit h then Inr (dumps_text h)
      else Inl (TypeError ''Integer exceeds 64-bit range''))"

subsection \<open>hashlib.sha256\<close>

unbundle bit_operations_syntax

definition K256 :: "32 word list" where
  "K256 =
    [0x428A2F98, 0x71374491, 0xB5C0FBCF, 0xE9B5DBA5, 0x3956C25B, 0x59F111F1, 0x923F82A4, 0xAB1C5ED5,
     0xD807AA98, 0x12835B01, 0x243185BE, 0x550C7DC3, 0x72BE5D74, 0x80DEB1FE, 0x9BDC06A7, 0xC19BF174,
     0xE49B69C1, 0xEFBE4786, 0x0FC19DC6, 0x240CA1CC, 0x2DE92C6F, 0x4A7484AA, 0x5CB0A9DC, 0x76F988DA,
     0x983E5152, 0xA831C66D, 0xB00327C8, 0xBF597FC7, 0xC6E00BF3, 0xD5A79147, 0x06CA6351, 0x14292967,
     0x27B70A85, 0x2E1B2138, 0x4D2C6DFC, 0x53380D13, 0x650A7354, 0x766A0ABB, 0x81C2C92E, 0x92722C85,
     0xA2BFE8A1, 0xA81A664B, 0xC24B8B70, 0xC76C51A3, 0xD192E819, 0xD6990624, 0xF40E3585, 0x106AA070,
     0x19A4C116, 0x1E376C08, 0x2748774C, 0x34B0BCB5, 0x391C0CB3, 0x4ED8AA4A, 0x5B9CCA4F, 0x682E6FF3,
     0x748F82EE, 0x78A5636F, 0x84C87814, 0x8CC70208, 0x90BEFFFA, 0xA4506CEB, 0xBEF9A3F7, 0xC67178F2]"

definition H256 :: "32 word list" where
  "H256 =
    [0x6A09E667, 0xBB67AE85, 0x3C6EF372, 0xA54FF53A, 0x510E527F, 0x9B05688C, 0x1F83D9AB, 0x5BE0CD19]"

definition rotr :: "nat \<Rightarrow> 32 word \<Rightarrow> 32 word" where
  "rotr n x = drop_bit n x OR push_bit (32 - n) x"

definition Ch :: "32 word \<Rightarrow> 32 word \<Rightarrow> 32 word \<Rightarrow> 32 word" where
  "Ch x y z = (x AND y) XOR (NOT x AND z)"

definition Maj :: "32 word \<Rightarrow> 32 word \<Rightarrow> 32 word \<Rightarrow> 32 word" where
  "Maj x y z = (x AND y) XOR (x AND z) XOR (y AND z)"

definition big_sigma0 :: "32 word \<Rightarrow> 32 word" where
  "big_sigma0 x = rotr 2 x XOR rotr 13 x XOR rotr 22 x"

definition big_sigma1 :: "32 word \<Rightarrow> 32 word" where
  "big_sigma1 x = rotr 6 x XOR rotr 11 x XOR rotr 25 x"

definition small_sigma0 :: "32 word \<Rightarrow> 32 word" where
  "small_sigma0 x = rotr 7 x XOR rotr 18 x XOR drop_bit 3 x"

definition small_sigma1 :: "32 word \<Rightarrow> 32 word" where
  "small_sigma1 x = rotr 17 x XOR rotr 19 x XOR drop_bit 10 x"

text \<open>The padded message: a one bit, zero bits, and the bit length in 64 bits.\<close>

definition sha_pad :: "nat list \<Rightarrow> nat list" where
  "sha_pad msg =
     (let l = length msg
      in msg @ [128] @ replicate ((119 - l mod 64) mod 64) 0
           @ map (\<lambda>i. unat (ucast (drop_bit (8 * (7 - i)) (of_nat (8 * l) :: 64 word)) :: 8 word))
               [0..<8])"

definition be32 :: "nat list \<Rightarrow> 32 word" where
  "be32 bs = foldl (\<lambda>acc b. push_bit 8 acc OR of_nat b) 0 bs"

definition block_words :: "nat list \<Rightarrow> 32 word list" where
  "block_words block = map (\<lambda>j. be32 (take 4 (drop (4 * j) block))) [0..<16]"

fun extend_schedule :: "nat \<Rightarrow> 32 word list \<Rightarrow> 32 word list" where
  "extend_schedule 0 w = w"
| "extend_schedule (Suc n) w =
     (let t = length w
      in extend_schedule n
           (w @ [small_sigma1 (w ! (t - 2)) + w ! (t - 7) + small_sigma0 (w ! (t - 15))
                 + w ! (t - 16)]))"

text \<open>One round on the working variables \<open>a\<close> to \<open>h\<close>.\<close>

fun sha_round :: "32 word list \<Rightarrow> 32 word \<times> 32 word \<Rightarrow> 32 word list" where
  "sha_round [a, b, c, d, e, f, g, h] (k, w) =
     (let t1 = h + big_sigma1 e + Ch e f g + k + w;
          t2 = big_sigma0 a + Maj a b c
      in [t1 + t2, a, b, c, d + t1, e, f, g])"
| "sha_round vars kw = vars"

definition sha_compress :: "32 word list \<Rightarrow> nat list \<Rightarrow> 32 word list" where
  "sha_compress hs block =
     map2 (+) hs (foldl sha_round hs (zip K256 (extend_schedule 48 (block_words block))))"

definition sha256_words :: "nat list \<Rightarrow> 32 word list" where
  "sha256_words msg =
     (let padded = sha_pad msg
      in foldl sha_compress H256
           (map (\<lambda>i. take 64 (drop (64 * i) padded)) [0..<length padded div 64]))"

definition word_hex :: "32 word \<Rightarrow> string" where
  "word_hex w = map (\<lambda>i. hex_digit (unat (drop_bit (4 * (7 - i)) w AND 15))) [0..<8]"

text \<open>\<open>hashlib.sha256(data).hexdigest()\<close>\<close>

definition sha256_hexdigest :: "string \<Rightarrow> string" where
  "sha256_hexdigest os = concat (map word_hex (sha256_words (map of_char os)))"

section \<open>docker.consts: the build templates that enter the identity\<close>

definition DOCKER_FILE_R2E :: string where
  \<open>DOCKER_FILE_R2E =
     ''\<newline>'' @
     ''FROM ubuntu:22.04\<newline>'' @
     ''\<newline>'' @
     ''RUN apt-get update && apt-get install -y ca-certificates\<newline>'' @
     ''\<newline>'' @
     ''# Certificates\<newline>'' @
     ''{certificates}\<newline>'' @
     ''\<newline>'' @
     ''RUN echo "tzdata tzdata/Areas select Asia" | debconf-set-selections && echo "tzdata tzdata/Zones/Asia select Hong_Kong" | debconf-set-selections\<newline>'' @
     ''\<newline>'' @
     ''ARG OLD_COMMIT\<newline>'' @
     ''RUN apt-get update -y && apt-get upgrade -y\<newline>'' @
     ''RUN apt-get install ca-certificates -y\<newline>'' @
     ''\<newline>'' @
     ''\<newline>'' @
     ''ENV DEBIAN_FRONTEND noninteractive\<newline>'' @
     ''\<newline>'' @
     ''\<newline>'' @
     ''# Install standard and python specific system dependencies\<newline>'' @
     ''RUN apt-get install -y git curl wget build-essential ca-certificates python3-dev\<newline>'' @
     ''\<newline>'' @
     ''RUN curl -LsSf https://astral.sh/uv/install.sh | sh\<newline>'' @
     ''\<newline>'' @
     ''ENV PATH="/root/.cargo/bin:${{PATH}}"\<newline>'' @
     ''ENV PATH="/root/.local/bin:${{PATH}}"\<newline>'' @
     ''\<newline>'' @
     ''RUN git clone https://github.com/pandas-dev/pandas.git testbed\<newline>'' @
     ''\<newline>'' @
     ''COPY run_tests.sh /testbed/run_tests.sh\<newline>'' @
     ''\<newline>'' @
     ''COPY install.sh /testbed/install.sh\<newline>'' @
     ''\<newline>'' @
     ''WORKDIR /testbed\<newline>'' @
     ''\<newline>'' @
     ''RUN git checkout $OLD_COMMIT\<newline>'' @
     ''\<newline>'' @
     ''RUN git status\<newline>'' @
     ''\<newline>'' @
     ''RUN bash install.sh\<newline>'' @
     ''\<newline>'' @
     ''RUN uv pip install tree_sitter_languages\<newline>'' @
     ''\<newline>'' @
     ''ENV VIRTUAL_ENV=/testbed/.venv\<newline>'' @
     ''\<newline>'' @
     ''ENV PATH="$VIRTUAL_ENV/bin:$PATH"\<newline>'' @
     ''\<newline>'' @
     ''COPY r2e_tests /r2e_tests\<newline>''\<close>

definition GREEN_ZONE_CERTIFICATES :: string where
  \<open>GREEN_ZONE_CERTIFICATES =
     ''\<newline>'' @
     ''COPY hwweb.pem hwweb.crt /usr/local/share/ca-certificates/\<newline>'' @
     ''RUN update-ca-certificates\<newline>'' @
     ''ENV REQUESTS_CA_BUNDLE=/etc/ssl/certs/ca-certificates.crt\<newline>'' @
     ''ENV CURL_CA_BUNDLE=/etc/ssl/certs/ca-certificates.crt\<newline>'' @
     ''ENV http_proxy={http_proxy}\<newline>'' @
     ''ENV https_proxy={https_proxy}\<newline>''\<close>

definition PATCH_CODE_PY :: string where
  \<open>PATCH_CODE_PY =
     ''import subprocess\<newline>'' @
     ''import sys\<newline>'' @
     ''import time\<newline>'' @
     ''from pathlib import Path\<newline>'' @
     ''\<newline>'' @
     ''WORK_DIR = '' @
     [CHR 0x27] @
     ''/workspace'' @
     [CHR 0x27] @
     ''\<newline>'' @
     ''\<newline>'' @
     ''def apply_patch():\<newline>'' @
     ''    patch_dir = Path("/patches")\<newline>'' @
     ''\<newline>'' @
     ''    if not patch_dir.exists():\<newline>'' @
     ''        print("'' @
     [CHR 0xE2, CHR 0x9A, CHR 0xA0, CHR 0xEF, CHR 0xB8, CHR 0x8F] @
     '' No patch directory found at /patch")\<newline>'' @
     ''        return\<newline>'' @
     ''\<newline>'' @
     ''    # Get sorted list of patch files\<newline>'' @
     ''    patch_files = sorted(patch_dir.glob("*.patch"))\<newline>'' @
     ''\<newline>'' @
     ''    if not patch_files:\<newline>'' @
     ''        print("'' @
     [CHR 0xE2, CHR 0x84, CHR 0xB9, CHR 0xEF, CHR 0xB8, CHR 0x8F] @
     '' No .patch files found in /patch directory")\<newline>'' @
     ''        return\<newline>'' @
     ''\<newline>'' @
     ''    print(f"'' @
     [CHR 0xF0, CHR 0x9F, CHR 0x94, CHR 0xA7] @
     '' Applying {len(patch_files)} patches from /patch")\<newline>'' @
     ''\<newline>'' @
     ''    for patch_file in patch_files:\<newline>'' @
     ''        try:\<newline>'' @
     ''            result = subprocess.run(\<newline>'' @
     ''                ["patch", "-p1", "--no-backup-if-mismatch", "-i", str(patch_file)],\<newline>'' @
     ''                cwd=WORK_DIR,\<newline>'' @
     ''                check=True,\<newline>'' @
     ''                capture_output=True,\<newline>'' @
     ''                text=True\<newline>'' @
     ''            )\<newline>'' @
     ''            print(f"'' @
     [CHR 0xE2, CHR 0x9C, CHR 0x93] @
     '' Applied {patch_file.name}")\<newline>'' @
     ''            if result.stdout:\<newline>'' @
     ''                print(f"   Output: {result.stdout.strip()}")\<newline>'' @
     ''\<newline>'' @
     ''        except subprocess.CalledProcessError as e:\<newline>'' @
     ''            print(f"'' @
     [CHR 0xE2, CHR 0x9D, CHR 0x8C] @
     '' Failed to apply {patch_file.name}")\<newline>'' @
     ''            print(f"   STDOUT: {e.stdout.strip()}")\<newline>'' @
     ''            print(f"   STDERR: {e.stderr.strip()}")\<newline>'' @
     ''            print(f"   Return code: {e.returncode}")\<newline>'' @
     ''\<newline>'' @
     ''            # Attempt to reverse already applied patches\<newline>'' @
     ''            print("'' @
     [CHR 0xF0, CHR 0x9F, CHR 0x94, CHR 0x84] @
     '' Attempting to rollback applied patches...")\<newline>'' @
     ''            _rollback_patches(patch_files, applied_up_to=patch_file)\<newline>'' @
     ''\<newline>'' @
     ''            sys.exit(1)\<newline>'' @
     ''\<newline>'' @
     ''def _rollback_patches(patch_files, applied_up_to):\<newline>'' @
     ''    idx = patch_files.index(applied_up_to)\<newline>'' @
     ''    for patch in reversed(patch_files[:idx+1]):\<newline>'' @
     ''        try:\<newline>'' @
     ''            subprocess.run(["echo", str(patch), "> tmp.patch"])\<newline>'' @
     ''            subprocess.run(\<newline>'' @
     ''                ["patch", "-R", "-p1", "--no-backup-if-mismatch", "-i", "tmp.patch"],\<newline>'' @
     ''                cwd=WORK_DIR,\<newline>'' @
     ''                check=True\<newline>'' @
     ''            )\<newline>'' @
     ''            print(f"   '' @
     [CHR 0xE2, CHR 0x86, CHR 0xAA] @
     '' Reverted {patch.name}")\<newline>'' @
     ''        except subprocess.CalledProcessError:\<newline>'' @
     ''            print(f"   '' @
     [CHR 0xE2, CHR 0x9A, CHR 0xA0, CHR 0xEF, CHR 0xB8, CHR 0x8F] @
     '' Failed to revert {patch.name}")\<newline>'' @
     ''\<newline>'' @
     ''if __name__ == "__main__":\<newline>'' @
     ''    start_time = time.perf_counter()\<newline>'' @
     ''    apply_patch()\<newline>'' @
     ''    print(f"'' @
     [CHR 0xF0, CHR 0x9F, CHR 0x95, CHR 0x92] @
     '' Patching completed in {time.perf_counter() - start_time:.2f} seconds")\<newline>''\<close>

text \<open>\<open>DOCKER_IMAGE_COMBINED\<close>, the bytes appended to every serialized spec.\<close>

definition DOCKER_IMAGE_COMBINED :: string where
  "DOCKER_IMAGE_COMBINED = DOCKER_FILE_R2E @ GREEN_ZONE_CERTIFICATES @ PATCH_CODE_PY"

section \<open>consistent\_hash and get\_image\_name\<close>

text \<open>The default of the parameter \<open>unhash_fields\<close>.\<close>

definition UNHASH_FIELDS :: "string list" where
  "UNHASH_FIELDS = [''install'', ''test_cmd'', ''eval_commands'']"

text \<open>
  The local variables of \<open>consistent_hash\<close>, one definition each: the dict without the
  unhashed fields made hashable, its serialization, and the bytes that are hashed.
\<close>

definition hashable_data :: "(string \<times> json) list \<Rightarrow> string list \<Rightarrow> hashable" where
  "hashable_data data unhash_fields =
     make_hashable (JDict (filter (\<lambda>kv. fst kv \<notin> set unhash_fields) data))"

definition serialized :: "(string \<times> json) list \<Rightarrow> string list \<Rightarrow> py_error + string" where
  "serialized data unhash_fields = orjson_dumps (hashable_data data unhash_fields)"

definition combined_data :: "(string \<times> json) list \<Rightarrow> string list \<Rightarrow> py_error + string" where
  "combined_data data unhash_fields =
     (case serialized data unhash_fields of
        Inl e \<Rightarrow> Inl e
      | Inr s \<Rightarrow> Inr (s @ DOCKER_IMAGE_COMBINED))"

definition consistent_hash :: "(string \<times> json) list \<Rightarrow> string list \<Rightarrow> py_error + string" where
  "consistent_hash data unhash_fields =
     (case combined_data data unhash_fields of
        Inl e \<Rightarrow> Inl e
      | Inr bs \<Rightarrow> Inr (sha256_hexdigest bs))"

text \<open>
  \<open>str.lower\<close> and \<open>str.replace('/', '-')\<close>; the model lowers the ASCII letters, which
  are the letters of a repository name.
\<close>

definition str_lower :: "string \<Rightarrow> string" where
  "str_lower s =
     map (\<lambda>c. if CHR ''A'' \<le> c \<and> c \<le> CHR ''Z'' then char_of (of_char c + (32 :: nat)) else c) s"

definition get_image_name :: "string \<Rightarrow> (string \<times> json) list \<Rightarrow> py_error + string" where
  "get_image_name repo_name spec_dict =
     (case consistent_hash spec_dict UNHASH_FIELDS of
        Inl e \<Rightarrow> Inl e
      | Inr spec_hash \<Rightarrow>
          Inr (''eval-'' @ map (\<lambda>c. if c = CHR ''/'' then CHR ''-'' else c) (str_lower repo_name)
               @ ''-'' @ take 8 spec_hash))"

section \<open>docker.image\_builder: building an image from a specification\<close>

text \<open>
  \<open>str.format\<close> with keyword arguments, for templates whose fields are plain names:
  \<open>{{\<close> and \<open>}}\<close> stand for a brace, \<open>{name}\<close> for the value of \<open>name\<close>. The second
  argument is the field name being read, if any.
\<close>

fun py_format_from :: "(string \<times> string) list \<Rightarrow> string option \<Rightarrow> string \<Rightarrow> py_error + string" where
  "py_format_from vars None [] = Inr []"
| "py_format_from vars (Some name) [] = Inl (ValueError ''expected } before end of string'')"
| "py_format_from vars None (c # cs) =
     (if c = CHR ''{'' then
        (case cs of
           [] \<Rightarrow> Inl (ValueError ''Single { encountered in format string'')
         | d # ds \<Rightarrow>
             if d = CHR ''{'' then
               (case py_format_from vars None ds of Inl e \<Rightarrow> Inl e | Inr r \<Rightarrow> Inr (CHR ''{'' # r))
             else py_format_from vars (Some []) cs)
      else if c = CHR ''}'' then
        (case cs of
           [] \<Rightarrow> Inl (ValueError ''Single } encountered in format string'')
         | d # ds \<Rightarrow>
             if d = CHR ''}'' then
               (case py_format_from vars None ds of Inl e \<Rightarrow> Inl e | Inr r \<Rightarrow> Inr (CHR ''}'' # r))
             else Inl (ValueError ''Single } encountered in format string''))
      else (case py_format_from vars None cs of Inl e \<Rightarrow> Inl e | Inr r \<Rightarrow> Inr (c # r)))"
| "py_format_from vars (Some name) (c # cs) =
     (if c = CHR ''}'' then
        (case map_of vars name of
           None \<Rightarrow> Inl (KeyError name)
         | Some v \<Rightarrow>
             (case py_format_from vars None cs of Inl e \<Rightarrow> Inl e | Inr r \<Rightarrow> Inr (v @ r)))
      else py_format_from vars (Some (name @ [c])) cs)"

definition py_format :: "string \<Rightarrow> (string \<times> string) list \<Rightarrow> py_error + string" where
  "py_format template vars = py_format_from vars None template"

text \<open>\<open>os.path.basename\<close>: what follows the last slash.\<close>

definition os_path_basename :: "string \<Rightarrow> string" where
  "os_path_basename p = rev (takeWhile (\<lambda>c. c \<noteq> CHR ''/'') (rev p))"

text \<open>\<open>' '.join(...)\<close> and \<open>" && ".join(...)\<close>\<close>

fun join_space :: "string list \<Rightarrow> string" where
  "join_space [] = []"
| "join_space [x] = x"
| "join_space (x # y # ys) = x @ '' '' @ join_space (y # ys)"

fun join_and :: "string list \<Rightarrow> string" where
  "join_and [] = []"
| "join_and [x] = x"
| "join_and (x # y # ys) = x @ '' && '' @ join_and (y # ys)"

text \<open>
  \<open>format_dockerfile\<close>. The argument \<open>pre_install\<close> is the list object held by the
  caller's spec dictionary (\<open>None\<close> when the key is absent or null), and
  \<open>pre_install.insert(0, "apt-get update")\<close> changes that object: the function returns,
  beside the Dockerfile text (\<open>None\<close> when formatting raised, which is only printed), what
  the object holds afterwards. The proxies are read from the environment of the process.
\<close>

definition format_dockerfile ::
  "string \<Rightarrow> string \<Rightarrow> string list \<Rightarrow> string option \<Rightarrow> string list option \<Rightarrow> bool \<Rightarrow>
   string \<Rightarrow> string \<Rightarrow> py_error + (string option \<times> string list option)" where
  "format_dockerfile repo_path python_version pip_packages packages pre_install green_zone
       http_proxy https_proxy =
     (case (if green_zone then
              py_format GREEN_ZONE_CERTIFICATES
                [(''http_proxy'', http_proxy), (''https_proxy'', https_proxy)]
            else Inr [])
      of Inl e \<Rightarrow> Inl e
       | Inr certificates \<Rightarrow>
          (let pip_install1 =
                 (case packages of
                    None \<Rightarrow> []
                  | Some p \<Rightarrow> if p = [] then []
                             else ''uv pip install --system -U '' @ p @ [CHR 0x0A]);
               pip_install =
                 (if pip_packages \<noteq> [] then
                    pip_install1 @ ''uv pip install --system -U ''
                      @ join_space (map (\<lambda>pkg. [CHR 0x22] @ pkg @ [CHR 0x22]) pip_packages)
                      @ [CHR 0x0A]
                  else pip_install1);
               object_after =
                 (case pre_install of
                    None \<Rightarrow> None
                  | Some l \<Rightarrow>
                      if l = [] then Some l
                      else if ''apt-get update'' \<notin> set l then Some (''apt-get update'' # l)
                      else Some l);
               pre_install_used =
                 (case object_after of
                    None \<Rightarrow> [''true'']
                  | Some l \<Rightarrow> if l = [] then [''true''] else l);
               template_vars_dockerfile =
                 [(''repo_path'', repo_path),
                  (''python'', if take 6 python_version = ''python'' then take 6 python_version
                               else python_version),
                  (''pre_install'', join_and pre_install_used),
                  (''pip_install'', pip_install),
                  (''certificates'', certificates)]
           in Inr (case py_format DOCKER_FILE_R2E template_vars_dockerfile of
                     Inl e \<Rightarrow> None
                   | Inr text \<Rightarrow> Some text,
                   object_after)))"

text \<open>
  The typed reading of a spec field: a string, or a list of strings, as the signature of
  \<open>format_dockerfile\<close> declares them (\<open>packages: str\<close>, \<open>pip_packages: list[str]\<close>,
  \<open>pre_install: list[str]\<close>). The model follows the build for specs of these types. A
  field of another shape is reported as a \<open>TypeError\<close> where the field is read; the Python
  goes on differently there (it inserts \<open>apt-get update\<close> into a \<open>pre_install\<close> list before
  the join of a non-string fails, and it formats \<open>pip_packages\<close> values of any type), which
  the model does not follow.
\<close>

fun json_strs :: "json list \<Rightarrow> string list option" where
  "json_strs [] = Some []"
| "json_strs (JStr s # rest) = (case json_strs rest of None \<Rightarrow> None | Some l \<Rightarrow> Some (s # l))"
| "json_strs (j # rest) = None"

definition opt_str_field :: "(string \<times> json) list \<Rightarrow> string \<Rightarrow> py_error + string option" where
  "opt_str_field d k =
     (case map_of d k of
        None \<Rightarrow> Inr None
      | Some JNull \<Rightarrow> Inr None
      | Some (JStr s) \<Rightarrow> Inr (Some s)
      | Some j \<Rightarrow> Inl (TypeError k))"

definition opt_list_field :: "(string \<times> json) list \<Rightarrow> string \<Rightarrow> py_error + string list option" where
  "opt_list_field d k =
     (case map_of d k of
        None \<Rightarrow> Inr None
      | Some JNull \<Rightarrow> Inr None
      | Some (JList l) \<Rightarrow>
          (case json_strs l of None \<Rightarrow> Inl (TypeError k) | Some ss \<Rightarrow> Inr (Some ss))
      | Some j \<Rightarrow> Inl (TypeError k))"

text \<open>
  The calls a build makes to its collaborators, as a trace: the container runtime (list
  the images, build, push) and the repository cache.
\<close>

datatype docker_action =
    ListImages
  | CloneRepo string
  | BuildImage string
  | PushImage string

text \<open>What one such call answers during a build: the environment of the build.\<close>

datatype build_log =
    LogStream string
  | LogError string
  | LogOther

datatype logs_end =
    LogsDone
  | LogsDockerError string
  | LogsTimeout

record build_env =
  local_image :: bool
  clone_repo :: "py_error + string"
  tarball :: "py_error option"
  build_logs :: "build_log list"
  build_logs_end :: logs_end
  push :: "py_error option"
  env_http_proxy :: string
  env_https_proxy :: string

record registry_config =
  pull_from_registry :: bool
  push_to_registry :: bool

text \<open>The two module-level variables of \<open>image_builder\<close>.\<close>

record build_state =
  image_build_locks :: "string set"
  failed_images :: "string set"

text \<open>
  What the function hands back: the image name, or the coroutine object of
  \<open>pull_img_from_registry\<close>, which the source returns without awaiting it.
\<close>

datatype image_ref =
    ImageName string
  | UnawaitedPull string

record build_return =
  result :: "py_error + image_ref"
  actions :: "docker_action list"
  state_after :: build_state
  spec_after :: "(string \<times> json) list"

text \<open>
  The loop over the build log: a \<open>stream\<close> entry is logged, the first \<open>error\<close> entry adds
  the image to \<open>failed_images\<close> and raises.
\<close>

fun read_build_logs :: "build_log list \<Rightarrow> string option" where
  "read_build_logs [] = None"
| "read_build_logs (LogStream s # rest) = read_build_logs rest"
| "read_build_logs (LogError e # rest) = Some e"
| "read_build_logs (LogOther # rest) = read_build_logs rest"

text \<open>
  The part of \<open>build_docker_image_from_specs\<close> under the comment "Build the image" runs
  when the image is neither known as failed nor found (or a rebuild is forced). It is
  modelled in two steps. The first reads the spec, clones the repository, formats the
  Dockerfile and packs the build context; it either raises (\<open>Inl\<close>: the exception, the
  calls made so far, and what the caller's spec dictionary holds by then) or is ready to
  build (\<open>Inr\<close>: the calls made and the spec dictionary as it is then).
\<close>

definition prepare_build_context ::
  "build_env \<Rightarrow> docker_action list \<Rightarrow> string \<Rightarrow> (string \<times> json) list \<Rightarrow> bool \<Rightarrow>
   (py_error \<times> docker_action list \<times> (string \<times> json) list)
   + (docker_action list \<times> (string \<times> json) list)" where
  "prepare_build_context env acts0 repo_name spec_dict green_zone =
     (case opt_list_field spec_dict ''pip_packages'' of
        Inl e \<Rightarrow> Inl (e, acts0, spec_dict)
      | Inr pip_opt \<Rightarrow>
      (case clone_repo env of
         Inl e \<Rightarrow> Inl (e, acts0 @ [CloneRepo repo_name], spec_dict)
       | Inr repo_path \<Rightarrow>
       (let acts1 = acts0 @ [CloneRepo repo_name] in
        case map_of spec_dict ''python'' of
          None \<Rightarrow> Inl (KeyError ''python'', acts1, spec_dict)
        | Some (JStr python_version) \<Rightarrow>
          (case opt_str_field spec_dict ''packages'' of
             Inl e \<Rightarrow> Inl (e, acts1, spec_dict)
           | Inr packages \<Rightarrow>
           (case opt_list_field spec_dict ''pre_install'' of
              Inl e \<Rightarrow> Inl (e, acts1, spec_dict)
            | Inr pre_install \<Rightarrow>
            (case format_dockerfile (os_path_basename repo_path) python_version
                    (case pip_opt of None \<Rightarrow> [] | Some l \<Rightarrow> l)
                    packages pre_install green_zone
                    (env_http_proxy env) (env_https_proxy env) of
               Inl e \<Rightarrow> Inl (e, acts1, spec_dict)
             | Inr (formatted_docker, object_after) \<Rightarrow>
               (let spec' =
                      (case object_after of
                         None \<Rightarrow> spec_dict
                       | Some l \<Rightarrow>
                           AList.update ''pre_install'' (JList (map JStr l)) spec_dict)
                in case formatted_docker of
                     None \<Rightarrow> Inl (TypeError ''write() argument must be str, not None'', acts1, spec')
                   | Some text \<Rightarrow>
                       (case tarball env of
                          Some e \<Rightarrow> Inl (e, acts1, spec')
                        | None \<Rightarrow> Inr (acts1, spec'))))))
        | Some j \<Rightarrow> Inl (TypeError ''python'', acts1, spec_dict))))"

text \<open>
  The second step submits the build context to the container runtime and reads the
  build log: the first \<open>error\<close> entry adds the image to \<open>failed_images\<close> and raises; a
  finished build is pushed when the registry configuration asks for it.
\<close>

definition run_build ::
  "build_env \<Rightarrow> build_state \<Rightarrow> docker_action list \<Rightarrow> string \<Rightarrow> (string \<times> json) list \<Rightarrow>
   registry_config option \<Rightarrow> build_return" where
  "run_build env st1 acts1 image_name spec' registry =
     (let acts2 = acts1 @ [BuildImage image_name];
          raise = (\<lambda>e acts. \<lparr>result = Inl e, actions = acts, state_after = st1,
                              spec_after = spec'\<rparr>)
      in case read_build_logs (build_logs env) of
           Some err \<Rightarrow>
             \<lparr>result = Inl (Exception (''Build failed: '' @ err)),
              actions = acts2,
              state_after = st1\<lparr>failed_images := insert image_name (failed_images st1)\<rparr>,
              spec_after = spec'\<rparr>
         | None \<Rightarrow>
           (case build_logs_end env of
              LogsDockerError e \<Rightarrow> raise (DockerError e) acts2
            | LogsTimeout \<Rightarrow> raise (TimeoutError ''Build timeout'') acts2
            | LogsDone \<Rightarrow>
                if (case registry of None \<Rightarrow> False | Some rc \<Rightarrow> push_to_registry rc) then
                  (case push env of
                     Some e \<Rightarrow> raise e (acts2 @ [PushImage image_name])
                   | None \<Rightarrow>
                       \<lparr>result = Inr (ImageName image_name),
                        actions = acts2 @ [PushImage image_name],
                        state_after = st1, spec_after = spec'\<rparr>)
                else
                  \<lparr>result = Inr (ImageName image_name), actions = acts2,
                   state_after = st1, spec_after = spec'\<rparr>))"

definition build_image ::
  "build_env \<Rightarrow> build_state \<Rightarrow> docker_action list \<Rightarrow> string \<Rightarrow> string \<Rightarrow>
   (string \<times> json) list \<Rightarrow> bool \<Rightarrow> registry_config option \<Rightarrow> build_return" where
  "build_image env st1 acts0 image_name repo_name spec_dict green_zone registry =
     (case prepare_build_context env acts0 repo_name spec_dict green_zone of
        Inl (e, acts, spec') \<Rightarrow>
          \<lparr>result = Inl e, actions = acts, state_after = st1, spec_after = spec'\<rparr>
      | Inr (acts1, spec') \<Rightarrow> run_build env st1 acts1 image_name spec' registry)"

text \<open>
  \<open>build_docker_image_from_specs\<close>, from the lock on. Requests for one image name hold
  its lock in turn, and a request touches \<open>failed_images\<close> only for its own name, so one
  call is a step from state to state.
\<close>

definition build_docker_image_from_specs ::
  "build_env \<Rightarrow> build_state \<Rightarrow> string \<Rightarrow> (string \<times> json) list \<Rightarrow> bool \<Rightarrow> bool \<Rightarrow>
   registry_config option \<Rightarrow> build_return" where
  "build_docker_image_from_specs env st repo_name spec_dict force_rebuild green_zone registry =
     (case get_image_name repo_name spec_dict of
        Inl e \<Rightarrow> \<lparr>result = Inl e, actions = [], state_after = st, spec_after = spec_dict\<rparr>
      | Inr image_name \<Rightarrow>
          (let st1 = st\<lparr>image_build_locks := insert image_name (image_build_locks st)\<rparr>
           in if image_name \<in> failed_images st then
                \<lparr>result = Inl (Exception (''Failed to build image '' @ image_name
                                            @ '' before. Skipping the build.'')),
                 actions = [], state_after = st1, spec_after = spec_dict\<rparr>
              else if \<not> force_rebuild \<and> local_image env then
                \<lparr>result = Inr (ImageName image_name), actions = [ListImages],
                 state_after = st1, spec_after = spec_dict\<rparr>
              else if \<not> force_rebuild
                      \<and> (case registry of None \<Rightarrow> False | Some rc \<Rightarrow> pull_from_registry rc) then
                \<lparr>result = Inr (UnawaitedPull image_name), actions = [ListImages],
                 state_after = st1, spec_after = spec_dict\<rparr>
              else
                build_image env st1 (if force_rebuild then [] else [ListImages])
                  image_name repo_name spec_dict green_zone registry))"

text \<open>A request: the arguments of one call and the environment that answers it.\<close>

record build_request =
  req_env :: build_env
  req_repo :: string
  req_spec :: "(string \<times> json) list"
  req_force_rebuild :: bool
  req_green_zone :: bool
  req_registry :: "registry_config option"

definition serve :: "build_state \<Rightarrow> build_request \<Rightarrow> build_return" where
  "serve st r =
     build_docker_image_from_specs (req_env r) st (req_repo r) (req_spec r)
       (req_force_rebuild r) (req_green_zone r) (req_registry r)"

text \<open>The build requests of a process, served one after the other.\<close>

fun serve_all :: "build_state \<Rightarrow> build_request list \<Rightarrow> build_return list" where
  "serve_all st [] = []"
| "serve_all st (r # rs) = (let ret = serve st r in ret # serve_all (state_after ret) rs)"

section \<open>evaluate: the scheduler\<close>

text \<open>
  One entry of the dataset handed to \<open>evaluate\<close>, as \<open>prepare_dataset_for_evaluation\<close>
  builds it (the key \<open>tests\<close> is the field \<open>args_tests\<close>).
\<close>

record instance_args =
  args_repo :: string
  args_instance_id :: string
  args_base_commit :: string
  args_patches :: "string list"
  args_tests :: "string list"
  args_spec_dict :: "(string \<times> json) list option"

text \<open>
  What a worker records for an instance: \<open>{"error": ..., "traceback": ...}\<close> when
  building or running it raised, and the gathered results otherwise.
  \<open>"error" in results[iid]\<close> holds for the first shape only.
\<close>

datatype eval_result =
    EvalError py_error
  | EvalResult gathered

definition has_error :: "eval_result option \<Rightarrow> bool" where
  "has_error r = (case r of Some (EvalError e) \<Rightarrow> True | _ \<Rightarrow> False)"

text \<open>
  The body of \<open>evaluate_worker\<close> for one instance taken from the queue. What building
  the image and running the instance do is a parameter: \<open>run\<close> gives, for an instance,
  the exception raised or the results returned. The worker catches every exception, so
  an instance always gets an entry.
\<close>

definition evaluate_worker ::
  "(instance_args \<Rightarrow> py_error + gathered) \<Rightarrow> instance_args \<Rightarrow>
   (string \<rightharpoonup> eval_result) \<Rightarrow> (string \<rightharpoonup> eval_result)" where
  "evaluate_worker run instance results =
     results(args_instance_id instance \<mapsto>
       (case run instance of Inl e \<Rightarrow> EvalError e | Inr r \<Rightarrow> EvalResult r))"

text \<open>
  \<open>await queue.join()\<close> after the instances of \<open>batch\<close> were put on the queue: the workers
  have processed every one of them. The entries are keyed by instance id, so the order in
  which the workers finish does not show in the result when the ids are distinct; the
  model takes the order of submission.
\<close>

definition drain ::
  "(instance_args \<Rightarrow> py_error + gathered) \<Rightarrow> instance_args list \<Rightarrow>
   (string \<rightharpoonup> eval_result) \<Rightarrow> (string \<rightharpoonup> eval_result)" where
  "drain run batch results = foldl (\<lambda>r instance. evaluate_worker run instance r) results batch"

text \<open>\<open>range(0, n, step)\<close> for a positive step.\<close>

definition range_step :: "nat \<Rightarrow> nat \<Rightarrow> nat list" where
  "range_step n step = map (\<lambda>j. j * step) [0..<(n + step - 1) div step]"

text \<open>
  The loop of batch mode over the values of \<open>i\<close> still to come. Its state is the dict
  \<open>results\<close> and the trace of the batches put on the queue so far. After a batch has
  drained, the loop breaks when every instance id of the batch has an error entry.
\<close>

fun batch_loop ::
  "(instance_args \<Rightarrow> py_error + gathered) \<Rightarrow> nat \<Rightarrow> instance_args list \<Rightarrow> nat list \<Rightarrow>
   (string \<rightharpoonup> eval_result) \<times> instance_args list list \<Rightarrow>
   (string \<rightharpoonup> eval_result) \<times> instance_args list list" where
  "batch_loop run max_workers instance_datas [] st = st"
| "batch_loop run max_workers instance_datas (i # rest) (results, submitted) =
     (let batch = take max_workers (drop i instance_datas);
          instance_ids = map args_instance_id batch;
          results' = drain run batch results
      in if list_all (\<lambda>iid. has_error (results' iid)) instance_ids
         then (results', submitted @ [batch])
         else batch_loop run max_workers instance_datas rest (results', submitted @ [batch]))"

text \<open>
  How a call of \<open>evaluate\<close> ends: it raises, it never returns, or it returns. With no
  worker (\<open>max_workers = 0\<close>) nothing takes the instances off the queue, and outside
  batch mode \<open>queue.join()\<close> then waits forever; in batch mode \<open>range\<close> raises on the
  zero step. A negative \<open>max_workers\<close> is refused by \<open>asyncio.Semaphore\<close>.
\<close>

datatype 'a ending =
    Raises py_error
  | NeverReturns
  | Returns 'a

text \<open>
  \<open>evaluate\<close>: the dict of results, and with it the trace of the groups of instances put
  on the queue before each \<open>queue.join()\<close>.
\<close>

definition evaluate ::
  "(instance_args \<Rightarrow> py_error + gathered) \<Rightarrow> instance_args list \<Rightarrow> int \<Rightarrow> bool \<Rightarrow>
   ((string \<rightharpoonup> eval_result) \<times> instance_args list list) ending" where
  "evaluate run instance_datas max_workers batch_mode =
     (if max_workers < 0 then Raises (ValueError ''Semaphore initial value must be >= 0'')
      else if \<not> batch_mode then
        (if max_workers = 0 \<and> instance_datas \<noteq> [] then NeverReturns
         else Returns (drain run instance_datas Map.empty, [instance_datas]))
      else if max_workers = 0 then Raises (ValueError ''range() arg 3 must not be zero'')
      else Returns (batch_loop run (nat max_workers) instance_datas
                      (range_step (length instance_datas) (nat max_workers)) (Map.empty, [])))"

section \<open>Concrete reports used as examples\<close>

definition demo_failed_call :: test_entry where
  "demo_failed_call =
     \<lparr>nodeid = ''tests/test_a.py::test_one'', outcome = ''failed'', crash = None,
      setup_phase = Some \<lparr>ph_longrepr = None, ph_crash = None\<rparr>,
      call_phase = Some \<lparr>ph_longrepr = Some ''assert 1 == 2'', ph_crash = Some ''AssertionError''\<rparr>,
      teardown_phase = Some \<lparr>ph_longrepr = None, ph_crash = Some ''teardown crash''\<rparr>\<rparr>"

definition demo_error_setup :: test_entry where
  "demo_error_setup =
     \<lparr>nodeid = ''tests/test_a.py::test_two'', outcome = ''error'', crash = None,
      setup_phase = Some \<lparr>ph_longrepr = Some ''fixture missing'', ph_crash = Some ''E''\<rparr>,
      call_phase = None,
      teardown_phase = Some \<lparr>ph_longrepr = None, ph_crash = None\<rparr>\<rparr>"

definition demo_crash_report :: report where
  "demo_crash_report =
     \<lparr>tests = Some [demo_failed_call, demo_error_setup], collectors = None, root = None\<rparr>"

definition demo_failed_both :: test_entry where
  "demo_failed_both =
     \<lparr>nodeid = ''t'', outcome = ''failed'', crash = Some ''top-level crash'',
      setup_phase = None,
      call_phase = Some \<lparr>ph_longrepr = None, ph_crash = Some ''call crash''\<rparr>,
      teardown_phase = None\<rparr>"


text \<open>A test entry with a node id and an outcome and no other key.\<close>

definition plain_test :: "string \<Rightarrow> string \<Rightarrow> test_entry" where
  "plain_test nid oc =
     \<lparr>nodeid = nid, outcome = oc, crash = None, setup_phase = None, call_phase = None,
      teardown_phase = None\<rparr>"

text \<open>
  The scenario of the specification: before the patch \<open>t1\<close> and \<open>t2\<close> fail and \<open>t3\<close>
  passes; after it \<open>t1\<close> and \<open>t3\<close> pass and \<open>t2\<close> fails.
\<close>

definition scenario_pre :: report where
  "scenario_pre =
     \<lparr>tests = Some [plain_test ''t1'' ''failed'', plain_test ''t2'' ''error'',
                    plain_test ''t3'' ''passed''],
      collectors = None, root = None\<rparr>"

definition scenario_post :: report where
  "scenario_post =
     \<lparr>tests = Some [plain_test ''t1'' ''passed'', plain_test ''t2'' ''failed'',
                    plain_test ''t3'' ''skipped''],
      collectors = None, root = Some ''/workspace''\<rparr>"

text \<open>A post-round report written under another root directory.\<close>

definition testbed_post :: report where
  "testbed_post =
     \<lparr>tests = Some [plain_test ''t1'' ''passed''], collectors = None, root = Some ''/testbed''\<rparr>"

definition t1_failed_pre :: report where
  "t1_failed_pre = \<lparr>tests = Some [plain_test ''t1'' ''failed''], collectors = None, root = None\<rparr>"

text \<open>A pre-round report that lists one node id twice, with two outcomes.\<close>

definition twice_pre :: report where
  "twice_pre =
     \<lparr>tests = Some [plain_test ''t'' ''passed'', plain_test ''t'' ''failed''],
      collectors = None, root = None\<rparr>"

definition once_post :: report where
  "once_post = \<lparr>tests = Some [plain_test ''t'' ''passed''], collectors = None, root = None\<rparr>"

text \<open>
  A run in produce mode: the requested test is a file, the report lists the test
  functions of that file.
\<close>

definition file_report :: report where
  "file_report =
     \<lparr>tests = Some [plain_test ''tests/test_x.py::test_a'' ''passed''], collectors = None,
      root = None\<rparr>"

text \<open>A report with one test and a collector that failed on a syntax error.\<close>

definition broken_collector_report :: report where
  "broken_collector_report =
     \<lparr>tests = Some [plain_test ''tests/test_a.py::test_one'' ''passed''],
      collectors = Some [\<lparr>c_nodeid = ''tests/test_b.py'', c_outcome = ''failed'',
                          c_longrepr = ''SyntaxError: invalid syntax''\<rparr>],
      root = None\<rparr>"

text \<open>A report whose only collector failed on an import.\<close>

definition import_error_report :: report where
  "import_error_report =
     \<lparr>tests = Some [],
      collectors = Some [\<lparr>c_nodeid = ''tests/test_b.py'', c_outcome = ''failed'',
                          c_longrepr = ''ImportError: No module named b''\<rparr>],
      root = None\<rparr>"

text \<open>A spec dictionary with the fields the harness reads and one more field.\<close>

definition demo_spec :: "(string \<times> json) list" where
  "demo_spec =
     [(''python'', JStr ''3.9''),
      (''pip_packages'', JList [JStr ''pytest'']),
      (''env'', JDict [(''A'', JStr ''1'')]),
      (''install'', JStr ''pip install .''),
      (''test_cmd'', JStr ''pytest''),
      (''eval_commands'', JList [])]"

text \<open>The image name of \<open>demo_spec\<close> for the repository \<open>encode/httpx\<close>.\<close>

definition demo_image :: string where
  "demo_image =
     ''eval-encode-httpx-''
       @ take 8 (sha256_hexdigest
           (dumps_text (hashable_data demo_spec UNHASH_FIELDS) @ DOCKER_IMAGE_COMBINED))"

text \<open>
  Two environments of a build: in the first the build log ends with an error entry, in
  the second the image is found locally.
\<close>

definition failing_env :: build_env where
  "failing_env =
     \<lparr>local_image = False, clone_repo = Inr ''/cache/encode__httpx'', tarball = None,
      build_logs = [LogStream ''Step 1/9'', LogError ''The command returned a non-zero code: 1''],
      build_logs_end = LogsDone, push = None, env_http_proxy = '''', env_https_proxy = ''''\<rparr>"

definition cached_env :: build_env where
  "cached_env =
     \<lparr>local_image = True, clone_repo = Inr ''/cache/encode__httpx'', tarball = None,
      build_logs = [LogStream ''Step 1/9''],
      build_logs_end = LogsDone, push = None, env_http_proxy = '''', env_https_proxy = ''''\<rparr>"

definition quiet_env :: build_env where
  "quiet_env =
     \<lparr>local_image = False, clone_repo = Inr ''/cache/encode__httpx'', tarball = None,
      build_logs = [LogStream ''Step 1/9''],
      build_logs_end = LogsDone, push = None, env_http_proxy = '''', env_https_proxy = ''''\<rparr>"

definition demo_request :: "build_env \<Rightarrow> build_request" where
  "demo_request env =
     \<lparr>req_env = env, req_repo = ''encode/httpx'', req_spec = demo_spec,
      req_force_rebuild = False, req_green_zone = False, req_registry = None\<rparr>"

definition fresh_state :: build_state where
  "fresh_state = \<lparr>image_build_locks = {}, failed_images = {}\<rparr>"

text \<open>The spec of the repository's own timeout test: one pre-install step.\<close>

definition sleep_spec :: "(string \<times> json) list" where
  "sleep_spec =
     [(''python'', JStr ''3.9''),
      (''pre_install'', JList [JStr ''sleep 100'']),
      (''pip_packages'', JList [JStr ''pytest'']),
      (''test_cmd'', JStr ''pytest'')]"

text \<open>
  Four instances, of which the first two cannot be evaluated and the last two can.
\<close>

definition demo_instance :: "string \<Rightarrow> instance_args" where
  "demo_instance iid =
     \<lparr>args_repo = ''encode/httpx'', args_instance_id = iid, args_base_commit = ''abc123'',
      args_patches = [], args_tests = [], args_spec_dict = Some demo_spec\<rparr>"

definition demo_run :: "instance_args \<Rightarrow> py_error + gathered" where
  "demo_run instance =
     (if args_instance_id instance \<in> set [''i1'', ''i2'']
      then Inl (Exception ''Build failed'')
      else Inr (ShortResults []))"

text \<open>A run in which the instances \<open>i2\<close>, \<open>i3\<close> and \<open>i4\<close> cannot be evaluated.\<close>

definition demo_run_late :: "instance_args \<Rightarrow> py_error + gathered" where
  "demo_run_late instance =
     (if args_instance_id instance \<in> set [''i2'', ''i3'', ''i4'']
      then Inl (Exception ''Build failed'')
      else Inr (ShortResults []))"
section \<open>Facts about crash-detail extraction\<close>

lemma crash_details_loop_other:
  "crash_details_loop ts acc = Inr out \<Longrightarrow> k \<notin> nodeid ` set ts \<Longrightarrow>
     map_of out k = map_of acc k"
proof (induction ts arbitrary: acc)
  case Nil
  then show ?case by simp
next
  case (Cons t ts)
  then show ?case
    by (auto simp: update_conv' split: if_splits sum.splits)
qed

lemma crash_details_loop_error:
  "crash_details_loop ts acc = Inr out \<Longrightarrow> distinct (map nodeid ts) \<Longrightarrow> t \<in> set ts \<Longrightarrow>
     outcome t = ''error'' \<Longrightarrow> map_of out (nodeid t) = Some (error_detail t)"
proof (induction ts arbitrary: acc)
  case Nil
  then show ?case by simp
next
  case (Cons u us)
  show ?case
  proof (cases "t = u")
    case True
    with Cons.prems have "crash_details_loop us (AList.update (nodeid t) (error_detail t) acc) = Inr out"
      and "nodeid t \<notin> nodeid ` set us"
      by auto
    then show ?thesis
      using crash_details_loop_other by (fastforce simp: update_conv')
  next
    case False
    with Cons.prems have "t \<in> set us" and "distinct (map nodeid us)" by auto
    moreover from Cons.prems(1) obtain acc' where "crash_details_loop us acc' = Inr out"
      by (auto split: if_splits sum.splits)
    ultimately show ?thesis using Cons.IH Cons.prems(4) by blast
  qed
qed

lemma crash_details_loop_failed:
  "crash_details_loop ts acc = Inr out \<Longrightarrow> distinct (map nodeid ts) \<Longrightarrow> t \<in> set ts \<Longrightarrow>
     outcome t = ''failed'' \<Longrightarrow>
     \<exists>d. failed_detail t = Inr d \<and> map_of out (nodeid t) = Some d"
proof (induction ts arbitrary: acc)
  case Nil
  then show ?case by simp
next
  case (Cons u us)
  show ?case
  proof (cases "t = u")
    case True
    with Cons.prems obtain d where d: "failed_detail t = Inr d"
      and "crash_details_loop us (AList.update (nodeid t) d acc) = Inr out"
      and "nodeid t \<notin> nodeid ` set us"
      by (auto split: sum.splits)
    then have "map_of out (nodeid t) = Some d"
      using crash_details_loop_other by (fastforce simp: update_conv')
    with d show ?thesis by blast
  next
    case False
    with Cons.prems have "t \<in> set us" and "distinct (map nodeid us)" by auto
    moreover from Cons.prems(1) obtain acc' where "crash_details_loop us acc' = Inr out"
      by (auto split: if_splits sum.splits)
    ultimately show ?thesis using Cons.IH Cons.prems(4) by blast
  qed
qed

lemma crash_details_loop_keys:
  "crash_details_loop ts acc = Inr out \<Longrightarrow>
     fst ` set out =
       fst ` set acc \<union> {nodeid t |t. t \<in> set ts \<and> (outcome t = ''error'' \<or> outcome t = ''failed'')}"
proof (induction ts arbitrary: acc)
  case Nil
  then show ?case by simp
next
  case (Cons t ts)
  show ?case
  proof (cases "outcome t = ''error''")
    case True
    with Cons.prems have "crash_details_loop ts (AList.update (nodeid t) (error_detail t) acc) = Inr out"
      by simp
    from Cons.IH[OF this] True show ?thesis
      by (auto simp: dom_update)
  next
    case ne: False
    show ?thesis
    proof (cases "outcome t = ''failed''")
      case True
      with Cons.prems obtain d
        where "crash_details_loop ts (AList.update (nodeid t) d acc) = Inr out"
        by (auto split: sum.splits)
      from Cons.IH[OF this] True show ?thesis
        by (auto simp: dom_update)
    next
      case False
      with ne Cons.prems have "crash_details_loop ts acc = Inr out" by simp
      from Cons.IH[OF this] ne False show ?thesis by auto
    qed
  qed
qed

lemma crash_details_loop_distinct:
  "crash_details_loop ts acc = Inr out \<Longrightarrow> distinct (map fst acc) \<Longrightarrow> distinct (map fst out)"
proof (induction ts arbitrary: acc)
  case Nil
  then show ?case by simp
next
  case (Cons t ts)
  then show ?case
    by (auto simp: distinct_update split: if_splits sum.splits)
qed


section \<open>Facts about the classifier\<close>

lemma set_py_set [simp]: "set (py_set xs) = set xs"
  by (simp add: py_set_def)

lemma set_set_inter [simp]: "set (set_inter a b) = set a \<inter> set b"
  by (auto simp: set_inter_def)

lemma set_nodeids_with:
  "set (nodeids_with outcomes r) = {nodeid t |t. t \<in> set (get_tests r) \<and> outcome t \<in> set outcomes}"
  by (auto simp: nodeids_with_def)

lemma details_for_total:
  "set ks \<subseteq> fst ` set crash_details \<Longrightarrow> \<exists>items. details_for crash_details ks = Inr items"
proof (induction ks)
  case Nil
  then show ?case by simp
next
  case (Cons k ks)
  then obtain items where "details_for crash_details ks = Inr items" by auto
  moreover from Cons.prems obtain v where "map_of crash_details k = Some v"
    by (cases "map_of crash_details k") (auto simp: map_of_eq_None_iff)
  ultimately show ?case by simp
qed

lemma classify_entry_error:
  "classify_entry (RoundError err tb) g crash_details =
     Inr \<lparr>p2p = [], f2p = nodeids_with PASS_OUTCOMES g, f2f = map fst crash_details, p2f = [],
         f2f_test_details = crash_details, p2f_test_details = []\<rparr>"
  by (simp add: classify_entry_def)

lemma classify_entry_report:
  "\<exists>e. classify_entry (RoundReport pre) g crash_details = Inr e
     \<and> p2p e = set_inter (nodeids_with PASS_OUTCOMES pre) (nodeids_with PASS_OUTCOMES g)
     \<and> f2p e = set_inter (nodeids_with FAIL_OUTCOMES pre) (nodeids_with PASS_OUTCOMES g)
     \<and> f2f e = set_inter (nodeids_with FAIL_OUTCOMES pre) (py_set (map fst crash_details))
     \<and> p2f e = set_inter (nodeids_with PASS_OUTCOMES pre) (py_set (map fst crash_details))"
proof -
  obtain a where a: "details_for crash_details
      (set_inter (nodeids_with FAIL_OUTCOMES pre) (py_set (map fst crash_details))) = Inr a"
    using details_for_total[of _ crash_details] by force
  obtain b where b: "details_for crash_details
      (set_inter (nodeids_with PASS_OUTCOMES pre) (py_set (map fst crash_details))) = Inr b"
    using details_for_total[of _ crash_details] by force
  show ?thesis
    by (simp add: classify_entry_def Let_def a b)
qed

lemma classify_entry_total: "\<exists>e. classify_entry pre g crash_details = Inr e"
proof (cases pre)
  case (RoundError err tb)
  then show ?thesis by (simp add: classify_entry_error)
next
  case (RoundReport p)
  then show ?thesis using classify_entry_report[of p g crash_details] by blast
qed

lemma gather_loop_other:
  "gather_loop pre items acc v = Inr out \<Longrightarrow> iid \<notin> fst ` set items \<Longrightarrow>
     map_of out iid = map_of acc iid"
proof (induction pre items acc v rule: gather_loop.induct)
  case (1 pre acc v)
  then show ?case by simp
next
  case (2 pre instance_id golden_round_result rest acc v)
  from "2.prems" have ne: "iid \<noteq> instance_id" and notin: "iid \<notin> fst ` set rest"
    by auto
  show ?case
  proof (cases "map_of pre instance_id")
    case None
    with "2.prems"(1) have "gather_loop pre rest acc v = Inr out" by simp
    from "2.IH"(1)[OF None this notin] show ?thesis .
  next
    case (Some p)
    show ?thesis
    proof (cases golden_round_result)
      case (RoundError err tb)
      with Some "2.prems"(1)
      have "gather_loop pre rest (AList.update instance_id (ClassError err) acc) v = Inr out"
        by simp
      from "2.IH"(2)[OF Some RoundError this notin] ne show ?thesis
        by (simp add: update_conv')
    next
      case (RoundReport g)
      define v' where "v' = (case extract_crash_details_from_report g of Inl _ \<Rightarrow> v | Inr d \<Rightarrow> Some d)"
      from Some RoundReport "2.prems"(1) obtain cd e where cd: "v' = Some cd"
        and e: "classify_entry p g cd = Inr e"
        and run: "gather_loop pre rest
                    (AList.update instance_id (ClassEntry (rewrite_root g e)) acc) v' = Inr out"
        by (auto simp: v'_def Let_def split: option.splits sum.splits)
      from "2.IH"(3)[OF Some RoundReport v'_def cd e run notin] ne show ?thesis
        by (simp add: update_conv')
    qed
  qed
qed

lemma gather_loop_entry:
  "gather_loop pre items acc v = Inr out \<Longrightarrow> distinct (map fst items) \<Longrightarrow>
   (iid, RoundReport g) \<in> set items \<Longrightarrow> map_of pre iid = Some p \<Longrightarrow>
   extract_crash_details_from_report g = Inr cd \<Longrightarrow>
   \<exists>e. classify_entry p g cd = Inr e \<and> map_of out iid = Some (ClassEntry (rewrite_root g e))"
proof (induction pre items acc v rule: gather_loop.induct)
  case (1 pre acc v)
  then show ?case by simp
next
  case (2 pre instance_id golden_round_result rest acc v)
  show ?case
  proof (cases "(iid, RoundReport g) = (instance_id, golden_round_result)")
    case True
    then have eq: "instance_id = iid" "golden_round_result = RoundReport g" by auto
    from "2.prems"(2) eq have notin: "iid \<notin> fst ` set rest" by auto
    from "2.prems"(1,4,5) eq obtain e where e: "classify_entry p g cd = Inr e"
      and run: "gather_loop pre rest (AList.update iid (ClassEntry (rewrite_root g e)) acc) (Some cd) = Inr out"
      by (auto simp: Let_def split: sum.splits)
    from gather_loop_other[OF run notin] have "map_of out iid = Some (ClassEntry (rewrite_root g e))"
      by (simp add: update_conv')
    with e show ?thesis by blast
  next
    case False
    with "2.prems"(3) have mem: "(iid, RoundReport g) \<in> set rest" by auto
    from "2.prems"(2) have dist: "distinct (map fst rest)" by simp
    show ?thesis
    proof (cases "map_of pre instance_id")
      case None
      with "2.prems"(1) have "gather_loop pre rest acc v = Inr out" by simp
      from "2.IH"(1)[OF None this dist mem "2.prems"(4,5)] show ?thesis .
    next
      case (Some q)
      show ?thesis
      proof (cases golden_round_result)
        case (RoundError err tb)
        with Some "2.prems"(1)
        have "gather_loop pre rest (AList.update instance_id (ClassError err) acc) v = Inr out"
          by simp
        from "2.IH"(2)[OF Some RoundError this dist mem "2.prems"(4,5)] show ?thesis .
      next
        case (RoundReport h)
        define v' where "v' = (case extract_crash_details_from_report h of Inl _ \<Rightarrow> v | Inr d \<Rightarrow> Some d)"
        from Some RoundReport "2.prems"(1) obtain cd' e' where cd': "v' = Some cd'"
          and e': "classify_entry q h cd' = Inr e'"
          and run: "gather_loop pre rest
                      (AList.update instance_id (ClassEntry (rewrite_root h e')) acc) v' = Inr out"
          by (auto simp: v'_def Let_def split: option.splits sum.splits)
        from "2.IH"(3)[OF Some RoundReport v'_def cd' e' run dist mem "2.prems"(4,5)]
        show ?thesis .
      qed
    qed
  qed
qed

lemma gather_results_entry:
  "gather_results pre golden = Inr out \<Longrightarrow> distinct (map fst golden) \<Longrightarrow>
   (iid, RoundReport g) \<in> set golden \<Longrightarrow> map_of pre iid = Some p \<Longrightarrow>
   extract_crash_details_from_report g = Inr cd \<Longrightarrow>
   \<exists>e. classify_entry p g cd = Inr e \<and> map_of out iid = Some (ClassEntry (rewrite_root g e))"
  unfolding gather_results_def by (rule gather_loop_entry)

lemma extract_keys:
  "extract_crash_details_from_report g = Inr cd \<Longrightarrow>
     fst ` set cd = {nodeid t |t. t \<in> set (get_tests g) \<and> (outcome t = ''error'' \<or> outcome t = ''failed'')}"
  unfolding extract_crash_details_from_report_def
  by (drule crash_details_loop_keys) simp

section \<open>Facts about the root rewrite\<close>

lemma os_path_join_relative:
  "take 1 b \<noteq> ''/'' \<Longrightarrow>
     os_path_join a b = (if a = [] \<or> last a = CHR ''/'' then a else a @ ''/'') @ b"
  by (cases b) (auto simp: os_path_join_def)

lemma os_path_join_inj_on:
  "\<forall>b\<in>N. take 1 b \<noteq> ''/'' \<Longrightarrow> inj_on (os_path_join a) N"
  by (rule inj_onI) (simp add: os_path_join_relative)

lemma rewrite_root_default:
  "root g = None \<or> root g = Some [] \<or> root g = Some ''/workspace'' \<Longrightarrow> rewrite_root g e = e"
  by (auto simp: rewrite_root_def)

lemma rewrite_root_sets:
  "\<exists>f. (f = id \<or> (\<exists>rd. f = os_path_join rd))
     \<and> ((root g = None \<or> root g = Some [] \<or> root g = Some ''/workspace'') \<longrightarrow> f = id)
     \<and> p2p (rewrite_root g e) = map f (p2p e) \<and> f2p (rewrite_root g e) = map f (f2p e)
     \<and> f2f (rewrite_root g e) = map f (f2f e) \<and> p2f (rewrite_root g e) = map f (p2f e)"
proof (cases "root g")
  case None
  then show ?thesis by (intro exI[of _ id]) (simp add: rewrite_root_def)
next
  case (Some rd)
  show ?thesis
  proof (cases "rd \<noteq> [] \<and> rd \<noteq> ''/workspace''")
    case True
    with Some show ?thesis
      by (intro exI[of _ "os_path_join rd"]) (auto simp: rewrite_root_def)
  next
    case False
    with Some show ?thesis
      by (intro exI[of _ id]) (auto simp: rewrite_root_def)
  qed
qed

section \<open>Facts about disjointness\<close>

lemma nodeids_with_disjoint:
  "distinct (map nodeid (get_tests r)) \<Longrightarrow> set A \<inter> set B = {} \<Longrightarrow>
     set (nodeids_with A r) \<inter> set (nodeids_with B r) = {}"
  by (auto simp: set_nodeids_with distinct_map dest: inj_onD)

lemma pass_fail_outcomes_disjoint: "set PASS_OUTCOMES \<inter> set FAIL_OUTCOMES = {}"
  by (simp add: PASS_OUTCOMES_def FAIL_OUTCOMES_def)

lemma extract_keys_fail:
  "extract_crash_details_from_report g = Inr cd \<Longrightarrow> fst ` set cd = set (nodeids_with FAIL_OUTCOMES g)"
  by (drule extract_keys) (auto simp: set_nodeids_with FAIL_OUTCOMES_def)

lemma nodeids_with_subset: "set (nodeids_with A r) \<subseteq> nodeid ` set (get_tests r)"
  by (auto simp: set_nodeids_with)

lemma classify_entry_disjoint:
  assumes e: "classify_entry p g cd = Inr e"
    and cd: "extract_crash_details_from_report g = Inr cd"
    and dg: "distinct (map nodeid (get_tests g))"
    and dp: "case p of RoundReport r \<Rightarrow> distinct (map nodeid (get_tests r)) | RoundError _ _ \<Rightarrow> True"
  shows "set (f2p e) \<inter> set (p2p e) = {} \<and> set (f2p e) \<inter> set (f2f e) = {}
       \<and> set (f2p e) \<inter> set (p2f e) = {} \<and> set (p2p e) \<inter> set (f2f e) = {}
       \<and> set (p2p e) \<inter> set (p2f e) = {} \<and> set (f2f e) \<inter> set (p2f e) = {}
       \<and> set (f2p e) \<union> set (p2p e) \<union> set (f2f e) \<union> set (p2f e) \<subseteq> nodeid ` set (get_tests g)"
proof -
  have post: "set (nodeids_with PASS_OUTCOMES g) \<inter> fst ` set cd = {}"
    using nodeids_with_disjoint[OF dg pass_fail_outcomes_disjoint] extract_keys_fail[OF cd]
    by simp
  have sub1: "set (nodeids_with PASS_OUTCOMES g) \<subseteq> nodeid ` set (get_tests g)"
    by (rule nodeids_with_subset)
  have sub2: "fst ` set cd \<subseteq> nodeid ` set (get_tests g)"
    using extract_keys_fail[OF cd] nodeids_with_subset[of FAIL_OUTCOMES g] by simp
  show ?thesis
  proof (cases p)
    case (RoundError err tb)
    with e have "f2p e = nodeids_with PASS_OUTCOMES g" "f2f e = map fst cd" "p2p e = []" "p2f e = []"
      by (auto simp: classify_entry_error)
    with post sub1 sub2 show ?thesis by auto
  next
    case (RoundReport r)
    with dp have dr: "distinct (map nodeid (get_tests r))" by simp
    have pre: "set (nodeids_with PASS_OUTCOMES r) \<inter> set (nodeids_with FAIL_OUTCOMES r) = {}"
      by (rule nodeids_with_disjoint[OF dr pass_fail_outcomes_disjoint])
    from e RoundReport classify_entry_report[of r g cd]
    have fields:
      "set (p2p e) = set (nodeids_with PASS_OUTCOMES r) \<inter> set (nodeids_with PASS_OUTCOMES g)"
      "set (f2p e) = set (nodeids_with FAIL_OUTCOMES r) \<inter> set (nodeids_with PASS_OUTCOMES g)"
      "set (f2f e) = set (nodeids_with FAIL_OUTCOMES r) \<inter> fst ` set cd"
      "set (p2f e) = set (nodeids_with PASS_OUTCOMES r) \<inter> fst ` set cd"
      by auto
    from pre post sub1 sub2 show ?thesis
      unfolding fields by blast
  qed
qed

lemma image_disjoint:
  "inj_on f N \<Longrightarrow> A \<subseteq> N \<Longrightarrow> B \<subseteq> N \<Longrightarrow> A \<inter> B = {} \<Longrightarrow> f ` A \<inter> f ` B = {}"
  by (auto dest: inj_onD)

section \<open>Facts about gathering the results of a run\<close>

lemma set_update_cases:
  "kv \<in> set (AList.update k v al) \<Longrightarrow> kv = (k, v) \<or> kv \<in> set al"
  by (induction al) (auto split: if_splits)

lemma foldl_update_keys:
  "fst ` set (foldl (\<lambda>d kv. AList.update (fst kv) (snd kv) d) acc items)
     = fst ` set acc \<union> fst ` set items"
  by (induction items arbitrary: acc) (auto simp: dom_update)

lemma dict_of_items_keys: "fst ` set (dict_of_items items) = fst ` set items"
  by (simp add: dict_of_items_def foldl_update_keys)

lemma missing_loop_marks_failed:
  "t \<in> set ms \<or> map_of sr t = Some False \<Longrightarrow>
     map_of (fst (missing_loop sh pc ms (sr, rt))) t = Some False"
proof (induction ms arbitrary: sr rt)
  case Nil
  then show ?case by simp
next
  case (Cons m ms)
  have "t \<in> set ms \<or> map_of (AList.update m False sr) t = Some False"
    using Cons.prems by (auto simp: update_conv')
  from Cons.IH[OF this] show ?case by simp
qed

lemma missing_loop_tests:
  "snd (missing_loop sh pc ms (sr, rt)) =
     (if sh then rt
      else rt @ map (\<lambda>t. compose_a_report_for_missing_test t (find_longrepr pc t)) ms)"
  by (induction ms arbitrary: sr rt) auto

lemma find_longrepr_Some:
  "find_longrepr pc t = Some lr \<Longrightarrow> \<exists>k. (k, lr) \<in> set pc \<and> str_contains k t"
  by (induction pc t rule: find_longrepr.induct) (auto split: if_splits)

lemma find_longrepr_None:
  "find_longrepr pc t = None \<longleftrightarrow> (\<forall>k\<in>fst ` set pc. \<not> str_contains k t)"
  by (induction pc t rule: find_longrepr.induct) auto

lemma collectors_loop_items:
  "collectors_loop cs acc = Inr pc \<Longrightarrow> (k, lr) \<in> set pc \<Longrightarrow>
     (k, lr) \<in> set acc
     \<or> (\<exists>c\<in>set cs. c_outcome c = ''failed'' \<and> c_nodeid c = k \<and> c_longrepr c = lr)"
proof (induction cs arbitrary: acc)
  case Nil
  then show ?case by simp
next
  case (Cons c cs)
  show ?case
  proof (cases "c_outcome c = ''failed''")
    case True
    with Cons.prems(1)
    have run: "collectors_loop cs (AList.update (c_nodeid c) (c_longrepr c) acc) = Inr pc"
      by (auto split: if_splits)
    from Cons.IH[OF run Cons.prems(2)] True show ?thesis
      by (auto dest: set_update_cases)
  next
    case False
    with Cons.prems(1) have "collectors_loop cs acc = Inr pc" by simp
    from Cons.IH[OF this Cons.prems(2)] show ?thesis by auto
  qed
qed

lemma collectors_loop_keys:
  "collectors_loop cs acc = Inr pc \<Longrightarrow>
     fst ` set pc = fst ` set acc \<union> {c_nodeid c |c. c \<in> set cs \<and> c_outcome c = ''failed''}"
proof (induction cs arbitrary: acc)
  case Nil
  then show ?case by simp
next
  case (Cons c cs)
  show ?case
  proof (cases "c_outcome c = ''failed''")
    case True
    with Cons.prems(1)
    have run: "collectors_loop cs (AList.update (c_nodeid c) (c_longrepr c) acc) = Inr pc"
      by (auto split: if_splits)
    from Cons.IH[OF run] True show ?thesis
      by (auto simp: dom_update)
  next
    case False
    with Cons.prems(1) have "collectors_loop cs acc = Inr pc" by simp
    from Cons.IH[OF this] False show ?thesis by auto
  qed
qed

lemma collectors_loop_import_raises:
  "c \<in> set cs \<Longrightarrow> c_outcome c = ''failed'' \<Longrightarrow>
   str_contains ''ModuleNotFoundError'' (c_longrepr c) \<or> str_contains ''ImportError'' (c_longrepr c) \<Longrightarrow>
   \<exists>e. collectors_loop cs acc = Inl e"
  by (induction cs arbitrary: acc) auto

lemma collectors_loop_returns:
  "\<forall>c\<in>set cs. c_outcome c = ''failed'' \<longrightarrow>
      \<not> str_contains ''ModuleNotFoundError'' (c_longrepr c) \<and> \<not> str_contains ''ImportError'' (c_longrepr c) \<Longrightarrow>
   \<exists>pc. collectors_loop cs acc = Inr pc"
  by (induction cs arbitrary: acc) auto

lemma validate_tests_items:
  "validate_tests test_ids results ign = Inr pc \<Longrightarrow> (k, lr) \<in> set pc \<Longrightarrow>
     \<exists>cs c. collectors results = Some cs \<and> c \<in> set cs \<and> c_outcome c = ''failed''
        \<and> c_nodeid c = k \<and> c_longrepr c = lr"
  by (auto simp: validate_tests_def split: option.splits if_splits sum.splits
      dest: collectors_loop_items)

lemma validate_tests_keys:
  "validate_tests test_ids results ign = Inr pc \<Longrightarrow> test_ids \<noteq> [] \<Longrightarrow>
   collectors results = Some cs \<Longrightarrow>
     fst ` set pc = {c_nodeid c |c. c \<in> set cs \<and> c_outcome c = ''failed''}"
  by (auto simp: validate_tests_def split: option.splits if_splits sum.splits
      dest!: collectors_loop_keys)

section \<open>Facts about the identity of a specification\<close>

lemma filter_update_excluded:
  "k \<in> S \<Longrightarrow>
     filter (\<lambda>kv. fst kv \<notin> S) (AList.update k v al) = filter (\<lambda>kv. fst kv \<notin> S) al"
  by (induction al) auto

lemma insort_key_map:
  "(\<And>x. g (f x) = h x) \<Longrightarrow> insort_key g (f x) (map f xs) = map f (insort_key h x xs)"
  by (induction xs) auto

lemma sort_key_map:
  "(\<And>x. g (f x) = h x) \<Longrightarrow> sort_key g (map f xs) = map f (sort_key h xs)"
  by (induction xs) (auto simp: insort_key_map)

lemma hashable_data_canonical:
  "hashable_data data U =
     HTuple (map (\<lambda>kh. HTuple [HStr (fst kh), snd kh])
       (sort_key fst (map (\<lambda>kv. (fst kv, make_hashable (snd kv)))
          (filter (\<lambda>kv. fst kv \<notin> set U) data))))"
proof -
  have "sort_key fst (map (\<lambda>kv. (fst kv, make_hashable (snd kv))) xs)
      = map (\<lambda>kv. (fst kv, make_hashable (snd kv))) (sort_key fst xs)" for xs :: "(string \<times> json) list"
    by (rule sort_key_map) simp
  then show ?thesis
    by (simp add: hashable_data_def comp_def)
qed

lemma update_as_map:
  "distinct (map fst al) \<Longrightarrow> (k, v) \<in> set al \<Longrightarrow>
     AList.update k v' al = map (\<lambda>kv. if fst kv = k then (k, v') else kv) al"
proof (induction al)
  case Nil
  then show ?case by simp
next
  case (Cons a al)
  show ?case
  proof (cases "fst a = k")
    case True
    with Cons.prems(1) have "\<forall>kv\<in>set al. fst kv \<noteq> k" by (auto simp: image_iff)
    then have "map (\<lambda>kv. if fst kv = k then (k, v') else kv) al = al"
      by (induction al) auto
    with True show ?thesis by (cases a) simp
  next
    case False
    with Cons.prems have "(k, v) \<in> set al" "distinct (map fst al)" by auto
    from Cons.IH[OF this(2,1)] False show ?thesis by (cases a) simp
  qed
qed

lemma hashable_data_same_canonical:
  assumes "distinct (map fst spec)" and "(k, v) \<in> set spec"
    and "make_hashable v' = make_hashable v"
  shows "hashable_data (AList.update k v' spec) U = hashable_data spec U"
proof -
  have "map (\<lambda>kv. (fst kv, make_hashable (snd kv)))
          (filter (\<lambda>kv. fst kv \<notin> set U) (map (\<lambda>kv. if fst kv = k then (k, v') else kv) spec))
      = map (\<lambda>kv. (fst kv, make_hashable (snd kv))) (filter (\<lambda>kv. fst kv \<notin> set U) spec)"
    using assms
  proof (induction spec)
    case Nil
    then show ?case by simp
  next
    case (Cons a spec)
    show ?case
    proof (cases "(k, v) \<in> set spec")
      case True
      with Cons.prems(1) have "fst a \<noteq> k" by (auto simp: image_iff)
      with Cons.IH[OF _ True Cons.prems(3)] Cons.prems(1) show ?thesis by simp
    next
      case False
      with Cons.prems have a: "a = (k, v)" by auto
      with Cons.prems(1) have "\<forall>kv\<in>set spec. fst kv \<noteq> k" by auto
      then have "map (\<lambda>kv. if fst kv = k then (k, v') else kv) spec = spec"
        by (induction spec) auto
      with a Cons.prems(3) show ?thesis by simp
    qed
  qed
  then show ?thesis
    by (simp only: hashable_data_canonical update_as_map[OF assms(1,2)])
qed

lemma hashable_data_changes:
  assumes "distinct (map fst spec)" and "(k, v) \<in> set spec"
    and "k \<notin> set U" and "make_hashable v' \<noteq> make_hashable v"
  shows "hashable_data (AList.update k v' spec) U \<noteq> hashable_data spec U"
proof
  assume eq: "hashable_data (AList.update k v' spec) U = hashable_data spec U"
  let ?w = "\<lambda>kv. HTuple [HStr (fst kv), make_hashable (snd kv)]"
  let ?P = "\<lambda>kv. fst kv \<notin> set U"
  from eq have "map ?w (sort_key fst (filter ?P (AList.update k v' spec)))
      = map ?w (sort_key fst (filter ?P spec))"
    by (simp add: hashable_data_def)
  then have "set (map ?w (sort_key fst (filter ?P (AList.update k v' spec))))
      = set (map ?w (sort_key fst (filter ?P spec)))"
    by simp
  then have sets: "?w ` set (filter ?P (AList.update k v' spec)) = ?w ` set (filter ?P spec)"
    by simp
  have "(k, v') \<in> set (AList.update k v' spec)"
    using assms(1,2) by (simp add: update_as_map) force
  with assms(3) have "?w (k, v') \<in> ?w ` set (filter ?P (AList.update k v' spec))"
    by force
  with sets obtain kv where kv: "kv \<in> set spec" "?w kv = ?w (k, v')"
    by auto
  then have "fst kv = k" "make_hashable (snd kv) = make_hashable v'" by auto
  moreover from kv(1) \<open>fst kv = k\<close> assms(1,2) have "snd kv = v"
    by (metis eq_key_imp_eq_value prod.collapse)
  ultimately show False using assms(4) by simp
qed

section \<open>Facts about image builds\<close>

lemma prepare_actions:
  "(prepare_build_context env acts0 repo_name spec_dict green = Inl (e, acts, sp) \<longrightarrow>
      set acts \<subseteq> set acts0 \<union> {CloneRepo repo_name})
   \<and> (prepare_build_context env acts0 repo_name spec_dict green = Inr (acts1, sp) \<longrightarrow>
      acts1 = acts0 @ [CloneRepo repo_name])"
  unfolding prepare_build_context_def Let_def
  by (auto split: sum.splits option.splits json.splits prod.splits)

lemma run_build_state:
  "state_after (run_build env st1 acts1 name sp registry) = st1
   \<or> state_after (run_build env st1 acts1 name sp registry)
       = st1\<lparr>failed_images := insert name (failed_images st1)\<rparr>"
  unfolding run_build_def Let_def
  by (auto split: option.splits logs_end.splits)

lemma run_build_marks:
  "read_build_logs (build_logs env) \<noteq> None \<Longrightarrow>
     name \<in> failed_images (state_after (run_build env st1 acts1 name sp registry))"
  unfolding run_build_def Let_def
  by (auto split: option.splits logs_end.splits)

lemma run_build_actions:
  "set (actions (run_build env st1 acts1 name sp registry))
     \<subseteq> set acts1 \<union> {BuildImage name, PushImage name}"
  unfolding run_build_def Let_def
  by (auto split: option.splits logs_end.splits)

lemma build_image_state:
  "state_after (build_image env st1 acts0 name repo_name spec_dict green registry) = st1
   \<or> state_after (build_image env st1 acts0 name repo_name spec_dict green registry)
       = st1\<lparr>failed_images := insert name (failed_images st1)\<rparr>"
proof (cases "prepare_build_context env acts0 repo_name spec_dict green")
  case (Inl a)
  then show ?thesis by (cases a) (simp add: build_image_def)
next
  case (Inr b)
  then show ?thesis
    using run_build_state by (cases b) (simp add: build_image_def)
qed

lemma build_image_marks:
  assumes "BuildImage n \<in> set (actions (build_image env st1 acts0 name repo_name spec_dict green registry))"
    and "BuildImage n \<notin> set acts0"
  shows "n = name"
    and "read_build_logs (build_logs env) \<noteq> None \<Longrightarrow>
      name \<in> failed_images (state_after (build_image env st1 acts0 name repo_name spec_dict green registry))"
proof -
  show "n = name"
  proof (cases "prepare_build_context env acts0 repo_name spec_dict green")
    case (Inl a)
    obtain e acts sp where a: "a = (e, acts, sp)" by (cases a)
    with Inl prepare_actions[of env acts0 repo_name spec_dict green e acts sp] assms
    show ?thesis by (auto simp: build_image_def)
  next
    case (Inr b)
    obtain acts1 sp where b: "b = (acts1, sp)" by (cases b)
    with Inr prepare_actions[of env acts0 repo_name spec_dict green _ _ sp acts1]
    have "acts1 = acts0 @ [CloneRepo repo_name]" by simp
    with Inr b assms run_build_actions[of env st1 acts1 name sp registry]
    show ?thesis by (auto simp: build_image_def)
  qed
  show "name \<in> failed_images (state_after (build_image env st1 acts0 name repo_name spec_dict green registry))"
    if logs: "read_build_logs (build_logs env) \<noteq> None"
  proof (cases "prepare_build_context env acts0 repo_name spec_dict green")
    case (Inl a)
    obtain e acts sp where a: "a = (e, acts, sp)" by (cases a)
    with Inl prepare_actions[of env acts0 repo_name spec_dict green e acts sp] assms
    show ?thesis by (auto simp: build_image_def)
  next
    case (Inr b)
    obtain acts1 sp where b: "b = (acts1, sp)" by (cases b)
    with Inr show ?thesis
      by (simp add: build_image_def run_build_marks[OF logs])
  qed
qed

lemma build_fail_fast:
  "get_image_name repo_name spec_dict = Inr name \<Longrightarrow> name \<in> failed_images st \<Longrightarrow>
   build_docker_image_from_specs env st repo_name spec_dict force green registry =
     \<lparr>result = Inl (Exception (''Failed to build image '' @ name @ '' before. Skipping the build.'')),
      actions = [],
      state_after = st\<lparr>image_build_locks := insert name (image_build_locks st)\<rparr>,
      spec_after = spec_dict\<rparr>"
  by (simp add: build_docker_image_from_specs_def Let_def)

lemma build_failed_mono:
  "failed_images st \<subseteq>
     failed_images (state_after
       (build_docker_image_from_specs env st repo_name spec_dict force green registry))"
proof (cases "get_image_name repo_name spec_dict")
  case (Inl e)
  then show ?thesis by (simp add: build_docker_image_from_specs_def)
next
  case (Inr name)
  define st1 where "st1 = st\<lparr>image_build_locks := insert name (image_build_locks st)\<rparr>"
  have "failed_images st \<subseteq> failed_images
      (state_after (build_image env st1 acts0 name repo_name spec_dict green registry))" for acts0
    using build_image_state[of env st1 acts0 name repo_name spec_dict green registry]
    by (auto simp: st1_def)
  with Inr show ?thesis
    by (simp add: build_docker_image_from_specs_def Let_def st1_def)
qed

lemma build_marks:
  assumes "BuildImage n \<in> set (actions
      (build_docker_image_from_specs env st repo_name spec_dict force green registry))"
  shows "get_image_name repo_name spec_dict = Inr n"
    and "read_build_logs (build_logs env) \<noteq> None \<Longrightarrow>
      n \<in> failed_images (state_after
        (build_docker_image_from_specs env st repo_name spec_dict force green registry))"
proof -
  from assms obtain name where name: "get_image_name repo_name spec_dict = Inr name"
    by (cases "get_image_name repo_name spec_dict") (auto simp: build_docker_image_from_specs_def)
  define st1 where "st1 = st\<lparr>image_build_locks := insert name (image_build_locks st)\<rparr>"
  define acts0 where "acts0 = (if force then [] else [ListImages])"
  from assms name have b: "build_docker_image_from_specs env st repo_name spec_dict force green registry
      = build_image env st1 acts0 name repo_name spec_dict green registry"
    by (auto simp: build_docker_image_from_specs_def Let_def st1_def acts0_def split: if_splits)
  have notin: "BuildImage n \<notin> set acts0" by (simp add: acts0_def)
  from assms b have mem: "BuildImage n \<in> set (actions
      (build_image env st1 acts0 name repo_name spec_dict green registry))" by simp
  from build_image_marks(1)[OF mem notin] name
  show "get_image_name repo_name spec_dict = Inr n" by simp
  show "n \<in> failed_images (state_after
        (build_docker_image_from_specs env st repo_name spec_dict force green registry))"
    if "read_build_logs (build_logs env) \<noteq> None"
    using build_image_marks(2)[OF mem notin that] build_image_marks(1)[OF mem notin] b
    by simp
qed

lemma serve_all_length [simp]: "length (serve_all st reqs) = length reqs"
  by (induction reqs arbitrary: st) (simp_all add: Let_def)

lemma serve_all_nth_serve:
  "i < length reqs \<Longrightarrow> \<exists>st'. serve_all st reqs ! i = serve st' (reqs ! i)"
proof (induction reqs arbitrary: st i)
  case Nil
  then show ?case by simp
next
  case (Cons r rs)
  then show ?case
    by (cases i) (auto simp: Let_def)
qed

lemma serve_all_from_failed:
  "name \<in> failed_images st \<Longrightarrow> i < length reqs \<Longrightarrow>
     name \<in> failed_images (state_after (serve_all st reqs ! i))
     \<and> (get_image_name (req_repo (reqs ! i)) (req_spec (reqs ! i)) = Inr name \<longrightarrow>
          result (serve_all st reqs ! i)
            = Inl (Exception (''Failed to build image '' @ name @ '' before. Skipping the build.''))
          \<and> actions (serve_all st reqs ! i) = []
          \<and> spec_after (serve_all st reqs ! i) = req_spec (reqs ! i))"
proof (induction reqs arbitrary: st i)
  case Nil
  then show ?case by simp
next
  case (Cons r rs)
  have keep: "name \<in> failed_images (state_after (serve st r))"
    using Cons.prems(1)
      build_failed_mono[of st "req_env r" "req_repo r" "req_spec r" "req_force_rebuild r"
        "req_green_zone r" "req_registry r"]
    by (auto simp: serve_def)
  show ?case
  proof (cases i)
    case 0
    with keep Cons.prems(1) show ?thesis
      by (auto simp: Let_def serve_def build_fail_fast)
  next
    case (Suc i')
    with Cons.prems(2) have "i' < length rs" by simp
    from Cons.IH[OF keep this] Suc show ?thesis by (simp add: Let_def)
  qed
qed

lemma serve_all_after_failed:
  "j < i \<Longrightarrow> i < length reqs \<Longrightarrow> name \<in> failed_images (state_after (serve_all st reqs ! j)) \<Longrightarrow>
     name \<in> failed_images (state_after (serve_all st reqs ! i))
     \<and> (get_image_name (req_repo (reqs ! i)) (req_spec (reqs ! i)) = Inr name \<longrightarrow>
          result (serve_all st reqs ! i)
            = Inl (Exception (''Failed to build image '' @ name @ '' before. Skipping the build.''))
          \<and> actions (serve_all st reqs ! i) = []
          \<and> spec_after (serve_all st reqs ! i) = req_spec (reqs ! i))"
proof (induction reqs arbitrary: st i j)
  case Nil
  then show ?case by simp
next
  case (Cons r rs)
  from Cons.prems(1) obtain i' where i: "i = Suc i'" by (cases i) auto
  with Cons.prems(2) have i': "i' < length rs" by simp
  show ?case
  proof (cases j)
    case 0
    with Cons.prems(3) have "name \<in> failed_images (state_after (serve st r))"
      by (simp add: Let_def)
    from serve_all_from_failed[OF this i'] i show ?thesis by (simp add: Let_def)
  next
    case (Suc j')
    with Cons.prems(1,3) i have "j' < i'"
      and "name \<in> failed_images (state_after (serve_all (state_after (serve st r)) rs ! j'))"
      by (simp_all add: Let_def)
    from Cons.IH[OF this(1) i' this(2)] i show ?thesis by (simp add: Let_def)
  qed
qed

section \<open>Facts about formatting the Dockerfile\<close>

lemma fmt_nil: "\<exists>t. py_format_from vars None [] = Inr t"
  by simp

lemma fmt_plain:
  "c \<noteq> CHR ''{'' \<Longrightarrow> c \<noteq> CHR ''}'' \<Longrightarrow>
     (\<exists>t. py_format_from vars None (c # cs) = Inr t) = (\<exists>t. py_format_from vars None cs = Inr t)"
  by (auto split: sum.splits)

lemma fmt_open2:
  "(\<exists>t. py_format_from vars None (CHR ''{'' # CHR ''{'' # cs) = Inr t)
     = (\<exists>t. py_format_from vars None cs = Inr t)"
  by (auto split: sum.splits)

lemma fmt_close2:
  "(\<exists>t. py_format_from vars None (CHR ''}'' # CHR ''}'' # cs) = Inr t)
     = (\<exists>t. py_format_from vars None cs = Inr t)"
  by (auto split: sum.splits)

lemma fmt_field_start:
  "d \<noteq> CHR ''{'' \<Longrightarrow>
     (\<exists>t. py_format_from vars None (CHR ''{'' # d # cs) = Inr t)
       = (\<exists>t. py_format_from vars (Some []) (d # cs) = Inr t)"
  by simp

lemma fmt_field_char:
  "c \<noteq> CHR ''}'' \<Longrightarrow>
     (\<exists>t. py_format_from vars (Some name) (c # cs) = Inr t)
       = (\<exists>t. py_format_from vars (Some (name @ [c])) cs = Inr t)"
  by simp

lemma fmt_field_end:
  "(\<exists>t. py_format_from vars (Some name) (CHR ''}'' # cs) = Inr t)
     = (map_of vars name \<noteq> None \<and> (\<exists>t. py_format_from vars None cs = Inr t))"
  by (auto split: sum.splits option.splits)

lemma py_format_r2e:
  "map_of vars ''certificates'' = Some c \<Longrightarrow> \<exists>t. py_format DOCKER_FILE_R2E vars = Inr t"
  by (simp add: py_format_def DOCKER_FILE_R2E_def fmt_plain fmt_open2 fmt_close2 fmt_field_start
      fmt_field_char fmt_field_end fmt_nil del: py_format_from.simps)

lemma format_dockerfile_mutation:
  "\<exists>text. format_dockerfile repo_path python_version pip_packages packages pre_install False
       http_proxy https_proxy
     = Inr (Some text,
            case pre_install of
              None \<Rightarrow> None
            | Some l \<Rightarrow>
                if l = [] then Some l
                else if ''apt-get update'' \<notin> set l then Some (''apt-get update'' # l)
                else Some l)"
proof -
  let ?pip1 = "case packages of
                    None \<Rightarrow> []
                  | Some p \<Rightarrow> if p = [] then []
                             else ''uv pip install --system -U '' @ p @ [CHR 0x0A]"
  let ?pip = "if pip_packages \<noteq> [] then
                    ?pip1 @ ''uv pip install --system -U ''
                      @ join_space (map (\<lambda>pkg. [CHR 0x22] @ pkg @ [CHR 0x22]) pip_packages)
                      @ [CHR 0x0A]
                  else ?pip1"
  let ?obj = "case pre_install of
                    None \<Rightarrow> None
                  | Some l \<Rightarrow>
                      if l = [] then Some l
                      else if ''apt-get update'' \<notin> set l then Some (''apt-get update'' # l)
                      else Some l"
  let ?used = "case ?obj of None \<Rightarrow> [''true''] | Some l \<Rightarrow> if l = [] then [''true''] else l"
  let ?vars = "[(''repo_path'', repo_path),
                  (''python'', if take 6 python_version = ''python'' then take 6 python_version
                               else python_version),
                  (''pre_install'', join_and ?used),
                  (''pip_install'', ?pip),
                  (''certificates'', [])]"
  have "map_of ?vars ''certificates'' = Some []" by simp
  from py_format_r2e[OF this] obtain t where t: "py_format DOCKER_FILE_R2E ?vars = Inr t"
    by blast
  show ?thesis
    unfolding format_dockerfile_def Let_def
    by (rule exI[of _ t]) (simp only: if_False sum.case t)
qed

section \<open>Facts about the example builds\<close>

lemma fits_demo_spec: "fits_64bit (hashable_data demo_spec UNHASH_FIELDS)"
  by code_simp

lemma fits_sleep_spec: "fits_64bit (hashable_data sleep_spec UNHASH_FIELDS)"
  by code_simp

lemma lower_httpx:
  "map (\<lambda>c. if c = CHR ''/'' then CHR ''-'' else c) (str_lower ''encode/httpx'') = ''encode-httpx''"
  by code_simp

lemma get_image_name_demo: "get_image_name ''encode/httpx'' demo_spec = Inr demo_image"
  by (simp add: get_image_name_def consistent_hash_def combined_data_def serialized_def
      orjson_dumps_def fits_demo_spec lower_httpx demo_image_def)

lemma serialized_sleep_spec:
  \<open>serialized sleep_spec UNHASH_FIELDS
     = Inr ''[["pip_packages",["pytest"]],["pre_install",["sleep 100"]],["python","3.9"]]''\<close>
  by code_simp

lemma serialized_sleep_spec_after:
  \<open>serialized (AList.update ''pre_install'' (JList [JStr ''apt-get update'', JStr ''sleep 100''])
       sleep_spec) UNHASH_FIELDS
     = Inr ''[["pip_packages",["pytest"]],["pre_install",["apt-get update","sleep 100"]],["python","3.9"]]''\<close>
  by code_simp


section \<open>Facts about the scheduler\<close>

lemma drain_snoc: "drain run (xs @ [x]) results = evaluate_worker run x (drain run xs results)"
  by (simp add: drain_def)

lemma drain_lookup:
  "iid \<in> args_instance_id ` set batch \<Longrightarrow>
     \<exists>a\<in>set batch. args_instance_id a = iid
        \<and> drain run batch results iid
            = Some (case run a of Inl e \<Rightarrow> EvalError e | Inr r \<Rightarrow> EvalResult r)"
proof (induction batch rule: rev_induct)
  case Nil
  then show ?case by simp
next
  case (snoc x xs)
  show ?case
  proof (cases "args_instance_id x = iid")
    case True
    then show ?thesis by (auto simp: drain_snoc evaluate_worker_def)
  next
    case False
    with snoc.prems have "iid \<in> args_instance_id ` set xs" by auto
    from snoc.IH[OF this] False show ?thesis
      by (auto simp: drain_snoc evaluate_worker_def)
  qed
qed

lemma drain_all_errors:
  assumes "\<forall>a\<in>set batch. isl (run a)"
  shows "list_all (\<lambda>iid. has_error (drain run batch results iid)) (map args_instance_id batch)"
proof -
  have "has_error (drain run batch results iid)" if "iid \<in> args_instance_id ` set batch" for iid
  proof -
    from drain_lookup[OF that] obtain a where a: "a \<in> set batch"
      "drain run batch results iid
         = Some (case run a of Inl e \<Rightarrow> EvalError e | Inr r \<Rightarrow> EvalResult r)"
      by blast
    from assms a(1) obtain e where "run a = Inl e" by (cases "run a") auto
    with a(2) show ?thesis by (simp add: has_error_def)
  qed
  then show ?thesis by (simp add: list_all_iff)
qed

lemma drain_append:
  "drain run (xs @ ys) results = drain run ys (drain run xs results)"
  by (simp add: drain_def)

lemma batch_loop_submitted:
  "\<exists>m. batch_loop run mw datas idx (results, submitted)
        = (drain run (concat (map (\<lambda>i. take mw (drop i datas)) (take m idx))) results,
           submitted @ map (\<lambda>i. take mw (drop i datas)) (take m idx))
     \<and> m \<le> length idx \<and> (idx \<noteq> [] \<longrightarrow> 1 \<le> m)
     \<and> (\<forall>k<length idx. (\<forall>a\<in>set (take mw (drop (idx ! k) datas)). isl (run a)) \<longrightarrow> m \<le> k + 1)"
proof (induction idx arbitrary: results submitted)
  case Nil
  then show ?case by (simp add: drain_def)
next
  case (Cons i rest)
  define batch where "batch = take mw (drop i datas)"
  define results' where "results' = drain run batch results"
  show ?case
  proof (cases "list_all (\<lambda>iid. has_error (results' iid)) (map args_instance_id batch)")
    case True
    then have "batch_loop run mw datas (i # rest) (results, submitted)
        = (drain run (concat (map (\<lambda>i. take mw (drop i datas)) (take 1 (i # rest)))) results,
           submitted @ map (\<lambda>i. take mw (drop i datas)) (take 1 (i # rest)))"
      by (simp add: Let_def batch_def results'_def)
    then show ?thesis
      by (intro exI[of _ 1]) simp
  next
    case False
    from Cons.IH[of results' "submitted @ [batch]"] obtain m where
      run: "batch_loop run mw datas rest (results', submitted @ [batch])
          = (drain run (concat (map (\<lambda>i. take mw (drop i datas)) (take m rest))) results',
             (submitted @ [batch]) @ map (\<lambda>i. take mw (drop i datas)) (take m rest))"
      and m: "m \<le> length rest"
      and stop: "\<forall>k<length rest. (\<forall>a\<in>set (take mw (drop (rest ! k) datas)). isl (run a)) \<longrightarrow> m \<le> k + 1"
      by blast
    from False run have eq: "batch_loop run mw datas (i # rest) (results, submitted)
        = (drain run (concat (map (\<lambda>i. take mw (drop i datas)) (take (Suc m) (i # rest)))) results,
           submitted @ map (\<lambda>i. take mw (drop i datas)) (take (Suc m) (i # rest)))"
      by (simp add: Let_def batch_def results'_def drain_append)
    have "Suc m \<le> k + 1"
      if k: "k < length (i # rest)"
        and err: "\<forall>a\<in>set (take mw (drop ((i # rest) ! k) datas)). isl (run a)" for k
    proof (cases k)
      case 0
      with err have "\<forall>a\<in>set batch. isl (run a)" by (simp add: batch_def)
      from drain_all_errors[OF this, of results] False show ?thesis
        by (simp add: results'_def)
    next
      case (Suc k')
      with k err stop show ?thesis by auto
    qed
    with eq m show ?thesis
      by (intro exI[of _ "Suc m"]) simp
  qed
qed

lemma drain_distinct:
  assumes "distinct (map args_instance_id batch)" and "a \<in> set batch"
  shows "drain run batch results (args_instance_id a)
           = Some (case run a of Inl e \<Rightarrow> EvalError e | Inr r \<Rightarrow> EvalResult r)"
proof -
  from assms(2) have "args_instance_id a \<in> args_instance_id ` set batch" by simp
  from drain_lookup[OF this, of run results] obtain a' where a': "a' \<in> set batch"
    "args_instance_id a' = args_instance_id a"
    "drain run batch results (args_instance_id a)
       = Some (case run a' of Inl e \<Rightarrow> EvalError e | Inr r \<Rightarrow> EvalResult r)"
    by blast
  from assms(1) have "inj_on args_instance_id (set batch)" by (simp add: distinct_map)
  with a'(1,2) assms(2) have "a' = a" by (auto dest: inj_onD)
  with a'(3) show ?thesis by simp
qed

lemma batch_check_distinct:
  assumes "distinct (map args_instance_id batch)"
  shows "list_all (\<lambda>iid. has_error (drain run batch results iid)) (map args_instance_id batch)
           = list_all (\<lambda>a. isl (run a)) batch"
proof -
  have "has_error (drain run batch results (args_instance_id a)) = isl (run a)"
    if "a \<in> set batch" for a
    using drain_distinct[OF assms that, of run results]
    by (cases "run a") (simp_all add: has_error_def)
  then show ?thesis by (simp add: list_all_iff)
qed

lemma batch_loop_exact:
  assumes "\<forall>i\<in>set idx. distinct (map args_instance_id (take mw (drop i datas)))"
  shows "batch_loop run mw datas idx (results, submitted) =
     (drain run
        (concat (takeWhile (\<lambda>c. \<not> list_all (\<lambda>a. isl (run a)) c)
                   (map (\<lambda>i. take mw (drop i datas)) idx)
                 @ take 1 (dropWhile (\<lambda>c. \<not> list_all (\<lambda>a. isl (run a)) c)
                             (map (\<lambda>i. take mw (drop i datas)) idx))))
        results,
      submitted
        @ takeWhile (\<lambda>c. \<not> list_all (\<lambda>a. isl (run a)) c)
            (map (\<lambda>i. take mw (drop i datas)) idx)
        @ take 1 (dropWhile (\<lambda>c. \<not> list_all (\<lambda>a. isl (run a)) c)
                    (map (\<lambda>i. take mw (drop i datas)) idx)))"
  using assms
proof (induction idx arbitrary: results submitted)
  case Nil
  then show ?case by (simp add: drain_def)
next
  case (Cons i rest)
  from Cons.prems have d: "distinct (map args_instance_id (take mw (drop i datas)))"
    and r: "\<forall>i\<in>set rest. distinct (map args_instance_id (take mw (drop i datas)))"
    by simp_all
  show ?case
  proof (cases "list_all (\<lambda>a. isl (run a)) (take mw (drop i datas))")
    case True
    then show ?thesis
      by (simp add: Let_def batch_check_distinct[OF d])
  next
    case False
    then show ?thesis
      by (simp add: Let_def batch_check_distinct[OF d] Cons.IH[OF r] drain_append)
  qed
qed

lemma chunk_distinct:
  assumes "distinct (map f xs)"
  shows "distinct (map f (take n (drop i xs)))"
proof -
  have "map f (take n (drop i xs)) = take n (drop i (map f xs))"
    by (simp add: take_map drop_map)
  moreover from assms have "distinct (take n (drop i (map f xs)))"
    by (intro distinct_take distinct_drop)
  ultimately show ?thesis by simp
qed

lemma range_step_length:
  "0 < step \<Longrightarrow> k < length (range_step n step) \<longleftrightarrow> k * step < n"
proof -
  assume q: "0 < step"
  have "k < (n + step - 1) div step \<longleftrightarrow> Suc k \<le> (n + step - 1) div step" by auto
  also have "\<dots> \<longleftrightarrow> Suc k * step \<le> n + step - 1"
    using q by (simp add: less_eq_div_iff_mult_less_eq)
  also have "\<dots> \<longleftrightarrow> k * step < n" using q by auto
  finally show ?thesis by (simp add: range_step_def)
qed

lemma range_step_nth:
  "k < length (range_step n step) \<Longrightarrow> range_step n step ! k = k * step"
  by (simp add: range_step_def)

lemma range_step_take:
  "m \<le> length (range_step n step) \<Longrightarrow> take m (range_step n step) = map (\<lambda>j. j * step) [0..<m]"
  by (simp add: range_step_def take_map)

lemma range_step_chunks:
  "map (\<lambda>i. take mw (drop i datas)) (range_step n mw)
     = map (\<lambda>j. take mw (drop (j * mw) datas)) [0..<(n + mw - 1) div mw]"
  by (simp add: range_step_def comp_def)

section \<open>Claims about crash-detail extraction\<close>

text \<open>
  C9, as amended. When the extraction returns a map for a report that lists each node id
  once: the keys of the map are exactly the node ids whose outcome is \<open>error\<close> or
  \<open>failed\<close>; an \<open>error\<close> test maps to the concatenated long representations of its
  phases; a \<open>failed\<close> test maps to its own top-level crash entry when it has one, otherwise
  to the call phase's crash, otherwise to the teardown phase's crash, otherwise to the
  empty text. (A failed test whose setup phase carries a crash entry and which has no
  top-level crash makes the extraction raise; the statement is silent about it.)
\<close>

theorem extract_crash_details_preference:
  assumes "extract_crash_details_from_report r = Inr out"
    and "distinct (map nodeid (get_tests r))"
    and "t \<in> set (get_tests r)"
  shows "fst ` set out =
           {nodeid u |u. u \<in> set (get_tests r) \<and> (outcome u = ''error'' \<or> outcome u = ''failed'')}
       \<and> (outcome t = ''error'' \<longrightarrow> map_of out (nodeid t) = Some (error_detail t))
       \<and> (outcome t = ''failed'' \<longrightarrow>
            map_of out (nodeid t) =
              Some (case crash t of
                      Some c \<Rightarrow> c
                    | None \<Rightarrow>
                        (case phase_crash (call_phase t) of
                           Some c \<Rightarrow> c
                         | None \<Rightarrow>
                             (case phase_crash (teardown_phase t) of
                                Some c \<Rightarrow> c
                              | None \<Rightarrow> []))))"
proof -
  from assms(1) have run: "crash_details_loop (get_tests r) [] = Inr out"
    by (simp add: extract_crash_details_from_report_def)
  have keys: "fst ` set out =
      {nodeid u |u. u \<in> set (get_tests r) \<and> (outcome u = ''error'' \<or> outcome u = ''failed'')}"
    using crash_details_loop_keys[OF run] by simp
  have err: "outcome t = ''error'' \<longrightarrow> map_of out (nodeid t) = Some (error_detail t)"
    using crash_details_loop_error[OF run assms(2,3)] by blast
  have fail: "map_of out (nodeid t) =
      Some (case crash t of
              Some c \<Rightarrow> c
            | None \<Rightarrow>
                (case phase_crash (call_phase t) of
                   Some c \<Rightarrow> c
                 | None \<Rightarrow>
                     (case phase_crash (teardown_phase t) of
                        Some c \<Rightarrow> c
                      | None \<Rightarrow> [])))"
    if "outcome t = ''failed''"
  proof -
    from crash_details_loop_failed[OF run assms(2,3) that]
    obtain d where d: "failed_detail t = Inr d" and m: "map_of out (nodeid t) = Some d"
      by blast
    from d have "d = (case crash t of
              Some c \<Rightarrow> c
            | None \<Rightarrow>
                (case phase_crash (call_phase t) of
                   Some c \<Rightarrow> c
                 | None \<Rightarrow>
                     (case phase_crash (teardown_phase t) of
                        Some c \<Rightarrow> c
                      | None \<Rightarrow> [])))"
      by (auto simp: failed_detail_def split: option.splits if_splits)
    with m show ?thesis by simp
  qed
  from keys err fail show ?thesis by blast
qed

theorem extract_crash_details_preference_witness:
  "extract_crash_details_from_report demo_crash_report =
      Inr [(''tests/test_a.py::test_one'', ''AssertionError''),
           (''tests/test_a.py::test_two'', ''fixture missing'' @ [CHR 0x0A])]
   \<and> distinct (map nodeid (get_tests demo_crash_report))
   \<and> demo_failed_call \<in> set (get_tests demo_crash_report)
   \<and> outcome demo_failed_call = ''failed''
   \<and> map_of [(''tests/test_a.py::test_one'', ''AssertionError''),
              (''tests/test_a.py::test_two'', ''fixture missing'' @ [CHR 0x0A])]
        (nodeid demo_failed_call) = Some ''AssertionError''"
proof -
  have h1: "extract_crash_details_from_report demo_crash_report =
      Inr [(''tests/test_a.py::test_one'', ''AssertionError''),
           (''tests/test_a.py::test_two'', ''fixture missing'' @ [CHR 0x0A])]"
    by (simp add: extract_crash_details_from_report_def demo_crash_report_def get_tests_def
        demo_failed_call_def demo_error_setup_def failed_detail_def error_detail_def
        phase_crash_def get_longrepr_def)
  have h2: "distinct (map nodeid (get_tests demo_crash_report))"
    by (simp add: demo_crash_report_def get_tests_def demo_failed_call_def demo_error_setup_def)
  have h3: "demo_failed_call \<in> set (get_tests demo_crash_report)"
    by (simp add: demo_crash_report_def get_tests_def)
  have h4: "outcome demo_failed_call = ''failed''"
    by (simp add: demo_failed_call_def)
  from extract_crash_details_preference[OF h1 h2 h3] h4
  have "map_of [(''tests/test_a.py::test_one'', ''AssertionError''),
              (''tests/test_a.py::test_two'', ''fixture missing'' @ [CHR 0x0A])]
        (nodeid demo_failed_call) = Some ''AssertionError''"
    by (simp add: demo_failed_call_def phase_crash_def)
  with h1 h2 h3 h4 show ?thesis by blast
qed

text \<open>
  C9 as stated fails: for a failed test that has a top-level crash entry and a call-phase
  crash, the claim's order (call, then setup, then teardown) selects the call phase's
  crash, while the extraction records the top-level entry.
\<close>

theorem extract_crash_details_call_first_counterexample:
  "extract_crash_details_from_report \<lparr>tests = Some [demo_failed_both], collectors = None, root = None\<rparr>
     = Inr [(''t'', ''top-level crash'')]
   \<and> spec_failed_detail demo_failed_both = Some ''call crash''
   \<and> Some ''top-level crash'' \<noteq> spec_failed_detail demo_failed_both"
  by (simp add: extract_crash_details_from_report_def get_tests_def demo_failed_both_def
      failed_detail_def spec_failed_detail_def phase_crash_def)

section \<open>Claims about the differential classifier\<close>

text \<open>
  C3, as amended. For an instance whose pre-round result is an error and whose post-round
  result is a report without a root marker other than \<open>/workspace\<close>, on which the crash
  extraction returns a map: the classifier records for it \<open>FAIL_TO_PASS\<close> equal to the
  post-round node ids with outcome \<open>passed\<close> or \<open>skipped\<close>, \<open>FAIL_TO_FAIL\<close> equal to the
  keys of the extracted crash-detail map (the post-round node ids with outcome \<open>error\<close> or
  \<open>failed\<close>), and empty \<open>PASS_TO_PASS\<close> and \<open>PASS_TO_FAIL\<close>.
\<close>

theorem gather_results_baseline_error:
  assumes "gather_results pre golden = Inr out"
    and "distinct (map fst golden)"
    and "(iid, RoundReport g) \<in> set golden"
    and "map_of pre iid = Some (RoundError err tb)"
    and "extract_crash_details_from_report g = Inr cd"
    and "root g = None \<or> root g = Some [] \<or> root g = Some ''/workspace''"
  shows "\<exists>e. map_of out iid = Some (ClassEntry e)
      \<and> set (f2p e) =
          {nodeid t |t. t \<in> set (get_tests g) \<and> (outcome t = ''passed'' \<or> outcome t = ''skipped'')}
      \<and> set (f2f e) = fst ` set cd
      \<and> set (f2f e) =
          {nodeid t |t. t \<in> set (get_tests g) \<and> (outcome t = ''error'' \<or> outcome t = ''failed'')}
      \<and> p2p e = [] \<and> p2f e = []"
proof -
  from gather_results_entry[OF assms(1-5)] obtain e
    where e: "classify_entry (RoundError err tb) g cd = Inr e"
      and m: "map_of out iid = Some (ClassEntry (rewrite_root g e))"
    by blast
  from assms(6) have rw: "rewrite_root g e = e" by (rule rewrite_root_default)
  from e have fields: "f2p e = nodeids_with PASS_OUTCOMES g" "f2f e = map fst cd"
    "p2p e = []" "p2f e = []"
    by (auto simp: classify_entry_error)
  have "set (f2p e) =
      {nodeid t |t. t \<in> set (get_tests g) \<and> (outcome t = ''passed'' \<or> outcome t = ''skipped'')}"
    by (auto simp: fields set_nodeids_with PASS_OUTCOMES_def)
  moreover have "set (f2f e) = fst ` set cd" by (simp add: fields)
  moreover note extract_keys[OF assms(5)]
  ultimately show ?thesis using m rw fields by auto
qed

theorem gather_results_baseline_error_witness:
  "gather_results [(''inst'', RoundError ''build failed'' ''Traceback'')]
                  [(''inst'', RoundReport scenario_post)]
     = Inr [(''inst'', ClassEntry \<lparr>p2p = [], f2p = [''t1'', ''t3''], f2f = [''t2''], p2f = [],
                                   f2f_test_details = [(''t2'', '''')], p2f_test_details = []\<rparr>)]
   \<and> distinct (map fst [(''inst'', RoundReport scenario_post)])
   \<and> (''inst'', RoundReport scenario_post) \<in> set [(''inst'', RoundReport scenario_post)]
   \<and> map_of [(''inst'', RoundError ''build failed'' ''Traceback'')] ''inst''
        = Some (RoundError ''build failed'' ''Traceback'')
   \<and> extract_crash_details_from_report scenario_post = Inr [(''t2'', '''')]
   \<and> root scenario_post = Some ''/workspace''
   \<and> (\<exists>e. map_of [(''inst'', ClassEntry \<lparr>p2p = [], f2p = [''t1'', ''t3''], f2f = [''t2''], p2f = [],
                                   f2f_test_details = [(''t2'', '''')], p2f_test_details = []\<rparr>)] ''inst''
              = Some (ClassEntry e)
          \<and> set (f2p e) =
              {nodeid t |t. t \<in> set (get_tests scenario_post)
                 \<and> (outcome t = ''passed'' \<or> outcome t = ''skipped'')}
          \<and> set (f2f e) = fst ` set [(''t2'', ''''::string)]
          \<and> set (f2f e) =
              {nodeid t |t. t \<in> set (get_tests scenario_post)
                 \<and> (outcome t = ''error'' \<or> outcome t = ''failed'')}
          \<and> p2p e = [] \<and> p2f e = [])"
proof -
  have h5: "extract_crash_details_from_report scenario_post = Inr [(''t2'', '''')]"
    by (simp add: extract_crash_details_from_report_def scenario_post_def get_tests_def
        plain_test_def failed_detail_def phase_crash_def)
  have h1: "gather_results [(''inst'', RoundError ''build failed'' ''Traceback'')]
                  [(''inst'', RoundReport scenario_post)]
     = Inr [(''inst'', ClassEntry \<lparr>p2p = [], f2p = [''t1'', ''t3''], f2f = [''t2''], p2f = [],
                                   f2f_test_details = [(''t2'', '''')], p2f_test_details = []\<rparr>)]"
    by (simp add: gather_results_def h5 classify_entry_error rewrite_root_def)
       (simp add: scenario_post_def nodeids_with_def get_tests_def plain_test_def
          PASS_OUTCOMES_def py_set_def)
  have h2: "distinct (map fst [(''inst'', RoundReport scenario_post)])" by simp
  have h3: "(''inst'', RoundReport scenario_post) \<in> set [(''inst'', RoundReport scenario_post)]"
    by simp
  have h4: "map_of [(''inst'', RoundError ''build failed'' ''Traceback'')] ''inst''
        = Some (RoundError ''build failed'' ''Traceback'')" by simp
  have h6: "root scenario_post = Some ''/workspace''" by (simp add: scenario_post_def)
  from h6 have h6': "root scenario_post = None \<or> root scenario_post = Some []
      \<or> root scenario_post = Some ''/workspace''" by simp
  note c = gather_results_baseline_error[OF h1 h2 h3 h4 h5 h6']
  show ?thesis by (intro conjI) (rule h1 h2 h3 h4 h5 h6 c)+
qed

text \<open>
  C3 as stated fails: with the root marker \<open>/testbed\<close> on the post-round report the
  recorded \<open>FAIL_TO_PASS\<close> holds \<open>/testbed/t1\<close>, which is not a post-round node id.
\<close>

theorem gather_results_baseline_error_counterexample:
  "gather_results [(''inst'', RoundError ''build failed'' ''Traceback'')]
                  [(''inst'', RoundReport testbed_post)]
     = Inr [(''inst'', ClassEntry \<lparr>p2p = [], f2p = [''/testbed/t1''], f2f = [], p2f = [],
                                   f2f_test_details = [], p2f_test_details = []\<rparr>)]
   \<and> map nodeid (get_tests testbed_post) = [''t1'']
   \<and> set [''/testbed/t1''] \<noteq> set [''t1'']"
proof -
  have h5: "extract_crash_details_from_report testbed_post = Inr []"
    by (simp add: extract_crash_details_from_report_def testbed_post_def get_tests_def
        plain_test_def)
  have "gather_results [(''inst'', RoundError ''build failed'' ''Traceback'')]
                  [(''inst'', RoundReport testbed_post)]
     = Inr [(''inst'', ClassEntry \<lparr>p2p = [], f2p = [''/testbed/t1''], f2f = [], p2f = [],
                                   f2f_test_details = [], p2f_test_details = []\<rparr>)]"
    by (simp add: gather_results_def h5 classify_entry_error)
       (simp add: rewrite_root_def testbed_post_def nodeids_with_def get_tests_def plain_test_def
          PASS_OUTCOMES_def py_set_def os_path_join_def dict_of_items_def)
  moreover have "map nodeid (get_tests testbed_post) = [''t1'']"
    by (simp add: testbed_post_def get_tests_def plain_test_def)
  ultimately show ?thesis by simp
qed

text \<open>
  C1, as amended. For an instance whose pre-round and post-round results are both reports,
  where the post-round report has no root marker other than \<open>/workspace\<close> and the crash
  extraction returns a map on it, the classifier records the four sets as intersections:
  \<open>FAIL_TO_PASS = pre_fail \<inter> post_pass\<close>, \<open>PASS_TO_PASS = pre_pass \<inter> post_pass\<close>,
  \<open>FAIL_TO_FAIL = pre_fail \<inter> post_fail\<close>, \<open>PASS_TO_FAIL = pre_pass \<inter> post_fail\<close>, where
  the pass sets are the node ids with outcome \<open>passed\<close> or \<open>skipped\<close>, \<open>pre_fail\<close> the
  pre-round node ids with outcome \<open>failed\<close> or \<open>error\<close>, and \<open>post_fail\<close> the keys of the
  crash-detail map. The witness is the scenario of the specification.
\<close>

theorem gather_results_intersections:
  assumes "gather_results pre golden = Inr out"
    and "distinct (map fst golden)"
    and "(iid, RoundReport g) \<in> set golden"
    and "map_of pre iid = Some (RoundReport p)"
    and "extract_crash_details_from_report g = Inr cd"
    and "root g = None \<or> root g = Some [] \<or> root g = Some ''/workspace''"
  shows "\<exists>e. map_of out iid = Some (ClassEntry e)
      \<and> set (f2p e) =
          {nodeid t |t. t \<in> set (get_tests p) \<and> (outcome t = ''failed'' \<or> outcome t = ''error'')}
          \<inter> {nodeid t |t. t \<in> set (get_tests g) \<and> (outcome t = ''passed'' \<or> outcome t = ''skipped'')}
      \<and> set (p2p e) =
          {nodeid t |t. t \<in> set (get_tests p) \<and> (outcome t = ''passed'' \<or> outcome t = ''skipped'')}
          \<inter> {nodeid t |t. t \<in> set (get_tests g) \<and> (outcome t = ''passed'' \<or> outcome t = ''skipped'')}
      \<and> set (f2f e) =
          {nodeid t |t. t \<in> set (get_tests p) \<and> (outcome t = ''failed'' \<or> outcome t = ''error'')}
          \<inter> fst ` set cd
      \<and> set (p2f e) =
          {nodeid t |t. t \<in> set (get_tests p) \<and> (outcome t = ''passed'' \<or> outcome t = ''skipped'')}
          \<inter> fst ` set cd"
proof -
  from gather_results_entry[OF assms(1-5)] obtain e
    where e: "classify_entry (RoundReport p) g cd = Inr e"
      and m: "map_of out iid = Some (ClassEntry (rewrite_root g e))"
    by blast
  from assms(6) have rw: "rewrite_root g e = e" by (rule rewrite_root_default)
  from e classify_entry_report[of p g cd]
  have fields:
    "p2p e = set_inter (nodeids_with PASS_OUTCOMES p) (nodeids_with PASS_OUTCOMES g)"
    "f2p e = set_inter (nodeids_with FAIL_OUTCOMES p) (nodeids_with PASS_OUTCOMES g)"
    "f2f e = set_inter (nodeids_with FAIL_OUTCOMES p) (py_set (map fst cd))"
    "p2f e = set_inter (nodeids_with PASS_OUTCOMES p) (py_set (map fst cd))"
    by auto
  have pass: "set (nodeids_with PASS_OUTCOMES r) =
      {nodeid t |t. t \<in> set (get_tests r) \<and> (outcome t = ''passed'' \<or> outcome t = ''skipped'')}"
    for r by (auto simp: set_nodeids_with PASS_OUTCOMES_def)
  have fail: "set (nodeids_with FAIL_OUTCOMES r) =
      {nodeid t |t. t \<in> set (get_tests r) \<and> (outcome t = ''failed'' \<or> outcome t = ''error'')}"
    for r by (auto simp: set_nodeids_with FAIL_OUTCOMES_def)
  have "set (f2p e) =
          {nodeid t |t. t \<in> set (get_tests p) \<and> (outcome t = ''failed'' \<or> outcome t = ''error'')}
          \<inter> {nodeid t |t. t \<in> set (get_tests g) \<and> (outcome t = ''passed'' \<or> outcome t = ''skipped'')}"
    by (simp only: fields set_set_inter pass fail)
  moreover have "set (p2p e) =
          {nodeid t |t. t \<in> set (get_tests p) \<and> (outcome t = ''passed'' \<or> outcome t = ''skipped'')}
          \<inter> {nodeid t |t. t \<in> set (get_tests g) \<and> (outcome t = ''passed'' \<or> outcome t = ''skipped'')}"
    by (simp only: fields set_set_inter pass fail)
  moreover have "set (f2f e) =
          {nodeid t |t. t \<in> set (get_tests p) \<and> (outcome t = ''failed'' \<or> outcome t = ''error'')}
          \<inter> fst ` set cd"
    by (simp only: fields set_set_inter pass fail set_py_set set_map)
  moreover have "set (p2f e) =
          {nodeid t |t. t \<in> set (get_tests p) \<and> (outcome t = ''passed'' \<or> outcome t = ''skipped'')}
          \<inter> fst ` set cd"
    by (simp only: fields set_set_inter pass fail set_py_set set_map)
  ultimately show ?thesis using m rw by auto
qed

theorem gather_results_intersections_witness:
  "gather_results [(''inst'', RoundReport scenario_pre)] [(''inst'', RoundReport scenario_post)]
     = Inr [(''inst'', ClassEntry \<lparr>p2p = [''t3''], f2p = [''t1''], f2f = [''t2''], p2f = [],
                                   f2f_test_details = [(''t2'', '''')], p2f_test_details = []\<rparr>)]
   \<and> distinct (map fst [(''inst'', RoundReport scenario_post)])
   \<and> (''inst'', RoundReport scenario_post) \<in> set [(''inst'', RoundReport scenario_post)]
   \<and> map_of [(''inst'', RoundReport scenario_pre)] ''inst'' = Some (RoundReport scenario_pre)
   \<and> extract_crash_details_from_report scenario_post = Inr [(''t2'', '''')]
   \<and> root scenario_post = Some ''/workspace''
   \<and> (\<exists>e. map_of [(''inst'', ClassEntry \<lparr>p2p = [''t3''], f2p = [''t1''], f2f = [''t2''], p2f = [],
                                   f2f_test_details = [(''t2'', '''')], p2f_test_details = []\<rparr>)] ''inst''
              = Some (ClassEntry e)
      \<and> set (f2p e) =
          {nodeid t |t. t \<in> set (get_tests scenario_pre) \<and> (outcome t = ''failed'' \<or> outcome t = ''error'')}
          \<inter> {nodeid t |t. t \<in> set (get_tests scenario_post) \<and> (outcome t = ''passed'' \<or> outcome t = ''skipped'')}
      \<and> set (p2p e) =
          {nodeid t |t. t \<in> set (get_tests scenario_pre) \<and> (outcome t = ''passed'' \<or> outcome t = ''skipped'')}
          \<inter> {nodeid t |t. t \<in> set (get_tests scenario_post) \<and> (outcome t = ''passed'' \<or> outcome t = ''skipped'')}
      \<and> set (f2f e) =
          {nodeid t |t. t \<in> set (get_tests scenario_pre) \<and> (outcome t = ''failed'' \<or> outcome t = ''error'')}
          \<inter> fst ` set [(''t2'', ''''::string)]
      \<and> set (p2f e) =
          {nodeid t |t. t \<in> set (get_tests scenario_pre) \<and> (outcome t = ''passed'' \<or> outcome t = ''skipped'')}
          \<inter> fst ` set [(''t2'', ''''::string)])"
proof -
  have h5: "extract_crash_details_from_report scenario_post = Inr [(''t2'', '''')]"
    by (simp add: extract_crash_details_from_report_def scenario_post_def get_tests_def
        plain_test_def failed_detail_def phase_crash_def)
  have cls: "classify_entry (RoundReport scenario_pre) scenario_post [(''t2'', '''')]
      = Inr \<lparr>p2p = [''t3''], f2p = [''t1''], f2f = [''t2''], p2f = [],
             f2f_test_details = [(''t2'', '''')], p2f_test_details = []\<rparr>"
    by (simp add: classify_entry_def scenario_pre_def scenario_post_def nodeids_with_def
        get_tests_def plain_test_def PASS_OUTCOMES_def FAIL_OUTCOMES_def py_set_def set_inter_def
        dict_of_items_def)
  have h1: "gather_results [(''inst'', RoundReport scenario_pre)] [(''inst'', RoundReport scenario_post)]
     = Inr [(''inst'', ClassEntry \<lparr>p2p = [''t3''], f2p = [''t1''], f2f = [''t2''], p2f = [],
                                   f2f_test_details = [(''t2'', '''')], p2f_test_details = []\<rparr>)]"
    by (simp add: gather_results_def h5 cls) (simp add: rewrite_root_def scenario_post_def)
  have h2: "distinct (map fst [(''inst'', RoundReport scenario_post)])" by simp
  have h3: "(''inst'', RoundReport scenario_post) \<in> set [(''inst'', RoundReport scenario_post)]"
    by simp
  have h4: "map_of [(''inst'', RoundReport scenario_pre)] ''inst'' = Some (RoundReport scenario_pre)"
    by simp
  have h6: "root scenario_post = Some ''/workspace''" by (simp add: scenario_post_def)
  from h6 have h6': "root scenario_post = None \<or> root scenario_post = Some []
      \<or> root scenario_post = Some ''/workspace''" by simp
  note c = gather_results_intersections[OF h1 h2 h3 h4 h5 h6']
  show ?thesis by (intro conjI) (rule h1 h2 h3 h4 h5 h6 c)+
qed

text \<open>
  C1 as stated fails: with the root marker \<open>/testbed\<close> on the post-round report,
  \<open>pre_fail \<inter> post_pass\<close> is \<open>{t1}\<close> and the recorded \<open>FAIL_TO_PASS\<close> is \<open>{/testbed/t1}\<close>.
\<close>

theorem gather_results_intersections_counterexample:
  "gather_results [(''inst'', RoundReport t1_failed_pre)] [(''inst'', RoundReport testbed_post)]
     = Inr [(''inst'', ClassEntry \<lparr>p2p = [], f2p = [''/testbed/t1''], f2f = [], p2f = [],
                                   f2f_test_details = [], p2f_test_details = []\<rparr>)]
   \<and> set (nodeids_with FAIL_OUTCOMES t1_failed_pre) \<inter> set (nodeids_with PASS_OUTCOMES testbed_post)
       = {''t1''}
   \<and> set [''/testbed/t1''] \<noteq> {''t1''}"
proof -
  have h5: "extract_crash_details_from_report testbed_post = Inr []"
    by (simp add: extract_crash_details_from_report_def testbed_post_def get_tests_def
        plain_test_def)
  have cls: "classify_entry (RoundReport t1_failed_pre) testbed_post []
      = Inr \<lparr>p2p = [], f2p = [''t1''], f2f = [], p2f = [],
             f2f_test_details = [], p2f_test_details = []\<rparr>"
    by (simp add: classify_entry_def t1_failed_pre_def testbed_post_def nodeids_with_def
        get_tests_def plain_test_def PASS_OUTCOMES_def FAIL_OUTCOMES_def py_set_def set_inter_def
        dict_of_items_def)
  have "gather_results [(''inst'', RoundReport t1_failed_pre)] [(''inst'', RoundReport testbed_post)]
     = Inr [(''inst'', ClassEntry \<lparr>p2p = [], f2p = [''/testbed/t1''], f2f = [], p2f = [],
                                   f2f_test_details = [], p2f_test_details = []\<rparr>)]"
    by (simp add: gather_results_def h5 cls)
       (simp add: rewrite_root_def testbed_post_def os_path_join_def dict_of_items_def)
  moreover have "set (nodeids_with FAIL_OUTCOMES t1_failed_pre)
      \<inter> set (nodeids_with PASS_OUTCOMES testbed_post) = {''t1''}"
    by (simp add: t1_failed_pre_def testbed_post_def nodeids_with_def
        get_tests_def plain_test_def PASS_OUTCOMES_def FAIL_OUTCOMES_def py_set_def)
  ultimately show ?thesis by simp
qed

text \<open>
  C4, as amended. For an instance whose post-round result is a report, when each report of
  the pair lists every node id once, the crash extraction returns a map on the post-round
  report, and the post-round node ids are relative paths (no leading \<open>/\<close>) whenever a root
  marker other than \<open>/workspace\<close> is applied, the four sets recorded for the instance are
  pairwise disjoint.
\<close>

theorem gather_results_disjoint:
  assumes "gather_results pre golden = Inr out"
    and "distinct (map fst golden)"
    and "(iid, RoundReport g) \<in> set golden"
    and "map_of pre iid = Some p"
    and "extract_crash_details_from_report g = Inr cd"
    and "distinct (map nodeid (get_tests g))"
    and "case p of RoundReport r \<Rightarrow> distinct (map nodeid (get_tests r)) | RoundError _ _ \<Rightarrow> True"
    and "root g = None \<or> root g = Some [] \<or> root g = Some ''/workspace''
         \<or> (\<forall>t\<in>set (get_tests g). take 1 (nodeid t) \<noteq> ''/'')"
  shows "\<exists>e. map_of out iid = Some (ClassEntry e)
       \<and> set (f2p e) \<inter> set (p2p e) = {} \<and> set (f2p e) \<inter> set (f2f e) = {}
       \<and> set (f2p e) \<inter> set (p2f e) = {} \<and> set (p2p e) \<inter> set (f2f e) = {}
       \<and> set (p2p e) \<inter> set (p2f e) = {} \<and> set (f2f e) \<inter> set (p2f e) = {}"
proof -
  from gather_results_entry[OF assms(1-5)] obtain e
    where e: "classify_entry p g cd = Inr e"
      and m: "map_of out iid = Some (ClassEntry (rewrite_root g e))"
    by blast
  define N where "N = nodeid ` set (get_tests g)"
  from classify_entry_disjoint[OF e assms(5,6,7)]
  have dis: "set (f2p e) \<inter> set (p2p e) = {}" "set (f2p e) \<inter> set (f2f e) = {}"
      "set (f2p e) \<inter> set (p2f e) = {}" "set (p2p e) \<inter> set (f2f e) = {}"
      "set (p2p e) \<inter> set (p2f e) = {}" "set (f2f e) \<inter> set (p2f e) = {}"
    and sub: "set (f2p e) \<subseteq> N" "set (p2p e) \<subseteq> N" "set (f2f e) \<subseteq> N" "set (p2f e) \<subseteq> N"
    by (auto simp: N_def)
  from rewrite_root_sets[of g e] obtain f
    where f: "f = id \<or> (\<exists>rd. f = os_path_join rd)"
      and dflt: "(root g = None \<or> root g = Some [] \<or> root g = Some ''/workspace'') \<longrightarrow> f = id"
      and maps: "p2p (rewrite_root g e) = map f (p2p e)" "f2p (rewrite_root g e) = map f (f2p e)"
        "f2f (rewrite_root g e) = map f (f2f e)" "p2f (rewrite_root g e) = map f (p2f e)"
    by blast
  have inj: "inj_on f N"
  proof (cases "f = id")
    case True
    then show ?thesis by simp
  next
    case False
    with dflt assms(8) have "\<forall>b\<in>N. take 1 b \<noteq> ''/''" by (auto simp: N_def)
    moreover from False f obtain rd where "f = os_path_join rd" by blast
    ultimately show ?thesis by (simp add: os_path_join_inj_on)
  qed
  have "set (f2p (rewrite_root g e)) \<inter> set (p2p (rewrite_root g e)) = {}"
    "set (f2p (rewrite_root g e)) \<inter> set (f2f (rewrite_root g e)) = {}"
    "set (f2p (rewrite_root g e)) \<inter> set (p2f (rewrite_root g e)) = {}"
    "set (p2p (rewrite_root g e)) \<inter> set (f2f (rewrite_root g e)) = {}"
    "set (p2p (rewrite_root g e)) \<inter> set (p2f (rewrite_root g e)) = {}"
    "set (f2f (rewrite_root g e)) \<inter> set (p2f (rewrite_root g e)) = {}"
    unfolding maps set_map
    by (rule image_disjoint[OF inj]; fact)+
  with m show ?thesis by blast
qed

theorem gather_results_disjoint_witness:
  "gather_results [(''inst'', RoundReport scenario_pre)]
       [(''inst'', RoundReport (testbed_post\<lparr>tests := tests scenario_post\<rparr>))]
     = Inr [(''inst'', ClassEntry \<lparr>p2p = [''/testbed/t3''], f2p = [''/testbed/t1''],
                                   f2f = [''/testbed/t2''], p2f = [],
                                   f2f_test_details = [(''/testbed/t2'', '''')],
                                   p2f_test_details = []\<rparr>)]
   \<and> distinct (map fst [(''inst'', RoundReport (testbed_post\<lparr>tests := tests scenario_post\<rparr>))])
   \<and> (''inst'', RoundReport (testbed_post\<lparr>tests := tests scenario_post\<rparr>))
        \<in> set [(''inst'', RoundReport (testbed_post\<lparr>tests := tests scenario_post\<rparr>))]
   \<and> map_of [(''inst'', RoundReport scenario_pre)] ''inst'' = Some (RoundReport scenario_pre)
   \<and> extract_crash_details_from_report (testbed_post\<lparr>tests := tests scenario_post\<rparr>)
        = Inr [(''t2'', '''')]
   \<and> distinct (map nodeid (get_tests (testbed_post\<lparr>tests := tests scenario_post\<rparr>)))
   \<and> distinct (map nodeid (get_tests scenario_pre))
   \<and> list_all (\<lambda>t. take 1 (nodeid t) \<noteq> ''/'')
        (get_tests (testbed_post\<lparr>tests := tests scenario_post\<rparr>))
   \<and> (\<exists>e. map_of [(''inst'', ClassEntry \<lparr>p2p = [''/testbed/t3''], f2p = [''/testbed/t1''],
                                   f2f = [''/testbed/t2''], p2f = [],
                                   f2f_test_details = [(''/testbed/t2'', '''')],
                                   p2f_test_details = []\<rparr>)] ''inst'' = Some (ClassEntry e)
       \<and> set (f2p e) \<inter> set (p2p e) = {} \<and> set (f2p e) \<inter> set (f2f e) = {}
       \<and> set (f2p e) \<inter> set (p2f e) = {} \<and> set (p2p e) \<inter> set (f2f e) = {}
       \<and> set (p2p e) \<inter> set (p2f e) = {} \<and> set (f2f e) \<inter> set (p2f e) = {})"
proof -
  define post where "post = testbed_post\<lparr>tests := tests scenario_post\<rparr>"
  have post_eq: "post = \<lparr>tests = Some [plain_test ''t1'' ''passed'', plain_test ''t2'' ''failed'',
                    plain_test ''t3'' ''skipped''], collectors = None, root = Some ''/testbed''\<rparr>"
    by (simp add: post_def testbed_post_def scenario_post_def)
  have h5: "extract_crash_details_from_report post = Inr [(''t2'', '''')]"
    by (simp add: extract_crash_details_from_report_def post_eq get_tests_def
        plain_test_def failed_detail_def phase_crash_def)
  have cls: "classify_entry (RoundReport scenario_pre) post [(''t2'', '''')]
      = Inr \<lparr>p2p = [''t3''], f2p = [''t1''], f2f = [''t2''], p2f = [],
             f2f_test_details = [(''t2'', '''')], p2f_test_details = []\<rparr>"
    by (simp add: classify_entry_def scenario_pre_def post_eq nodeids_with_def
        get_tests_def plain_test_def PASS_OUTCOMES_def FAIL_OUTCOMES_def py_set_def set_inter_def
        dict_of_items_def)
  have h1: "gather_results [(''inst'', RoundReport scenario_pre)] [(''inst'', RoundReport post)]
     = Inr [(''inst'', ClassEntry \<lparr>p2p = [''/testbed/t3''], f2p = [''/testbed/t1''],
                                   f2f = [''/testbed/t2''], p2f = [],
                                   f2f_test_details = [(''/testbed/t2'', '''')],
                                   p2f_test_details = []\<rparr>)]"
    by (simp add: gather_results_def h5 cls)
       (simp add: rewrite_root_def post_eq os_path_join_def dict_of_items_def)
  have h2: "distinct (map fst [(''inst'', RoundReport post)])" by simp
  have h3: "(''inst'', RoundReport post) \<in> set [(''inst'', RoundReport post)]" by simp
  have h4: "map_of [(''inst'', RoundReport scenario_pre)] ''inst'' = Some (RoundReport scenario_pre)"
    by simp
  have h6: "distinct (map nodeid (get_tests post))"
    by (simp add: post_eq get_tests_def plain_test_def)
  have h7: "distinct (map nodeid (get_tests scenario_pre))"
    by (simp add: scenario_pre_def get_tests_def plain_test_def)
  have h8: "\<forall>t\<in>set (get_tests post). take 1 (nodeid t) \<noteq> ''/''"
    by (simp add: post_eq get_tests_def plain_test_def)
  from h7 have h7': "case RoundReport scenario_pre of
      RoundReport r \<Rightarrow> distinct (map nodeid (get_tests r)) | RoundError _ _ \<Rightarrow> True" by simp
  from h8 have h8l: "list_all (\<lambda>t. take 1 (nodeid t) \<noteq> ''/'') (get_tests post)"
    by (simp add: list_all_iff)
  from h8 have h8': "root post = None \<or> root post = Some [] \<or> root post = Some ''/workspace''
         \<or> (\<forall>t\<in>set (get_tests post). take 1 (nodeid t) \<noteq> ''/'')" by blast
  note c = gather_results_disjoint[OF h1 h2 h3 h4 h5 h6 h7' h8']
  show ?thesis unfolding post_def[symmetric] by (intro conjI) (rule h1 h2 h3 h4 h5 h6 h7 h8l c)+
qed

text \<open>
  C4 as stated fails: for a pre-round report that lists the node id \<open>t\<close> twice, once passed
  and once failed, and a post-round report in which \<open>t\<close> passes, \<open>t\<close> is recorded both in
  \<open>FAIL_TO_PASS\<close> and in \<open>PASS_TO_PASS\<close>.
\<close>

theorem gather_results_disjoint_counterexample:
  "gather_results [(''inst'', RoundReport twice_pre)] [(''inst'', RoundReport once_post)]
     = Inr [(''inst'', ClassEntry \<lparr>p2p = [''t''], f2p = [''t''], f2f = [], p2f = [],
                                   f2f_test_details = [], p2f_test_details = []\<rparr>)]
   \<and> set [''t''] \<inter> set [''t''] \<noteq> ({} :: string set)"
proof -
  have h5: "extract_crash_details_from_report once_post = Inr []"
    by (simp add: extract_crash_details_from_report_def once_post_def get_tests_def
        plain_test_def)
  have cls: "classify_entry (RoundReport twice_pre) once_post []
      = Inr \<lparr>p2p = [''t''], f2p = [''t''], f2f = [], p2f = [],
             f2f_test_details = [], p2f_test_details = []\<rparr>"
    by (simp add: classify_entry_def twice_pre_def once_post_def nodeids_with_def
        get_tests_def plain_test_def PASS_OUTCOMES_def FAIL_OUTCOMES_def py_set_def set_inter_def
        dict_of_items_def Let_def)
  have "gather_results [(''inst'', RoundReport twice_pre)] [(''inst'', RoundReport once_post)]
     = Inr [(''inst'', ClassEntry \<lparr>p2p = [''t''], f2p = [''t''], f2f = [], p2f = [],
                                   f2f_test_details = [], p2f_test_details = []\<rparr>)]"
    by (simp add: gather_results_def h5 cls) (simp add: rewrite_root_def once_post_def)
  then show ?thesis by simp
qed

section \<open>Claims about gathering the results of a run\<close>

text \<open>
  C5, as amended. When the report lists fewer tests than were requested, every requested
  node id that does not appear among the report's tests is marked failed (\<open>False\<close>) in the
  short-result map, and in full-report mode a synthesized entry with outcome \<open>error\<close> for
  that id is appended to the report's tests: it carries the long representation of a
  failed collector whose node id is contained in the test id when there is one, and the
  text "not found in the working directory" otherwise.
\<close>

theorem missing_tests_reconciled:
  assumes "pipeline_gather_results (Some results) test_err test_ids skipped_ok short ign = Inr out"
    and "tests results = Some result_tests"
    and "length result_tests < length test_ids"
    and "t \<in> set test_ids"
    and "t \<notin> nodeid ` set result_tests"
  shows "if short then \<exists>sr. out = ShortResults sr \<and> map_of sr t = Some False
         else \<exists>r' synth entry.
                out = FullReport r' \<and> tests r' = Some (result_tests @ synth)
              \<and> entry \<in> set synth \<and> nodeid entry = t \<and> outcome entry = ''error''
              \<and> (if \<exists>cs c. collectors results = Some cs \<and> c \<in> set cs
                          \<and> c_outcome c = ''failed'' \<and> str_contains (c_nodeid c) t
                  then \<exists>cs c. collectors results = Some cs \<and> c \<in> set cs
                          \<and> c_outcome c = ''failed'' \<and> str_contains (c_nodeid c) t
                          \<and> entry = compose_a_report_for_missing_test t (Some (c_longrepr c))
                  else entry = compose_a_report_for_missing_test t None)"
proof -
  define sr where "sr = dict_of_items
      (map (\<lambda>x. (nodeid x, if \<not> skipped_ok then outcome x = ''passed''
                            else outcome x \<in> set [''passed'', ''skipped''])) result_tests)"
  define ms where "ms = filter (\<lambda>t. t \<notin> fst ` set sr) test_ids"
  from assms(3) have ne: "test_ids \<noteq> []" by auto
  have keys: "fst ` set sr = nodeid ` set result_tests"
    by (simp add: sr_def dict_of_items_keys image_image)
  with assms(4,5) have tm: "t \<in> set ms" by (simp add: ms_def)
  from assms(1,2,3) ne obtain pc where pc: "validate_tests test_ids results ign = Inr pc"
    and out: "out = (if short then ShortResults (fst (missing_loop short pc ms (sr, result_tests)))
                     else FullReport (results\<lparr>tests := Some (snd (missing_loop short pc ms (sr, result_tests)))\<rparr>))"
    by (auto simp: pipeline_gather_results_def Let_def sr_def ms_def
        split: sum.splits prod.splits if_splits)
  show ?thesis
  proof (cases short)
    case True
    with out tm show ?thesis
      by (simp add: missing_loop_marks_failed)
  next
    case False
    define synth where "synth = map (\<lambda>t. compose_a_report_for_missing_test t (find_longrepr pc t)) ms"
    define entry where "entry = compose_a_report_for_missing_test t (find_longrepr pc t)"
    from False out have o: "out = FullReport (results\<lparr>tests := Some (result_tests @ synth)\<rparr>)"
      by (simp add: missing_loop_tests synth_def)
    have mem: "entry \<in> set synth" using tm by (auto simp: synth_def entry_def)
    have basic: "nodeid entry = t \<and> outcome entry = ''error''"
      by (simp add: entry_def compose_a_report_for_missing_test_def)
    have annot: "if \<exists>cs c. collectors results = Some cs \<and> c \<in> set cs
                          \<and> c_outcome c = ''failed'' \<and> str_contains (c_nodeid c) t
                  then \<exists>cs c. collectors results = Some cs \<and> c \<in> set cs
                          \<and> c_outcome c = ''failed'' \<and> str_contains (c_nodeid c) t
                          \<and> entry = compose_a_report_for_missing_test t (Some (c_longrepr c))
                  else entry = compose_a_report_for_missing_test t None"
    proof (cases "find_longrepr pc t")
      case None
      have "\<not> (\<exists>cs c. collectors results = Some cs \<and> c \<in> set cs
                          \<and> c_outcome c = ''failed'' \<and> str_contains (c_nodeid c) t)"
      proof
        assume "\<exists>cs c. collectors results = Some cs \<and> c \<in> set cs
                          \<and> c_outcome c = ''failed'' \<and> str_contains (c_nodeid c) t"
        then obtain cs c where c: "collectors results = Some cs" "c \<in> set cs"
          "c_outcome c = ''failed''" "str_contains (c_nodeid c) t" by blast
        from validate_tests_keys[OF pc ne c(1)] c(2,3) have "c_nodeid c \<in> fst ` set pc" by auto
        with None c(4) show False by (auto simp: find_longrepr_None)
      qed
      then show ?thesis by (subst if_not_P) (simp_all add: entry_def None)
    next
      case (Some lr)
      from find_longrepr_Some[OF Some] obtain k where k: "(k, lr) \<in> set pc" "str_contains k t"
        by blast
      from validate_tests_items[OF pc k(1)] obtain cs c where
        "collectors results = Some cs" "c \<in> set cs" "c_outcome c = ''failed''"
        "c_nodeid c = k" "c_longrepr c = lr" by blast
      with k(2) Some have ex: "\<exists>cs c. collectors results = Some cs \<and> c \<in> set cs
                          \<and> c_outcome c = ''failed'' \<and> str_contains (c_nodeid c) t
                          \<and> entry = compose_a_report_for_missing_test t (Some (c_longrepr c))"
        unfolding entry_def by metis
      then have "\<exists>cs c. collectors results = Some cs \<and> c \<in> set cs
                          \<and> c_outcome c = ''failed'' \<and> str_contains (c_nodeid c) t"
        by blast
      then show ?thesis by (subst if_P) (simp_all only: ex)
    qed
    define r' where "r' = results\<lparr>tests := Some (result_tests @ synth)\<rparr>"
    from o have A: "out = FullReport r'" by (simp add: r'_def)
    have B: "tests r' = Some (result_tests @ synth)" by (simp add: r'_def)
    from basic have C: "nodeid entry = t" and D: "outcome entry = ''error''" by simp_all
    show ?thesis
      by (subst if_not_P[OF False], rule exI[of _ r'], rule exI[of _ synth], rule exI[of _ entry])
         (intro conjI A B mem C D annot)
  qed
qed

theorem missing_tests_reconciled_witness:
  "pipeline_gather_results (Some broken_collector_report) ''''
       [''tests/test_a.py::test_one'', ''tests/test_b.py::test_two''] True False True
     = Inr (FullReport (broken_collector_report\<lparr>tests :=
         Some [plain_test ''tests/test_a.py::test_one'' ''passed'',
               compose_a_report_for_missing_test ''tests/test_b.py::test_two''
                 (Some ''SyntaxError: invalid syntax'')]\<rparr>))
   \<and> tests broken_collector_report = Some [plain_test ''tests/test_a.py::test_one'' ''passed'']
   \<and> length [plain_test ''tests/test_a.py::test_one'' ''passed'']
        < length [''tests/test_a.py::test_one'', ''tests/test_b.py::test_two'']
   \<and> ''tests/test_b.py::test_two'' \<in> set [''tests/test_a.py::test_one'', ''tests/test_b.py::test_two'']
   \<and> ''tests/test_b.py::test_two'' \<notin> nodeid ` set [plain_test ''tests/test_a.py::test_one'' ''passed'']
   \<and> (\<exists>r' synth entry.
         FullReport (broken_collector_report\<lparr>tests :=
           Some [plain_test ''tests/test_a.py::test_one'' ''passed'',
                 compose_a_report_for_missing_test ''tests/test_b.py::test_two''
                   (Some ''SyntaxError: invalid syntax'')]\<rparr>) = FullReport r'
       \<and> tests r' = Some ([plain_test ''tests/test_a.py::test_one'' ''passed''] @ synth)
       \<and> entry \<in> set synth \<and> nodeid entry = ''tests/test_b.py::test_two''
       \<and> outcome entry = ''error'')"
proof -
  have h2: "tests broken_collector_report = Some [plain_test ''tests/test_a.py::test_one'' ''passed'']"
    by (simp add: broken_collector_report_def)
  have v: "validate_tests [''tests/test_a.py::test_one'', ''tests/test_b.py::test_two'']
      broken_collector_report True = Inr [(''tests/test_b.py'', ''SyntaxError: invalid syntax'')]"
    by (simp add: validate_tests_def broken_collector_report_def)
  have f: "find_longrepr [(''tests/test_b.py'', ''SyntaxError: invalid syntax'')]
      ''tests/test_b.py::test_two'' = Some ''SyntaxError: invalid syntax''"
    by simp
  have h1: "pipeline_gather_results (Some broken_collector_report) ''''
       [''tests/test_a.py::test_one'', ''tests/test_b.py::test_two''] True False True
     = Inr (FullReport (broken_collector_report\<lparr>tests :=
         Some [plain_test ''tests/test_a.py::test_one'' ''passed'',
               compose_a_report_for_missing_test ''tests/test_b.py::test_two''
                 (Some ''SyntaxError: invalid syntax'')]\<rparr>))"
    unfolding pipeline_gather_results_def
    by (simp add: h2 v dict_of_items_def plain_test_def f del: find_longrepr.simps)
  have h3: "length [plain_test ''tests/test_a.py::test_one'' ''passed'']
        < length [''tests/test_a.py::test_one'', ''tests/test_b.py::test_two'']" by simp
  have h4: "''tests/test_b.py::test_two''
      \<in> set [''tests/test_a.py::test_one'', ''tests/test_b.py::test_two'']" by simp
  have h5: "''tests/test_b.py::test_two''
      \<notin> nodeid ` set [plain_test ''tests/test_a.py::test_one'' ''passed'']"
    by (simp add: plain_test_def)
  from missing_tests_reconciled[OF h1 h2 h3 h4 h5]
  have c: "\<exists>r' synth entry.
         FullReport (broken_collector_report\<lparr>tests :=
           Some [plain_test ''tests/test_a.py::test_one'' ''passed'',
                 compose_a_report_for_missing_test ''tests/test_b.py::test_two''
                   (Some ''SyntaxError: invalid syntax'')]\<rparr>) = FullReport r'
       \<and> tests r' = Some ([plain_test ''tests/test_a.py::test_one'' ''passed''] @ synth)
       \<and> entry \<in> set synth \<and> nodeid entry = ''tests/test_b.py::test_two''
       \<and> outcome entry = ''error''"
    by (simp only: if_False) blast
  show ?thesis by (intro conjI) (rule h1 h2 h3 h4 h5 c)+
qed

text \<open>
  C5 as stated fails: in produce mode the requested test is a file and the report lists
  the file's test functions, so the report does not list fewer tests than requested. The
  requested id appears nowhere in the report, yet it is absent from the short-result map
  and the full report is returned unchanged.
\<close>

theorem missing_tests_reconciled_counterexample:
  "pipeline_gather_results (Some file_report) '''' [''tests/test_x.py''] True True True
     = Inr (ShortResults [(''tests/test_x.py::test_a'', True)])
   \<and> pipeline_gather_results (Some file_report) '''' [''tests/test_x.py''] True False True
     = Inr (FullReport file_report)
   \<and> map nodeid (get_tests file_report) = [''tests/test_x.py::test_a'']
   \<and> map_of [(''tests/test_x.py::test_a'', True)] ''tests/test_x.py'' = None"
  by (simp add: pipeline_gather_results_def file_report_def validate_tests_def dict_of_items_def
      plain_test_def get_tests_def)

text \<open>
  C6, as amended. When the list of requested tests is not empty: a report with a failed
  collector whose long representation names \<open>ModuleNotFoundError\<close> or \<open>ImportError\<close> makes
  result gathering raise, whatever \<open>ignore_collector_errors\<close> is; when no failed collector
  names such an error (and the report has its \<open>tests\<close> key), result gathering raises
  exactly when some collector failed and \<open>ignore_collector_errors\<close> is not set.
\<close>

theorem collector_errors_raise:
  assumes "test_ids \<noteq> []"
    and "collectors results = Some cs"
  shows "((\<exists>c\<in>set cs. c_outcome c = ''failed''
            \<and> (str_contains ''ModuleNotFoundError'' (c_longrepr c)
                \<or> str_contains ''ImportError'' (c_longrepr c)))
          \<longrightarrow> (\<exists>e. pipeline_gather_results (Some results) test_err test_ids skipped_ok short ign
                   = Inl e))
       \<and> (\<not> (\<exists>c\<in>set cs. c_outcome c = ''failed''
               \<and> (str_contains ''ModuleNotFoundError'' (c_longrepr c)
                   \<or> str_contains ''ImportError'' (c_longrepr c)))
            \<and> tests results \<noteq> None
          \<longrightarrow> ((\<exists>e. pipeline_gather_results (Some results) test_err test_ids skipped_ok short ign
                   = Inl e)
               \<longleftrightarrow> (\<exists>c\<in>set cs. c_outcome c = ''failed'') \<and> \<not> ign))"
proof (intro conjI impI)
  assume "\<exists>c\<in>set cs. c_outcome c = ''failed''
            \<and> (str_contains ''ModuleNotFoundError'' (c_longrepr c)
                \<or> str_contains ''ImportError'' (c_longrepr c))"
  then obtain c where "c \<in> set cs" "c_outcome c = ''failed''"
    "str_contains ''ModuleNotFoundError'' (c_longrepr c) \<or> str_contains ''ImportError'' (c_longrepr c)"
    by blast
  from collectors_loop_import_raises[OF this] obtain e where "collectors_loop cs [] = Inl e"
    by blast
  with assms have "validate_tests test_ids results ign = Inl e"
    by (simp add: validate_tests_def)
  then show "\<exists>e. pipeline_gather_results (Some results) test_err test_ids skipped_ok short ign = Inl e"
    by (cases "tests results") (simp_all add: pipeline_gather_results_def Let_def)
next
  assume a: "\<not> (\<exists>c\<in>set cs. c_outcome c = ''failed''
               \<and> (str_contains ''ModuleNotFoundError'' (c_longrepr c)
                   \<or> str_contains ''ImportError'' (c_longrepr c)))
            \<and> tests results \<noteq> None"
  then obtain rt where rt: "tests results = Some rt" by auto
  from a have "\<forall>c\<in>set cs. c_outcome c = ''failed'' \<longrightarrow>
      \<not> str_contains ''ModuleNotFoundError'' (c_longrepr c) \<and> \<not> str_contains ''ImportError'' (c_longrepr c)"
    by blast
  from collectors_loop_returns[OF this] obtain pc where pc: "collectors_loop cs [] = Inr pc"
    by blast
  from collectors_loop_keys[OF pc]
  have "fst ` set pc = {c_nodeid c |c. c \<in> set cs \<and> c_outcome c = ''failed''}" by simp
  then have ne: "pc \<noteq> [] \<longleftrightarrow> (\<exists>c\<in>set cs. c_outcome c = ''failed'')"
    by (cases pc) auto
  have v: "validate_tests test_ids results ign =
      (if pc \<noteq> [] \<and> \<not> ign then Inl (Exception ''Failed to collect tests: '') else Inr pc)"
    using assms pc by (simp add: validate_tests_def)
  show "(\<exists>e. pipeline_gather_results (Some results) test_err test_ids skipped_ok short ign = Inl e)
        \<longleftrightarrow> (\<exists>c\<in>set cs. c_outcome c = ''failed'') \<and> \<not> ign"
  proof (cases "pc \<noteq> [] \<and> \<not> ign")
    case True
    with v have "validate_tests test_ids results ign = Inl (Exception ''Failed to collect tests: '')"
      by simp
    then have "\<exists>e. pipeline_gather_results (Some results) test_err test_ids skipped_ok short ign = Inl e"
      by (simp add: pipeline_gather_results_def Let_def rt)
    with True ne show ?thesis by blast
  next
    case False
    with v have "validate_tests test_ids results ign = Inr pc" by simp
    then have "\<exists>g. pipeline_gather_results (Some results) test_err test_ids skipped_ok short ign = Inr g"
      by (simp add: pipeline_gather_results_def Let_def rt split: prod.splits)
    then have "\<not> (\<exists>e. pipeline_gather_results (Some results) test_err test_ids skipped_ok short ign = Inl e)"
      by auto
    with False ne show ?thesis by blast
  qed
qed

theorem collector_errors_raise_witness:
  "[''tests/test_b.py::test_two''] \<noteq> []
   \<and> collectors import_error_report
       = Some [\<lparr>c_nodeid = ''tests/test_b.py'', c_outcome = ''failed'',
                 c_longrepr = ''ImportError: No module named b''\<rparr>]
   \<and> str_contains ''ImportError'' ''ImportError: No module named b''
   \<and> (\<exists>e. pipeline_gather_results (Some import_error_report) '''' [''tests/test_b.py::test_two'']
            True True True = Inl e)
   \<and> (\<exists>e. pipeline_gather_results (Some import_error_report) '''' [''tests/test_b.py::test_two'']
            True True False = Inl e)"
proof -
  have h1: "[''tests/test_b.py::test_two''] \<noteq> []" by simp
  have h2: "collectors import_error_report
       = Some [\<lparr>c_nodeid = ''tests/test_b.py'', c_outcome = ''failed'',
                 c_longrepr = ''ImportError: No module named b''\<rparr>]"
    by (simp add: import_error_report_def)
  have h3: "str_contains ''ImportError'' ''ImportError: No module named b''" by simp
  then have ex: "\<exists>c\<in>set [\<lparr>c_nodeid = ''tests/test_b.py'', c_outcome = ''failed'',
                 c_longrepr = ''ImportError: No module named b''\<rparr>]. c_outcome c = ''failed''
            \<and> (str_contains ''ModuleNotFoundError'' (c_longrepr c)
                \<or> str_contains ''ImportError'' (c_longrepr c))"
    by simp
  from collector_errors_raise[OF h1 h2, of "''''" True True True] ex
  have c1: "\<exists>e. pipeline_gather_results (Some import_error_report) '''' [''tests/test_b.py::test_two'']
            True True True = Inl e" by blast
  from collector_errors_raise[OF h1 h2, of "''''" True True False] ex
  have c2: "\<exists>e. pipeline_gather_results (Some import_error_report) '''' [''tests/test_b.py::test_two'']
            True True False = Inl e" by blast
  show ?thesis by (intro conjI) (rule h1 h2 h3 c1 c2)+
qed

text \<open>
  C6 as stated fails: with an empty list of requested tests the collectors are not
  inspected, and a report whose collector failed on an import is gathered without an
  error, also when \<open>ignore_collector_errors\<close> is not set.
\<close>

theorem collector_errors_raise_counterexample:
  "pipeline_gather_results (Some import_error_report) '''' [] True True False
     = Inr (ShortResults [])
   \<and> collectors import_error_report
       = Some [\<lparr>c_nodeid = ''tests/test_b.py'', c_outcome = ''failed'',
                 c_longrepr = ''ImportError: No module named b''\<rparr>]
   \<and> str_contains ''ImportError'' ''ImportError: No module named b''"
  by (simp add: pipeline_gather_results_def import_error_report_def validate_tests_def
      dict_of_items_def)

section \<open>Claims about the identity of a specification\<close>

text \<open>
  C2, as amended. For a spec dictionary and one of its fields: changing the value of
  \<open>install\<close>, \<open>test_cmd\<close> or \<open>eval_commands\<close> changes neither \<open>consistent_hash\<close> nor
  \<open>get_image_name\<close>; changing the value of any other field to one with a different
  canonical form changes the canonical form that is serialized and hashed; changing a
  value to one with the same canonical form (a dict and the list of its sorted key/value
  pairs have the same) leaves the hash and the image name unchanged.
\<close>

theorem spec_identity_fields:
  assumes "distinct (map fst spec)"
    and "(k, v) \<in> set spec"
  shows "(k \<in> set UNHASH_FIELDS \<longrightarrow>
            consistent_hash (AList.update k v' spec) UNHASH_FIELDS
              = consistent_hash spec UNHASH_FIELDS
          \<and> get_image_name repo_name (AList.update k v' spec) = get_image_name repo_name spec)
       \<and> (k \<notin> set UNHASH_FIELDS \<and> make_hashable v' \<noteq> make_hashable v \<longrightarrow>
            hashable_data (AList.update k v' spec) UNHASH_FIELDS
              \<noteq> hashable_data spec UNHASH_FIELDS)
       \<and> (make_hashable v' = make_hashable v \<longrightarrow>
            consistent_hash (AList.update k v' spec) UNHASH_FIELDS
              = consistent_hash spec UNHASH_FIELDS
          \<and> get_image_name repo_name (AList.update k v' spec) = get_image_name repo_name spec)"
proof -
  have same: "consistent_hash (AList.update k v' spec) UNHASH_FIELDS
              = consistent_hash spec UNHASH_FIELDS
          \<and> get_image_name repo_name (AList.update k v' spec) = get_image_name repo_name spec"
    if "hashable_data (AList.update k v' spec) UNHASH_FIELDS = hashable_data spec UNHASH_FIELDS"
    using that
    by (simp add: get_image_name_def consistent_hash_def combined_data_def serialized_def)
  have "hashable_data (AList.update k v' spec) UNHASH_FIELDS = hashable_data spec UNHASH_FIELDS"
    if "k \<in> set UNHASH_FIELDS"
    using that by (simp add: hashable_data_def filter_update_excluded)
  moreover have "hashable_data (AList.update k v' spec) UNHASH_FIELDS
      = hashable_data spec UNHASH_FIELDS"
    if "make_hashable v' = make_hashable v"
    using that by (rule hashable_data_same_canonical[OF assms])
  moreover have "hashable_data (AList.update k v' spec) UNHASH_FIELDS
      \<noteq> hashable_data spec UNHASH_FIELDS"
    if "k \<notin> set UNHASH_FIELDS" "make_hashable v' \<noteq> make_hashable v"
    using that by (rule hashable_data_changes[OF assms])
  ultimately show ?thesis using same by blast
qed

theorem spec_identity_fields_witness:
  "distinct (map fst demo_spec)
   \<and> (''test_cmd'', JStr ''pytest'') \<in> set demo_spec
   \<and> ''test_cmd'' \<in> set UNHASH_FIELDS
   \<and> consistent_hash (AList.update ''test_cmd'' (JStr ''pytest -x'') demo_spec) UNHASH_FIELDS
        = consistent_hash demo_spec UNHASH_FIELDS
   \<and> get_image_name ''encode/httpx'' (AList.update ''test_cmd'' (JStr ''pytest -x'') demo_spec)
        = get_image_name ''encode/httpx'' demo_spec
   \<and> (''python'', JStr ''3.9'') \<in> set demo_spec
   \<and> ''python'' \<notin> set UNHASH_FIELDS
   \<and> make_hashable (JStr ''3.10'') \<noteq> make_hashable (JStr ''3.9'')
   \<and> hashable_data (AList.update ''python'' (JStr ''3.10'') demo_spec) UNHASH_FIELDS
        \<noteq> hashable_data demo_spec UNHASH_FIELDS"
proof -
  have d: "distinct (map fst demo_spec)" by (simp add: demo_spec_def)
  have m1: "(''test_cmd'', JStr ''pytest'') \<in> set demo_spec" by (simp add: demo_spec_def)
  have u1: "''test_cmd'' \<in> set UNHASH_FIELDS" by (simp add: UNHASH_FIELDS_def)
  have m2: "(''python'', JStr ''3.9'') \<in> set demo_spec" by (simp add: demo_spec_def)
  have u2: "''python'' \<notin> set UNHASH_FIELDS" by (simp add: UNHASH_FIELDS_def)
  have n2: "make_hashable (JStr ''3.10'') \<noteq> make_hashable (JStr ''3.9'')" by simp
  from spec_identity_fields[OF d m1, of "JStr ''pytest -x''" "''encode/httpx''"] u1
  have c1: "consistent_hash (AList.update ''test_cmd'' (JStr ''pytest -x'') demo_spec) UNHASH_FIELDS
        = consistent_hash demo_spec UNHASH_FIELDS"
    and c2: "get_image_name ''encode/httpx'' (AList.update ''test_cmd'' (JStr ''pytest -x'') demo_spec)
        = get_image_name ''encode/httpx'' demo_spec"
    by blast+
  from spec_identity_fields[OF d m2, of "JStr ''3.10''" "''encode/httpx''"] u2 n2
  have c3: "hashable_data (AList.update ''python'' (JStr ''3.10'') demo_spec) UNHASH_FIELDS
        \<noteq> hashable_data demo_spec UNHASH_FIELDS"
    by blast
  show ?thesis by (intro conjI) (rule d m1 u1 c1 c2 m2 u2 n2 c3)+
qed

text \<open>
  C2 as stated fails in its second half: \<open>env\<close> is not one of the three excluded fields,
  and changing its value from the dict \<open>{"A": "1"}\<close> to the list \<open>[["A", "1"]]\<close> changes
  neither the hash nor the image name, because both values serialize to the same bytes.
\<close>

theorem spec_identity_fields_counterexample:
  "''env'' \<notin> set UNHASH_FIELDS
   \<and> (''env'', JDict [(''A'', JStr ''1'')]) \<in> set demo_spec
   \<and> JList [JList [JStr ''A'', JStr ''1'']] \<noteq> JDict [(''A'', JStr ''1'')]
   \<and> consistent_hash (AList.update ''env'' (JList [JList [JStr ''A'', JStr ''1'']]) demo_spec)
        UNHASH_FIELDS
        = consistent_hash demo_spec UNHASH_FIELDS
   \<and> get_image_name ''encode/httpx''
        (AList.update ''env'' (JList [JList [JStr ''A'', JStr ''1'']]) demo_spec)
        = get_image_name ''encode/httpx'' demo_spec"
proof -
  have d: "distinct (map fst demo_spec)" by (simp add: demo_spec_def)
  have m: "(''env'', JDict [(''A'', JStr ''1'')]) \<in> set demo_spec" by (simp add: demo_spec_def)
  have c: "make_hashable (JList [JList [JStr ''A'', JStr ''1'']])
      = make_hashable (JDict [(''A'', JStr ''1'')])" by simp
  have h: "hashable_data (AList.update ''env'' (JList [JList [JStr ''A'', JStr ''1'']]) demo_spec)
        UNHASH_FIELDS = hashable_data demo_spec UNHASH_FIELDS"
    by (rule hashable_data_same_canonical[OF d m c])
  have u: "''env'' \<notin> set UNHASH_FIELDS" by (simp add: UNHASH_FIELDS_def)
  from h u m show ?thesis
    by (simp add: get_image_name_def consistent_hash_def combined_data_def serialized_def)
qed

section \<open>Claims about image builds\<close>

text \<open>
  C7. In any sequence of build requests served from any state: a request whose build is
  submitted to the container runtime and whose build log holds an error entry leaves its
  image name in \<open>failed_images\<close>; and once an image name is in \<open>failed_images\<close> after some
  request, it is there after every later request, and every later request for that image
  name raises "Failed to build image ... before" with no call made to the container
  runtime or the repository cache: no image listing (the cache check), no build, no push.
  (A registry pull is never made at all: the source returns its coroutine unawaited.)
\<close>

theorem failed_image_sticky:
  "(j < length reqs
      \<and> BuildImage name \<in> set (actions (serve_all st reqs ! j))
      \<and> read_build_logs (build_logs (req_env (reqs ! j))) \<noteq> None
     \<longrightarrow> name \<in> failed_images (state_after (serve_all st reqs ! j)))
   \<and> (j < i \<and> i < length reqs \<and> name \<in> failed_images (state_after (serve_all st reqs ! j))
     \<longrightarrow> name \<in> failed_images (state_after (serve_all st reqs ! i))
        \<and> (get_image_name (req_repo (reqs ! i)) (req_spec (reqs ! i)) = Inr name
            \<longrightarrow> result (serve_all st reqs ! i)
                  = Inl (Exception (''Failed to build image '' @ name
                                    @ '' before. Skipping the build.''))
                \<and> actions (serve_all st reqs ! i) = []))"
proof (intro conjI impI)
  assume a: "j < length reqs
      \<and> BuildImage name \<in> set (actions (serve_all st reqs ! j))
      \<and> read_build_logs (build_logs (req_env (reqs ! j))) \<noteq> None"
  then obtain st' where st': "serve_all st reqs ! j = serve st' (reqs ! j)"
    using serve_all_nth_serve by blast
  with a have "BuildImage name \<in> set (actions
      (build_docker_image_from_specs (req_env (reqs ! j)) st' (req_repo (reqs ! j))
         (req_spec (reqs ! j)) (req_force_rebuild (reqs ! j)) (req_green_zone (reqs ! j))
         (req_registry (reqs ! j))))"
    by (simp add: serve_def)
  from build_marks(2)[OF this] a st'
  show "name \<in> failed_images (state_after (serve_all st reqs ! j))"
    by (simp add: serve_def)
next
  assume b: "j < i \<and> i < length reqs \<and> name \<in> failed_images (state_after (serve_all st reqs ! j))"
  then show "name \<in> failed_images (state_after (serve_all st reqs ! i))"
    using serve_all_after_failed[of j i reqs name st] by blast
next
  assume b: "j < i \<and> i < length reqs \<and> name \<in> failed_images (state_after (serve_all st reqs ! j))"
    and c: "get_image_name (req_repo (reqs ! i)) (req_spec (reqs ! i)) = Inr name"
  then show "result (serve_all st reqs ! i)
                  = Inl (Exception (''Failed to build image '' @ name
                                    @ '' before. Skipping the build.''))"
    using serve_all_after_failed[of j i reqs name st] by blast
next
  assume b: "j < i \<and> i < length reqs \<and> name \<in> failed_images (state_after (serve_all st reqs ! j))"
    and c: "get_image_name (req_repo (reqs ! i)) (req_spec (reqs ! i)) = Inr name"
  then show "actions (serve_all st reqs ! i) = []"
    using serve_all_after_failed[of j i reqs name st] by blast
qed

theorem failed_image_sticky_witness:
  "(0::nat) < length [demo_request failing_env, demo_request cached_env]
   \<and> actions (serve_all fresh_state [demo_request failing_env, demo_request cached_env] ! 0)
       = [ListImages, CloneRepo ''encode/httpx'', BuildImage demo_image]
   \<and> read_build_logs (build_logs (req_env ([demo_request failing_env, demo_request cached_env] ! 0)))
       = Some ''The command returned a non-zero code: 1''
   \<and> demo_image \<in> failed_images (state_after
        (serve_all fresh_state [demo_request failing_env, demo_request cached_env] ! 0))
   \<and> (0::nat) < 1 \<and> (1::nat) < length [demo_request failing_env, demo_request cached_env]
   \<and> get_image_name (req_repo ([demo_request failing_env, demo_request cached_env] ! 1))
        (req_spec ([demo_request failing_env, demo_request cached_env] ! 1)) = Inr demo_image
   \<and> demo_image \<in> failed_images (state_after
        (serve_all fresh_state [demo_request failing_env, demo_request cached_env] ! 1))
   \<and> result (serve_all fresh_state [demo_request failing_env, demo_request cached_env] ! 1)
       = Inl (Exception (''Failed to build image '' @ demo_image @ '' before. Skipping the build.''))
   \<and> actions (serve_all fresh_state [demo_request failing_env, demo_request cached_env] ! 1) = []"
proof -
  let ?reqs = "[demo_request failing_env, demo_request cached_env]"
  have len0: "(0::nat) < length ?reqs" and len1: "(1::nat) < length ?reqs" and lt: "(0::nat) < 1"
    by simp_all
  obtain dockerfile where fmt: "format_dockerfile ''encode__httpx'' ''3.9'' [''pytest''] None None False
      '''' '''' = Inr (Some dockerfile, None)"
    using format_dockerfile_mutation[of "''encode__httpx''" "''3.9''" "[''pytest'']" None None "''''" "''''"]
    by auto
  have prep: "prepare_build_context failing_env [ListImages] ''encode/httpx'' demo_spec False
      = Inr ([ListImages, CloneRepo ''encode/httpx''], demo_spec)"
    by (simp add: prepare_build_context_def failing_env_def demo_spec_def opt_list_field_def
        opt_str_field_def os_path_basename_def fmt)
  have first: "serve fresh_state (demo_request failing_env)
      = \<lparr>result = Inl (Exception (''Build failed: '' @ ''The command returned a non-zero code: 1'')),
         actions = [ListImages, CloneRepo ''encode/httpx'', BuildImage demo_image],
         state_after = \<lparr>image_build_locks = {demo_image}, failed_images = {demo_image}\<rparr>,
         spec_after = demo_spec\<rparr>"
    by (simp add: serve_def demo_request_def build_docker_image_from_specs_def
        get_image_name_demo fresh_state_def build_image_def prep run_build_def Let_def)
       (simp add: failing_env_def)
  have a0: "actions (serve_all fresh_state ?reqs ! 0)
       = [ListImages, CloneRepo ''encode/httpx'', BuildImage demo_image]"
    by (simp add: Let_def first)
  have logs: "read_build_logs (build_logs (req_env (?reqs ! 0)))
       = Some ''The command returned a non-zero code: 1''"
    by (simp add: demo_request_def failing_env_def)
  have name1: "get_image_name (req_repo (?reqs ! 1)) (req_spec (?reqs ! 1)) = Inr demo_image"
    by (simp add: demo_request_def get_image_name_demo)
  from a0 have mem: "BuildImage demo_image \<in> set (actions (serve_all fresh_state ?reqs ! 0))"
    by simp
  from logs have ne: "read_build_logs (build_logs (req_env (?reqs ! 0))) \<noteq> None" by simp
  from failed_image_sticky[of 0 ?reqs demo_image fresh_state 1] len0 mem ne
  have f0: "demo_image \<in> failed_images (state_after (serve_all fresh_state ?reqs ! 0))"
    by blast
  from failed_image_sticky[of 0 ?reqs demo_image fresh_state 1] lt len1 f0 name1
  have f1: "demo_image \<in> failed_images (state_after (serve_all fresh_state ?reqs ! 1))"
    and r1: "result (serve_all fresh_state ?reqs ! 1)
       = Inl (Exception (''Failed to build image '' @ demo_image @ '' before. Skipping the build.''))"
    and a1: "actions (serve_all fresh_state ?reqs ! 1) = []"
    by blast+
  show ?thesis by (intro conjI) (rule len0 a0 logs f0 lt len1 name1 f1 r1 a1)+
qed

text \<open>
  C10 fails on the code. For the spec of the repository's timeout test, whose
  \<open>pre_install\<close> is \<open>["sleep 100"]\<close>, a build that goes through \<open>format_dockerfile\<close>
  leaves \<open>["apt-get update", "sleep 100"]\<close> in the caller's spec dictionary, and the
  bytes that \<open>consistent_hash\<close> hashes for the dictionary are no longer the same.
\<close>

theorem build_changes_caller_spec:
  "spec_after (build_docker_image_from_specs quiet_env fresh_state ''encode/httpx'' sleep_spec
                 False False None)
     = AList.update ''pre_install'' (JList [JStr ''apt-get update'', JStr ''sleep 100'']) sleep_spec
   \<and> map_of sleep_spec ''pre_install'' = Some (JList [JStr ''sleep 100''])
   \<and> map_of (spec_after (build_docker_image_from_specs quiet_env fresh_state ''encode/httpx''
                 sleep_spec False False None)) ''pre_install''
       = Some (JList [JStr ''apt-get update'', JStr ''sleep 100''])
   \<and> combined_data (spec_after (build_docker_image_from_specs quiet_env fresh_state
                 ''encode/httpx'' sleep_spec False False None)) UNHASH_FIELDS
       \<noteq> combined_data sleep_spec UNHASH_FIELDS"
proof -
  obtain n where n: "get_image_name ''encode/httpx'' sleep_spec = Inr n"
    by (simp add: get_image_name_def consistent_hash_def combined_data_def serialized_def
        orjson_dumps_def fits_sleep_spec)
  obtain dockerfile where fmt: "format_dockerfile ''encode__httpx'' ''3.9'' [''pytest''] None
      (Some [''sleep 100'']) False '''' ''''
      = Inr (Some dockerfile, Some [''apt-get update'', ''sleep 100''])"
    using format_dockerfile_mutation[of "''encode__httpx''" "''3.9''" "[''pytest'']" None
        "Some [''sleep 100'']" "''''" "''''"]
    by auto
  have prep: "prepare_build_context quiet_env [ListImages] ''encode/httpx'' sleep_spec False
      = Inr ([ListImages, CloneRepo ''encode/httpx''],
             AList.update ''pre_install'' (JList [JStr ''apt-get update'', JStr ''sleep 100''])
               sleep_spec)"
    by (simp add: prepare_build_context_def quiet_env_def opt_list_field_def
        opt_str_field_def os_path_basename_def fmt)
       (simp add: sleep_spec_def opt_list_field_def opt_str_field_def os_path_basename_def fmt)
  have after: "spec_after (build_docker_image_from_specs quiet_env fresh_state ''encode/httpx''
                 sleep_spec False False None)
     = AList.update ''pre_install'' (JList [JStr ''apt-get update'', JStr ''sleep 100'']) sleep_spec"
    by (simp add: build_docker_image_from_specs_def n fresh_state_def build_image_def prep
        run_build_def Let_def)
       (simp add: quiet_env_def)
  have before: "map_of sleep_spec ''pre_install'' = Some (JList [JStr ''sleep 100''])"
    by (simp add: sleep_spec_def)
  have m: "map_of (AList.update ''pre_install'' (JList [JStr ''apt-get update'', JStr ''sleep 100''])
      sleep_spec) ''pre_install'' = Some (JList [JStr ''apt-get update'', JStr ''sleep 100''])"
    by (simp add: update_conv')
  have ne: "combined_data (AList.update ''pre_install''
        (JList [JStr ''apt-get update'', JStr ''sleep 100'']) sleep_spec) UNHASH_FIELDS
      \<noteq> combined_data sleep_spec UNHASH_FIELDS"
    by (simp add: combined_data_def serialized_sleep_spec serialized_sleep_spec_after)
  from after before m ne show ?thesis by simp
qed

section \<open>Batch mode of the scheduler\<close>

text \<open>
  C8. In batch mode, for a positive \<open>max_workers\<close>, \<open>evaluate\<close> returns. The dataset is cut
  into chunks, chunk \<open>j\<close> being the \<open>max_workers\<close> instances from position
  \<open>j * max_workers\<close> on (fewer at the end of the dataset). The groups of instances put on
  the queue are the first \<open>m\<close> chunks, each put after the one before it has drained, and the
  results returned are those of draining exactly these chunks. At least one chunk is
  submitted when there is an instance, and whenever every instance of chunk \<open>k\<close> produces an
  error result, \<open>m \<le> k + 1\<close>: no chunk after chunk \<open>k\<close> is submitted.

  When the instance ids are distinct (the dataset is a dict keyed by them), the chunks
  submitted are exactly the chunks before the first one whose instances all produce an
  error result, and that chunk; when no chunk fails in full, every chunk is submitted.
\<close>

theorem batch_mode_stops_after_failed_chunk:
  assumes "0 < max_workers"
  shows "let mw = nat max_workers;
             chunk = (\<lambda>j. take mw (drop (j * mw) instance_datas));
             n_chunks = (length instance_datas + mw - 1) div mw;
             failed = (\<lambda>c. list_all (\<lambda>a. isl (run a)) c)
         in (\<exists>m. evaluate run instance_datas max_workers True
                    = Returns (drain run (concat (map chunk [0..<m])) Map.empty, map chunk [0..<m])
                \<and> m \<le> n_chunks
                \<and> (instance_datas \<noteq> [] \<longrightarrow> 1 \<le> m)
                \<and> (\<forall>k<n_chunks. failed (chunk k) \<longrightarrow> m \<le> k + 1))
          \<and> (distinct (map args_instance_id instance_datas) \<longrightarrow>
               evaluate run instance_datas max_workers True
                 = (let chunks = map chunk [0..<n_chunks];
                        submitted = takeWhile (\<lambda>c. \<not> failed c) chunks
                                    @ take 1 (dropWhile (\<lambda>c. \<not> failed c) chunks)
                    in Returns (drain run (concat submitted) Map.empty, submitted)))"
proof -
  define mw where "mw = nat max_workers"
  define n where "n = length instance_datas"
  define idx where "idx = range_step n mw"
  define chunk where "chunk = (\<lambda>j. take mw (drop (j * mw) instance_datas))"
  from assms have mw: "0 < mw" by (simp add: mw_def)
  have ev: "evaluate run instance_datas max_workers True
      = Returns (batch_loop run mw instance_datas idx (Map.empty, []))"
    using assms by (simp add: evaluate_def mw_def idx_def n_def)
  have len: "length idx = (n + mw - 1) div mw" by (simp add: idx_def range_step_def)
  have first: "\<exists>m. evaluate run instance_datas max_workers True
                    = Returns (drain run (concat (map chunk [0..<m])) Map.empty, map chunk [0..<m])
                \<and> m \<le> (n + mw - 1) div mw
                \<and> (instance_datas \<noteq> [] \<longrightarrow> 1 \<le> m)
                \<and> (\<forall>k<(n + mw - 1) div mw. list_all (\<lambda>a. isl (run a)) (chunk k) \<longrightarrow> m \<le> k + 1)"
  proof -
    from batch_loop_submitted[of run mw instance_datas idx Map.empty "[]"]
    obtain m where
      run: "batch_loop run mw instance_datas idx (Map.empty, [])
              = (drain run (concat (map (\<lambda>i. take mw (drop i instance_datas)) (take m idx))) Map.empty,
                 [] @ map (\<lambda>i. take mw (drop i instance_datas)) (take m idx))"
      and m: "m \<le> length idx"
      and one: "idx \<noteq> [] \<longrightarrow> 1 \<le> m"
      and stop: "\<forall>k<length idx. (\<forall>a\<in>set (take mw (drop (idx ! k) instance_datas)). isl (run a))
                   \<longrightarrow> m \<le> k + 1"
      by blast
    from m have tk: "take m idx = map (\<lambda>j. j * mw) [0..<m]"
      unfolding idx_def by (rule range_step_take)
    have cs: "map (\<lambda>i. take mw (drop i instance_datas)) (take m idx) = map chunk [0..<m]"
      by (simp add: tk chunk_def comp_def)
    have e: "evaluate run instance_datas max_workers True
        = Returns (drain run (concat (map chunk [0..<m])) Map.empty, map chunk [0..<m])"
      using ev run cs by simp
    have ne: "1 \<le> m" if "instance_datas \<noteq> []"
    proof -
      from that have "0 * mw < n" by (simp add: n_def)
      with range_step_length[OF mw, of 0 n] have "idx \<noteq> []"
        by (auto simp: idx_def)
      with one show ?thesis by simp
    qed
    have st: "m \<le> k + 1"
      if "k < (n + mw - 1) div mw" and "list_all (\<lambda>a. isl (run a)) (chunk k)" for k
    proof -
      from that(1) len have k: "k < length idx" by simp
      then have "idx ! k = k * mw" unfolding idx_def by (rule range_step_nth)
      with that(2) stop k show ?thesis by (auto simp: chunk_def list_all_iff)
    qed
    from e m len ne st show ?thesis by auto
  qed
  have second: "evaluate run instance_datas max_workers True
      = Returns (drain run
                   (concat (takeWhile (\<lambda>c. \<not> list_all (\<lambda>a. isl (run a)) c)
                              (map chunk [0..<(n + mw - 1) div mw])
                            @ take 1 (dropWhile (\<lambda>c. \<not> list_all (\<lambda>a. isl (run a)) c)
                                        (map chunk [0..<(n + mw - 1) div mw]))))
                   Map.empty,
                 takeWhile (\<lambda>c. \<not> list_all (\<lambda>a. isl (run a)) c)
                   (map chunk [0..<(n + mw - 1) div mw])
                 @ take 1 (dropWhile (\<lambda>c. \<not> list_all (\<lambda>a. isl (run a)) c)
                             (map chunk [0..<(n + mw - 1) div mw])))"
    if d: "distinct (map args_instance_id instance_datas)"
  proof -
    from d have "\<forall>i\<in>set idx. distinct (map args_instance_id (take mw (drop i instance_datas)))"
      by (simp add: chunk_distinct)
    from batch_loop_exact[OF this, of run Map.empty "[]"] ev
    show ?thesis
      by (simp add: idx_def range_step_chunks chunk_def)
  qed
  from first second show ?thesis
    unfolding Let_def mw_def n_def chunk_def by blast
qed

text \<open>
  Two runs with \<open>max_workers = 2\<close>. In the scenario of two chunks of size two whose first
  two instances fail, the only group ever put on the queue is the first chunk. With five
  instances of which the second, third and fourth fail, the first chunk has a result that
  is not an error, so the second chunk is submitted; it fails in full, and the third chunk
  is never submitted.
\<close>

theorem batch_mode_stops_after_failed_chunk_witness:
  "evaluate demo_run (map demo_instance [''i1'', ''i2'', ''i3'', ''i4'']) 2 True
     = Returns ([''i1'' \<mapsto> EvalError (Exception ''Build failed''),
                 ''i2'' \<mapsto> EvalError (Exception ''Build failed'')],
                [[demo_instance ''i1'', demo_instance ''i2'']])
   \<and> evaluate demo_run_late (map demo_instance [''i1'', ''i2'', ''i3'', ''i4'', ''i5'']) 2 True
     = Returns ([''i1'' \<mapsto> EvalResult (ShortResults []),
                 ''i2'' \<mapsto> EvalError (Exception ''Build failed''),
                 ''i3'' \<mapsto> EvalError (Exception ''Build failed''),
                 ''i4'' \<mapsto> EvalError (Exception ''Build failed'')],
                [[demo_instance ''i1'', demo_instance ''i2''],
                 [demo_instance ''i3'', demo_instance ''i4'']])"
proof -
  have pos: "0 < (2::int)" by simp
  have d4: "distinct (map args_instance_id (map demo_instance [''i1'', ''i2'', ''i3'', ''i4'']))"
    by (simp add: demo_instance_def)
  have d5: "distinct (map args_instance_id
              (map demo_instance [''i1'', ''i2'', ''i3'', ''i4'', ''i5'']))"
    by (simp add: demo_instance_def)
  have n2: "[0..<2] = [0, 1]" by (simp add: upt_rec)
  have n3: "[0..<3] = [0, 1, 2]" by (simp add: upt_rec)
  have a: "evaluate demo_run (map demo_instance [''i1'', ''i2'', ''i3'', ''i4'']) 2 True
     = Returns ([''i1'' \<mapsto> EvalError (Exception ''Build failed''),
                 ''i2'' \<mapsto> EvalError (Exception ''Build failed'')],
                [[demo_instance ''i1'', demo_instance ''i2'']])"
    using batch_mode_stops_after_failed_chunk
            [OF pos, of "map demo_instance [''i1'', ''i2'', ''i3'', ''i4'']" demo_run] d4
    by (simp add: Let_def n2 demo_run_def demo_instance_def drain_def evaluate_worker_def)
  have b: "evaluate demo_run_late (map demo_instance [''i1'', ''i2'', ''i3'', ''i4'', ''i5'']) 2 True
     = Returns ([''i1'' \<mapsto> EvalResult (ShortResults []),
                 ''i2'' \<mapsto> EvalError (Exception ''Build failed''),
                 ''i3'' \<mapsto> EvalError (Exception ''Build failed''),
                 ''i4'' \<mapsto> EvalError (Exception ''Build failed'')],
                [[demo_instance ''i1'', demo_instance ''i2''],
                 [demo_instance ''i3'', demo_instance ''i4'']])"
    using batch_mode_stops_after_failed_chunk
            [OF pos, of "map demo_instance [''i1'', ''i2'', ''i3'', ''i4'', ''i5'']" demo_run_late] d5
    by (simp add: Let_def n3 demo_run_late_def demo_instance_def drain_def evaluate_worker_def)
  from a b show ?thesis by (rule conjI)
qed

end
